theory Spec2Isabelle
  imports Main
begin

section \<open>Python values, dictionaries and exceptions\<close>

text \<open>
  The request and response bodies of \<^verbatim>\<open>mlrun/serving/v2_serving.py\<close> are JSON-like
  Python values. A dict keeps its insertion order, so it is an association list with
  one entry per key. The module looks into no number, and the numbers here are integers.
\<close>

datatype pyval =
    PNone
  | PBool bool
  | PInt int
  | PStr string
  | PList "pyval list"
  | PDict "(string \<times> pyval) list"

type_synonym pydict = "(string \<times> pyval) list"

text \<open>Python's truth value of an object (\<^verbatim>\<open>if x:\<close>, \<^verbatim>\<open>x or y\<close>, \<^verbatim>\<open>not x\<close>).\<close>

fun truthy :: "pyval \<Rightarrow> bool" where
  "truthy PNone = False"
| "truthy (PBool b) = b"
| "truthy (PInt i) = (i \<noteq> 0)"
| "truthy (PStr s) = (s \<noteq> [])"
| "truthy (PList xs) = (xs \<noteq> [])"
| "truthy (PDict kvs) = (kvs \<noteq> [])"

text \<open>\<^verbatim>\<open>d.get(k)\<close> is \<open>map_of d k\<close>; \<^verbatim>\<open>d[k] = v\<close> replaces the entry in place or appends it.\<close>

fun dict_set :: "pydict \<Rightarrow> string \<Rightarrow> pyval \<Rightarrow> pydict" where
  "dict_set [] k v = [(k, v)]"
| "dict_set ((a, b) # kvs) k v = (if a = k then (a, v) # kvs else (a, b) # dict_set kvs k v)"

definition dict_get_default :: "pydict \<Rightarrow> string \<Rightarrow> pyval \<Rightarrow> pyval" where
  "dict_get_default d k dflt = (case map_of d k of None \<Rightarrow> dflt | Some v \<Rightarrow> v)"

text \<open>\<^verbatim>\<open>a or b\<close> on values.\<close>

definition py_or :: "pyval \<Rightarrow> pyval \<Rightarrow> pyval" where
  "py_or a b = (if truthy a then a else b)"

text \<open>\<^verbatim>\<open>s.strip("/")\<close>: the leading and the trailing slashes are removed.\<close>

definition strip_slash :: "string \<Rightarrow> string" where
  "strip_slash s = rev (dropWhile (\<lambda>c. c = CHR ''/'') (rev (dropWhile (\<lambda>c. c = CHR ''/'') s)))"

text \<open>\<^verbatim>\<open>sub in s\<close> on strings: \<open>sub\<close> occurs in \<open>s\<close> as a contiguous run.\<close>

fun is_prefix :: "string \<Rightarrow> string \<Rightarrow> bool" where
  "is_prefix [] s = True"
| "is_prefix (a # as) [] = False"
| "is_prefix (a # as) (b # bs) = (a = b \<and> is_prefix as bs)"

fun str_contains :: "string \<Rightarrow> string \<Rightarrow> bool" where
  "str_contains sub [] = (sub = [])"
| "str_contains sub (c # cs) = (is_prefix sub (c # cs) \<or> str_contains sub cs)"

text \<open>
  An exception is its class and \<^verbatim>\<open>str(exc)\<close>. \<open>OtherError c\<close> is any class not named
  in the module, \<open>c\<close> its name.
\<close>

datatype exn_class =
    RuntimeError
  | ValueError
  | PlainException
  | NotImplementedError
  | TypeError
  | AttributeError
  | ZeroDivisionError
  | MLRunInvalidArgumentError
  | MLRunNotFoundError
  | MLRunBadRequestError
  | OtherError string

datatype exn = Exn (exn_class: exn_class) (exn_str: string)

text \<open>\<^verbatim>\<open>f"{x}"\<close> of an optional string: \<^verbatim>\<open>None\<close> prints as \<^verbatim>\<open>None\<close>.\<close>

definition str_opt :: "string option \<Rightarrow> string" where
  "str_opt s = (case s of None \<Rightarrow> ''None'' | Some t \<Rightarrow> t)"

text \<open>
  \<^verbatim>\<open>self.error\<close> is \<^verbatim>\<open>""\<close> until a load fails, then the exception: \<open>None\<close> stands for
  the empty string.
\<close>

definition str_error :: "exn option \<Rightarrow> string" where
  "str_error e = (case e of None \<Rightarrow> [] | Some x \<Rightarrow> exn_str x)"

datatype log_level = INFO | WARN | ERROR

text \<open>A log line: level, message, keyword arguments.\<close>

type_synonym log_entry = "log_level \<times> string \<times> pydict"

section \<open>The hosting context, the output sink and the model server\<close>

text \<open>
  The output stream (\<^verbatim>\<open>context.stream.output_stream\<close>) is an external collaborator:
  \<open>sink_received\<close> is what it has been handed so far (records and partition key of each
  \<^verbatim>\<open>push\<close> call), and \<open>sink_raises\<close> says for which records its \<^verbatim>\<open>push\<close> raises, and what.
\<close>

record sink =
  sink_received :: "(pyval list \<times> pyval) list"
  sink_raises :: "pyval list \<Rightarrow> exn option"

record graph_server =
  gs_project :: string
  gs_function_name :: string
  gs_function_tag :: "string option"
  gs_track_models :: bool

text \<open>
  \<^verbatim>\<open>context._server\<close> and \<^verbatim>\<open>context.server\<close> are \<open>None\<close> when the attribute is missing or
  \<^verbatim>\<open>None\<close>. \<open>ctx_log\<close> is what \<^verbatim>\<open>context.logger\<close> has written. \<open>ctx_log_stream_batch\<close>
  and \<open>ctx_log_stream_sample\<close> are the integers that \<^verbatim>\<open>context.get_param\<close> holds under
  \<^verbatim>\<open>log_stream_batch\<close> and \<^verbatim>\<open>log_stream_sample\<close>, \<open>None\<close> when the parameter is not set.
\<close>

record graph_context =
  ctx_verbose :: bool
  ctx_worker_id :: pyval
  ctx_is_mock :: bool
  ctx_monitoring_mock :: bool
  ctx_server_private :: "graph_server option"
  ctx_server :: "graph_server option"
  ctx_stream_enabled :: bool
  ctx_hostname :: string
  ctx_function_uri :: string
  ctx_stream_uri :: string
  ctx_output_stream :: "sink option"
  ctx_log_stream_batch :: "int option"
  ctx_log_stream_sample :: "int option"
  ctx_log :: "log_entry list"

text \<open>The model artifact's metadata (\<^verbatim>\<open>self.model_spec\<close>), as far as the module reads it.\<close>

record model_spec =
  ms_key :: "string option"
  ms_db_key :: "string option"
  ms_uid :: "string option"
  ms_tag :: "string option"
  ms_labels :: pydict
  ms_inputs :: "string list"
  ms_inputs_dict :: pyval
  ms_outputs_dict :: pyval

text \<open>
  An element of a row of the batch buffer. The row is the list
  \<^verbatim>\<open>[request, op, resp, str(start), microsec, self.model.metrics]\<close>: its last element is the
  dict \<^verbatim>\<open>self.model.metrics\<close> itself, not a copy, and \<^verbatim>\<open>set_metric\<close> writes into that dict. So
  what the row shows there is the metrics of the model at the time the row is read.
\<close>

datatype batch_cell = Held pyval | ModelMetrics

text \<open>\<^verbatim>\<open>_ModelLogPusher\<close>; its \<^verbatim>\<open>self.model\<close> is the server, passed to each method.\<close>

record pusher =
  p_verbose :: bool
  p_hostname :: string
  p_function_uri :: string
  p_stream_path :: string
  p_stream_batch :: int
  p_stream_sample :: int
  p_output_stream :: "sink option"
  p_worker :: pyval
  p_sample_iter :: int
  p_batch_iter :: int
  p_batch :: "batch_cell list list"

text \<open>
  A model object handed to the constructor is opaque to the server, which only tests its
  truth value (\<^verbatim>\<open>if model:\<close>, \<^verbatim>\<open>not self.model\<close>): the object is modelled by that value.
\<close>

datatype model_obj = ModelObj (obj_truth: bool)

record server =
  class_name :: string
  name :: "string option"
  version :: string
  ctx :: graph_context
  ready :: bool
  error :: "exn option"
  protocol :: string
  model_path :: "string option"
  model_spec :: "model_spec option"
  input_path :: "string option"
  result_path :: "string option"
  metrics :: pydict
  labels :: pydict
  model :: "model_obj option"
  model_endpoint_uid :: "string option"
  shard_by_endpoint :: "bool option"
  model_logger :: "pusher option"

text \<open>\<^verbatim>\<open>name.split(":", 1)\<close> for a name that holds a colon.\<close>

definition split_colon :: "string \<Rightarrow> string \<times> string" where
  "split_colon s = (takeWhile (\<lambda>c. c \<noteq> CHR '':'') s, tl (dropWhile (\<lambda>c. c \<noteq> CHR '':'') s))"

text \<open>
  \<^verbatim>\<open>V2ModelServer.__init__\<close>. \<open>cls\<close> is the name of the (sub)class being constructed. The
  \<^verbatim>\<open>kwargs\<close> (\<^verbatim>\<open>_kwargs\<close>, \<^verbatim>\<open>_params\<close>) and \<^verbatim>\<open>_versioned_model_name\<close> are read by no function
  modelled here and are left out.
\<close>

definition init_server ::
  "string \<Rightarrow> graph_context \<Rightarrow> string option \<Rightarrow> string option \<Rightarrow> model_obj option \<Rightarrow> string option
     \<Rightarrow> string option \<Rightarrow> string option \<Rightarrow> bool option \<Rightarrow> server" where
  "init_server cls cx nm mpath mdl proto ipath rpath shard =
     (let (n, v) = (case nm of
                      None \<Rightarrow> (None, [])
                    | Some s \<Rightarrow> if s \<noteq> [] \<and> CHR '':'' \<in> set s
                                then (Some (fst (split_colon s)), snd (split_colon s))
                                else (Some s, []));
          is_true = (case mdl of None \<Rightarrow> False | Some m \<Rightarrow> obj_truth m)
      in \<lparr> class_name = cls, name = n, version = v, ctx = cx,
           ready = is_true, error = None,
           protocol = (case proto of None \<Rightarrow> ''v2'' | Some p \<Rightarrow> if p = [] then ''v2'' else p),
           model_path = mpath, model_spec = None, input_path = ipath, result_path = rpath,
           metrics = [], labels = [],
           model = (if is_true then mdl else None),
           model_endpoint_uid = None, shard_by_endpoint = shard, model_logger = None \<rparr>)"

text \<open>\<^verbatim>\<open>V2ModelServer.set_metric\<close>.\<close>

definition set_metric :: "server \<Rightarrow> string \<Rightarrow> pyval \<Rightarrow> server" where
  "set_metric srv nm v = srv\<lparr>metrics := dict_set (metrics srv) nm v\<rparr>"

section \<open>Events and the world outside the module\<close>

record trigger =
  kind :: string

text \<open>
  The event body is a value, or the \<^verbatim>\<open>context.Response(status_code, body)\<close> a terminal
  handler stores there.
\<close>

datatype ev_body = Payload pyval | Response nat string

record event =
  ev_id :: pyval
  ev_path :: string
  ev_method :: string
  ev_body :: ev_body
  ev_trigger :: "trigger option"
  ev_terminated :: bool

text \<open>The endpoint record of the registry (\<^verbatim>\<open>mlrun.common.schemas.ModelEndpoint\<close>).\<close>

datatype monitoring_mode = enabled | disabled

record endpoint =
  ep_project :: string
  ep_labels :: pydict
  ep_name :: "string option"
  ep_uid :: "string option"
  ep_endpoint_type :: string
  ep_function_name :: string
  ep_function_uid :: pyval
  ep_function_tag :: string
  ep_model_name :: "string option"
  ep_model_db_key :: "string option"
  ep_model_uid :: "string option"
  ep_model_class :: string
  ep_model_tag :: "string option"
  ep_monitoring_mode :: monitoring_mode

text \<open>The keys of a patch (\<^verbatim>\<open>ModelEndpointSchema\<close>, of \<^verbatim>\<open>mlrun.common.schemas.model_monitoring\<close>).\<close>

datatype ModelEndpointSchema =
  FUNCTION_UID | MODEL_NAME | MODEL_UID | MODEL_TAG | MODEL_DB_KEY | LABELS | MODEL_CLASS
  | MONITORING_MODE

datatype attr_value = AVal pyval | AMode monitoring_mode

text \<open>
  What the module takes from outside itself, as parameters of the model.
  \<^item> What the world decides while a call runs: the clock readings of \<^verbatim>\<open>now_date()\<close> (at the
    start of \<^verbatim>\<open>do_event\<close>, and inside \<^verbatim>\<open>push\<close>; a \<^verbatim>\<open>datetime\<close> is counted in microseconds
    since the epoch), the text of \<^verbatim>\<open>traceback.format_exc()\<close>, and the values of
    \<^verbatim>\<open>self.ready\<close> and \<^verbatim>\<open>self.error\<close> that the loading thread has written by the time the
    \<open>i\<close>-th \<^verbatim>\<open>time.sleep(5)\<close> of a readiness wait returns.
  \<^item> Library functions: \<open>isoformat t\<close> is \<^verbatim>\<open>t.isoformat(sep=" ", timespec="microseconds")\<close>,
    \<open>dt_str t\<close> is \<^verbatim>\<open>str(t)\<close> of a \<^verbatim>\<open>datetime\<close>, \<open>py_str v\<close> is \<^verbatim>\<open>str(v)\<close> of a value (for a
    list, Python's \<^verbatim>\<open>repr\<close> of it, which is also what an f-string prints).
  \<^item> \<^verbatim>\<open>mlrun.errors.err_to_str\<close>, the text that the module logs for an exception.
  \<^item> \<^verbatim>\<open>_extract_input_data\<close> and \<^verbatim>\<open>_update_result_body\<close> of \<^verbatim>\<open>mlrun/serving/utils.py\<close>, and
    \<^verbatim>\<open>mlrun.artifacts.get_model\<close> (of which the module keeps the model spec).
  \<^item> The run database \<^verbatim>\<open>mlrun.get_run_db()\<close>: what each of its four calls answers.
\<close>

record outside =
  now_start :: int
  now_push :: int
  traceback_text :: string
  ready_after :: "nat \<Rightarrow> bool"
  error_after :: "nat \<Rightarrow> exn option"
  isoformat :: "int \<Rightarrow> string"
  dt_str :: "int \<Rightarrow> string"
  py_str :: "pyval \<Rightarrow> string"
  err_to_str :: "exn \<Rightarrow> string"
  extract_input_data :: "string option \<Rightarrow> ev_body \<Rightarrow> exn + pyval"
  update_result_body :: "string option \<Rightarrow> ev_body \<Rightarrow> pyval \<Rightarrow> exn + ev_body"
  artifacts_get_model :: "string \<Rightarrow> string \<Rightarrow> exn + model_spec option"
  db_get_model_endpoint :: "string \<Rightarrow> string option \<Rightarrow> string \<Rightarrow> string \<Rightarrow> exn + endpoint"
  db_get_function :: "string \<Rightarrow> string \<Rightarrow> string \<Rightarrow> exn + pydict"
  db_create_model_endpoint :: "endpoint \<Rightarrow> exn + endpoint"
  db_patch_model_endpoint ::
    "string \<Rightarrow> string option \<Rightarrow> string option \<Rightarrow> (ModelEndpointSchema \<times> attr_value) list
       \<Rightarrow> exn + endpoint"

text \<open>
  What the module does to the world beyond its own objects: the lines of the module's
  \<^verbatim>\<open>logger\<close>, the calls of the \<^verbatim>\<open>load()\<close> hook, and the threads started.
\<close>

record world =
  w_log :: "log_entry list"
  w_load_calls :: nat
  w_threads_started :: nat

definition ctx_logger :: "log_level \<Rightarrow> string \<Rightarrow> server \<Rightarrow> server" where
  "ctx_logger lvl msg srv =
     srv\<lparr>ctx := (ctx srv)\<lparr>ctx_log := ctx_log (ctx srv) @ [(lvl, msg, [])]\<rparr>\<rparr>"

definition logger :: "log_level \<Rightarrow> string \<Rightarrow> pydict \<Rightarrow> world \<Rightarrow> world" where
  "logger lvl msg kw w = w\<lparr>w_log := w_log w @ [(lvl, msg, kw)]\<rparr>"

section \<open>Readiness\<close>

text \<open>
  The loop \<^verbatim>\<open>for i in range(50): time.sleep(5); if self.ready: return\<close>, with \<open>k\<close>
  iterations left after \<open>i\<close> sleeps: the number of sleeps at which the model was seen
  ready, or \<open>None\<close> when the iterations ran out.
\<close>

fun wait_ready :: "(nat \<Rightarrow> bool) \<Rightarrow> nat \<Rightarrow> nat \<Rightarrow> nat option" where
  "wait_ready rdy 0 i = None"
| "wait_ready rdy (Suc k) i = (if rdy (Suc i) then Some (Suc i) else wait_ready rdy k (Suc i))"

text \<open>
  \<^verbatim>\<open>V2ModelServer._check_readiness\<close>: the exception raised if any, the server (its context's
  log grows) and the seconds spent in \<^verbatim>\<open>time.sleep\<close>.
\<close>

definition check_readiness :: "outside \<Rightarrow> server \<Rightarrow> event \<Rightarrow> exn option \<times> server \<times> nat" where
  "check_readiness out srv ev =
     (if ready srv then (None, srv, 0)
      else if (case ev_trigger ev of None \<Rightarrow> True | Some t \<Rightarrow> kind t \<in> set [''http'', ''''])
      then (Some (Exn RuntimeError (''model '' @ str_opt (name srv) @ '' is not ready yet'')), srv, 0)
      else
        let srv1 = ctx_logger INFO (''waiting for model '' @ str_opt (name srv) @ '' to load'') srv
        in case wait_ready (ready_after out) 50 0 of
             Some n \<Rightarrow> (None, srv1, 5 * n)
           | None \<Rightarrow>
               (Some (Exn RuntimeError (''model '' @ str_opt (name srv) @ '' is not ready ''
                                         @ str_error (error_after out 50))),
                srv1, 5 * 50))"

section \<open>Request preparation\<close>

definition dq :: string where
  "dq = [CHR 0x22]"

definition sq :: string where
  "sq = [CHR 0x27]"

text \<open>
  The message of the error that a \<^verbatim>\<open>KeyError\<close> turns into, \<open>ks\<close> being the list it prints:
  \<^verbatim>\<open>f"... : {input_order}"\<close> prints \<^verbatim>\<open>str\<close> of the list of names.
\<close>

definition key_error_message :: "outside \<Rightarrow> string list \<Rightarrow> string" where
  "key_error_message out ks =
     ''Input dictionary don'' @ sq @ ''t contain all the necessary input keys : ''
     @ py_str out (PList (map PStr ks))"

definition is_dict :: "pyval \<Rightarrow> bool" where
  "is_dict v = (case v of PDict d \<Rightarrow> True | _ \<Rightarrow> False)"

text \<open>\<^verbatim>\<open>[d[key] for key in input_order]\<close>: \<open>None\<close> is the \<^verbatim>\<open>KeyError\<close> of a missing key.\<close>

definition pick_keys :: "string list \<Rightarrow> pydict \<Rightarrow> pyval list option" where
  "pick_keys input_order d = those (map (map_of d) input_order)"

definition pick_rows :: "string list \<Rightarrow> pyval list \<Rightarrow> pyval list option" where
  "pick_rows input_order items =
     those (map (\<lambda>item. case item of
                           PDict d \<Rightarrow> map_option PList (pick_keys input_order d)
                         | _ \<Rightarrow> None) items)"

text \<open>
  \<^verbatim>\<open>V2ModelServer._inputs_to_list\<close>. The request is the event body; \<^verbatim>\<open>request.get\<close> of a
  body that is no dict is an \<^verbatim>\<open>AttributeError\<close>.
\<close>

definition inputs_to_list :: "outside \<Rightarrow> server \<Rightarrow> pyval \<Rightarrow> exn + pyval" where
  "inputs_to_list out srv request =
     (case (case model_spec srv of
              None \<Rightarrow> None
            | Some ms \<Rightarrow> if ms_inputs ms \<noteq> [] then Some (ms_inputs ms) else None) of
        None \<Rightarrow>
          Inl (Exn MLRunInvalidArgumentError
            (''In order to use predict_dict or infer_dict operation you have to provide `model_path` ''
             @ ''to the model server and to load it by `load()` function''))
      | Some input_order \<Rightarrow>
          (case request of
             PDict req \<Rightarrow>
               (let wrong_type = Inl (Exn MLRunInvalidArgumentError
                      (''When using predict_dict or infer_dict operation the inputs must be ''
                       @ ''of type `list[dict]` or `dict`''));
                    key_error = Inl (Exn MLRunInvalidArgumentError
                                   (key_error_message out input_order))
                in case map_of req ''inputs'' of
                     Some (PList items) \<Rightarrow>
                       if list_all is_dict items
                       then (case pick_rows input_order items of
                               None \<Rightarrow> key_error
                             | Some rows \<Rightarrow> Inr (PDict (dict_set req ''inputs'' (PList rows))))
                       else wrong_type
                   | Some (PDict d) \<Rightarrow>
                       (case pick_keys input_order d of
                          None \<Rightarrow> key_error
                        | Some vals \<Rightarrow> Inr (PDict (dict_set req ''inputs'' (PList vals))))
                   | _ \<Rightarrow> wrong_type)
           | _ \<Rightarrow> Inl (Exn AttributeError ''object has no attribute get'')))"

text \<open>
  \<^verbatim>\<open>"inputs" in request\<close>: a key of a dict, an element of a list, a part of a string, and a
  \<^verbatim>\<open>TypeError\<close> on a value that is not iterable.
\<close>

definition py_in :: "string \<Rightarrow> pyval \<Rightarrow> exn + bool" where
  "py_in k v =
     (case v of
        PDict d \<Rightarrow> Inr (map_of d k \<noteq> None)
      | PList xs \<Rightarrow> Inr (PStr k \<in> set xs)
      | PStr s \<Rightarrow> Inr (str_contains k s)
      | _ \<Rightarrow> Inl (Exn TypeError ''argument is not iterable''))"

text \<open>\<^verbatim>\<open>V2ModelServer.validate\<close>.\<close>

definition validate :: "server \<Rightarrow> pyval \<Rightarrow> string \<Rightarrow> exn + pyval" where
  "validate srv request operation =
     (if protocol srv = ''v2''
      then (case py_in ''inputs'' request of
              Inl e \<Rightarrow> Inl e
            | Inr False \<Rightarrow>
                Inl (Exn PlainException (''Expected key '' @ dq @ ''inputs'' @ dq @ '' in request body''))
            | Inr True \<Rightarrow>
                (case request of
                   PDict d \<Rightarrow>
                     (case map_of d ''inputs'' of
                        Some (PList xs) \<Rightarrow> Inr request
                      | _ \<Rightarrow>
                        Inl (Exn PlainException (''Expected '' @ dq @ ''inputs'' @ dq @ '' to be a list'')))
                 | _ \<Rightarrow> Inl (Exn TypeError ''indices must be integers'')))
      else Inr request)"

section \<open>The hooks of a model class\<close>

text \<open>
  The methods a subclass of \<^verbatim>\<open>V2ModelServer\<close> supplies or overrides. They are taken as
  functions of their arguments: a hook that fails returns its exception, and a hook leaves
  the server and the request object as they are. \<open>h_custom s\<close> is the method \<^verbatim>\<open>op_s\<close>, when
  the object has that attribute.
\<close>

record hooks =
  h_load :: "server \<Rightarrow> exn + server"
  h_predict :: "pyval \<Rightarrow> exn + pyval"
  h_explain :: "pyval \<Rightarrow> exn + pyval"
  h_preprocess :: "pyval \<Rightarrow> string \<Rightarrow> exn + pyval"
  h_validate :: "server \<Rightarrow> pyval \<Rightarrow> string \<Rightarrow> exn + pyval"
  h_postprocess :: "pyval \<Rightarrow> exn + pyval"
  h_logged_results :: "pyval \<Rightarrow> pyval \<Rightarrow> string \<Rightarrow> pyval \<times> pyval"
  h_custom :: "string \<Rightarrow> (event \<Rightarrow> exn + pyval) option"

text \<open>\<^verbatim>\<open>V2ModelServer.load\<close>, the method of the base class.\<close>

definition load :: "server \<Rightarrow> exn + server" where
  "load srv =
     (if \<not> ready srv \<and> \<not> (case model srv of None \<Rightarrow> False | Some m \<Rightarrow> obj_truth m)
      then Inl (Exn ValueError ''please specify a load method or a model object'')
      else Inr srv)"

text \<open>The base class itself: \<^verbatim>\<open>predict\<close> and \<^verbatim>\<open>explain\<close> are not implemented.\<close>

definition V2ModelServer :: hooks where
  "V2ModelServer =
     \<lparr> h_load = load,
       h_predict = (\<lambda>request. Inl (Exn NotImplementedError [])),
       h_explain = (\<lambda>request. Inl (Exn NotImplementedError [])),
       h_preprocess = (\<lambda>request operation. Inr request),
       h_validate = validate,
       h_postprocess = (\<lambda>request. Inr request),
       h_logged_results = (\<lambda>request response op. (PNone, PNone)),
       h_custom = (\<lambda>s. None) \<rparr>"

section \<open>The telemetry pusher\<close>

definition opt_str :: "string option \<Rightarrow> pyval" where
  "opt_str s = (case s of None \<Rightarrow> PNone | Some t \<Rightarrow> PStr t)"

text \<open>\<^verbatim>\<open>_ModelLogPusher.__init__\<close>, with no \<^verbatim>\<open>output_stream\<close> argument, as \<^verbatim>\<open>post_init\<close> calls it.\<close>

definition init_pusher :: "graph_context \<Rightarrow> pusher" where
  "init_pusher cx =
     \<lparr> p_verbose = ctx_verbose cx,
       p_hostname = ctx_hostname cx,
       p_function_uri = ctx_function_uri cx,
       p_stream_path = ctx_stream_uri cx,
       p_stream_batch = (case ctx_log_stream_batch cx of None \<Rightarrow> 1 | Some b \<Rightarrow> b),
       p_stream_sample = (case ctx_log_stream_sample cx of None \<Rightarrow> 1 | Some n \<Rightarrow> n),
       p_output_stream = ctx_output_stream cx,
       p_worker = ctx_worker_id cx,
       p_sample_iter = 0,
       p_batch_iter = 0,
       p_batch = [] \<rparr>"

text \<open>\<^verbatim>\<open>_ModelLogPusher.base_data\<close>.\<close>

definition base_data :: "server \<Rightarrow> pusher \<Rightarrow> pydict" where
  "base_data srv p =
     (let base = [(''class'', PStr (class_name srv)),
                  (''worker'', p_worker p),
                  (''model'', opt_str (name srv)),
                  (''version'', PStr (version srv)),
                  (''host'', PStr (p_hostname p)),
                  (''function_uri'', PStr (p_function_uri p)),
                  (''endpoint_id'', opt_str (model_endpoint_uid srv))]
      in if labels srv \<noteq> [] then dict_set base ''labels'' (PDict (labels srv)) else base)"

text \<open>
  \<^verbatim>\<open>self.output_stream.push(records, partition_key=...)\<close>: the sink raises, or keeps the
  records. With no output stream the attribute access is an \<^verbatim>\<open>AttributeError\<close>.
\<close>

definition sink_push :: "pusher \<Rightarrow> pyval list \<Rightarrow> pyval \<Rightarrow> exn option \<times> pusher" where
  "sink_push p records partition_key =
     (case p_output_stream p of
        None \<Rightarrow> (Some (Exn AttributeError ''NoneType object has no attribute push''), p)
      | Some s \<Rightarrow>
          (case sink_raises s records of
             Some e \<Rightarrow> (Some e, p)
           | None \<Rightarrow>
               (None, p\<lparr>p_output_stream :=
                          Some (s\<lparr>sink_received := sink_received s @ [(records, partition_key)]\<rparr>)\<rparr>)))"

definition batch_headers :: pyval where
  "batch_headers =
     PList [PStr ''request'', PStr ''op'', PStr ''resp'', PStr ''when'', PStr ''microsec'',
            PStr ''metrics'']"

text \<open>
  The batch buffer as a value, when the record that holds it is handed to the sink: each
  row with the metrics that the model has then.
\<close>

definition read_cell :: "server \<Rightarrow> batch_cell \<Rightarrow> pyval" where
  "read_cell srv c = (case c of Held v \<Rightarrow> v | ModelMetrics \<Rightarrow> PDict (metrics srv))"

definition read_batch :: "server \<Rightarrow> batch_cell list list \<Rightarrow> pyval" where
  "read_batch srv rows = PList (map (\<lambda>row. PList (map (read_cell srv) row)) rows)"

text \<open>
  \<^verbatim>\<open>(now_date() - start).microseconds\<close>: the \<^verbatim>\<open>microseconds\<close> attribute of a \<^verbatim>\<open>timedelta\<close>,
  which Python keeps normalised as days, seconds and \<open>0 \<le> microseconds < 1000000\<close>.
\<close>

definition timedelta_microseconds :: "int \<Rightarrow> int \<Rightarrow> int" where
  "timedelta_microseconds now start = (now - start) mod 1000000"

text \<open>
  \<^verbatim>\<open>_ModelLogPusher.push\<close>: the exception raised if any, and the pusher as the call leaves
  it. \<open>srv\<close> is \<^verbatim>\<open>self.model\<close>. \<^verbatim>\<open>x % 0\<close> is a \<^verbatim>\<open>ZeroDivisionError\<close>; otherwise Python's \<^verbatim>\<open>%\<close> on
  integers is \<open>mod\<close>.
\<close>

definition push ::
  "outside \<Rightarrow> server \<Rightarrow> pusher \<Rightarrow> int \<Rightarrow> pyval \<Rightarrow> pyval \<Rightarrow> pyval \<Rightarrow> exn option \<Rightarrow> pyval
     \<Rightarrow> exn option \<times> pusher" where
  "push out srv p start request resp op err partition_key =
     (let start_str = isoformat out start in
      case err of
        Some e \<Rightarrow>
          (let data0 = base_data srv p;
               data1 = dict_set data0 ''request'' request;
               data2 = dict_set data1 ''op'' op;
               data3 = dict_set data2 ''when'' (PStr start_str);
               message = (if p_verbose p
                          then exn_str e @ [CHR 0x0A] @ traceback_text out
                          else exn_str e);
               data4 = dict_set data3 ''error'' (PStr message)
           in sink_push p [PDict data4] partition_key)
      | None \<Rightarrow>
          if p_stream_sample p = 0 then (Some (Exn ZeroDivisionError ''integer modulo by zero''), p)
          else
            let p1 = p\<lparr>p_sample_iter := (p_sample_iter p + 1) mod p_stream_sample p\<rparr> in
            if p_output_stream p1 \<noteq> None \<and> p_sample_iter p1 = 0
            then
              let microsec = timedelta_microseconds (now_push out) start in
              if p_stream_batch p1 > 1
              then
                let p2 = (if p_batch_iter p1 = 0 then p1\<lparr>p_batch := []\<rparr> else p1);
                    p3 = p2\<lparr>p_batch := p_batch p2 @
                              [[Held request, Held op, Held resp, Held (PStr (dt_str out start)),
                                Held (PInt microsec), ModelMetrics]]\<rparr>;
                    p4 = p3\<lparr>p_batch_iter := (p_batch_iter p3 + 1) mod p_stream_batch p3\<rparr>
                in if p_batch_iter p4 = 0
                   then
                     (let data0 = base_data srv p4;
                          data1 = dict_set data0 ''headers'' batch_headers;
                          data2 = dict_set data1 ''values'' (read_batch srv (p_batch p4))
                      in sink_push p4 [PDict data2] partition_key)
                   else (None, p4)
              else
                (let data0 = base_data srv p1;
                     data1 = dict_set data0 ''request'' request;
                     data2 = dict_set data1 ''op'' op;
                     data3 = dict_set data2 ''resp'' resp;
                     data4 = dict_set data3 ''when'' (PStr start_str);
                     data5 = dict_set data4 ''microsec'' (PInt microsec);
                     data6 = (if metrics srv \<noteq> []
                              then dict_set data5 ''metrics'' (PDict (metrics srv))
                              else data5)
                 in sink_push p1 [PDict data6] partition_key)
            else (None, p1))"

text \<open>
  A push without an error on this pusher gets as far as the sink: the push brings the sample
  counter to 0 and, when the pusher batches, the batch counter to 0 as well.
\<close>

definition emits :: "pusher \<Rightarrow> bool" where
  "emits p =
     (p_stream_sample p \<noteq> 0 \<and> (p_sample_iter p + 1) mod p_stream_sample p = 0
      \<and> (p_stream_batch p \<le> 1 \<or> (p_batch_iter p + 1) mod p_stream_batch p = 0))"

section \<open>The event handler\<close>

text \<open>
  The first lines of \<^verbatim>\<open>V2ModelServer.do_event\<close>, up to the dispatch: the operation and the
  event id that the handler works with, from the event and the extracted body.
\<close>

definition event_operation :: "event \<Rightarrow> pyval \<Rightarrow> pyval \<times> pyval" where
  "event_operation ev event_body =
     (let op0 = PStr (strip_slash (ev_path ev));
          event_id0 = ev_id ev;
          (op1, event_id1) =
            (case event_body of
               PDict d \<Rightarrow>
                 if d \<noteq> []
                 then (py_or op0 (case map_of d ''operation'' of None \<Rightarrow> PNone | Some v \<Rightarrow> v),
                       dict_get_default d ''id'' event_id0)
                 else (op0, event_id0)
             | _ \<Rightarrow> (op0, event_id0));
          op2 = (if \<not> truthy op1 \<and> ev_method ev \<noteq> ''GET'' then PStr ''infer'' else op1)
      in (op2, event_id1))"

text \<open>\<^verbatim>\<open>V2ModelServer._pre_event_processing_actions\<close>.\<close>

definition pre_event_processing_actions ::
  "outside \<Rightarrow> hooks \<Rightarrow> server \<Rightarrow> event \<Rightarrow> pyval \<Rightarrow> string \<Rightarrow> (exn + pyval) \<times> server" where
  "pre_event_processing_actions out h srv ev event_body op =
     (case check_readiness out srv ev of
        (Some e, srv1, slept) \<Rightarrow> (Inl e, srv1)
      | (None, srv1, slept) \<Rightarrow>
          (case (if str_contains ''_dict'' op then inputs_to_list out srv1 event_body
                 else Inr event_body) of
             Inl e \<Rightarrow> (Inl e, srv1)
           | Inr body1 \<Rightarrow>
               (case h_preprocess h body1 op of
                  Inl e \<Rightarrow> (Inl e, srv1)
                | Inr request \<Rightarrow> (h_validate h srv1 request op, srv1))))"

text \<open>
  The \<^verbatim>\<open>except Exception as exc:\<close> branch around \<^verbatim>\<open>predict\<close> and around \<^verbatim>\<open>explain\<close>: the
  exception that leaves the handler, and the server.
\<close>

definition on_inference_error ::
  "outside \<Rightarrow> server \<Rightarrow> int \<Rightarrow> pyval \<Rightarrow> string \<Rightarrow> pyval \<Rightarrow> exn \<Rightarrow> pyval \<Rightarrow> exn \<times> server" where
  "on_inference_error out srv start request op event_id exc partition_key =
     (case request of
        PDict req \<Rightarrow>
          (case model_logger srv of
             None \<Rightarrow> (exc, srv)
           | Some p \<Rightarrow>
               (case push out srv p start (PDict (dict_set req ''id'' event_id)) PNone (PStr op)
                       (Some exc) partition_key of
                  (Some e, p1) \<Rightarrow> (e, srv\<lparr>model_logger := Some p1\<rparr>)
                | (None, p1) \<Rightarrow> (exc, srv\<lparr>model_logger := Some p1\<rparr>)))
      | _ \<Rightarrow> (Exn TypeError ''object does not support item assignment'', srv))"

text \<open>The lines of \<^verbatim>\<open>do_event\<close> after the dispatch, which predict and explain share.\<close>

definition after_inference ::
  "outside \<Rightarrow> hooks \<Rightarrow> server \<Rightarrow> event \<Rightarrow> int \<Rightarrow> pyval \<Rightarrow> pyval \<Rightarrow> string \<Rightarrow> pyval \<Rightarrow> pyval
     \<Rightarrow> (exn + event) \<times> server" where
  "after_inference out h srv ev start request response0 op event_id partition_key =
     (case h_postprocess h response0 of
        Inl e \<Rightarrow> (Inl e, srv)
      | Inr response \<Rightarrow>
          (let (raised, srv1) =
                 (case model_logger srv of
                    None \<Rightarrow> (None, srv)
                  | Some p \<Rightarrow>
                      (let (inputs, outputs) = h_logged_results h request response op;
                           (e, p1) =
                             (if inputs = PNone \<and> outputs = PNone
                              then push out srv p start request response (PStr op) None
                                     partition_key
                              else push out srv p start
                                     (PDict [(''id'', event_id),
                                             (''inputs'', py_or inputs (PList []))])
                                     (PDict [(''outputs'', py_or outputs (PList []))])
                                     (PStr op) None partition_key)
                       in (e, srv\<lparr>model_logger := Some p1\<rparr>)))
           in case raised of
                Some e \<Rightarrow> (Inl e, srv1)
              | None \<Rightarrow>
                  (case update_result_body out (result_path srv1) (ev_body ev) response of
                     Inl e \<Rightarrow> (Inl e, srv1)
                   | Inr b \<Rightarrow> (Inr (ev\<lparr>ev_body := b\<rparr>), srv1))))"

text \<open>The response of a predict operation, and of an explain operation.\<close>

definition predict_response :: "outside \<Rightarrow> server \<Rightarrow> int \<Rightarrow> pyval \<Rightarrow> pyval \<Rightarrow> pydict" where
  "predict_response out srv start event_id outputs =
     (let response = [(''id'', event_id),
                      (''model_name'', opt_str (name srv)),
                      (''outputs'', outputs),
                      (''timestamp'', PStr (isoformat out start))]
      in if version srv \<noteq> [] then dict_set response ''model_version'' (PStr (version srv))
         else response)"

definition explain_response :: "server \<Rightarrow> pyval \<Rightarrow> pyval \<Rightarrow> pydict" where
  "explain_response srv event_id outputs =
     (let response = [(''id'', event_id),
                      (''model_name'', opt_str (name srv)),
                      (''outputs'', outputs)]
      in if version srv \<noteq> [] then dict_set response ''model_version'' (PStr (version srv))
         else response)"

text \<open>
  The branch of \<^verbatim>\<open>do_event\<close> for the operations \<^verbatim>\<open>predict\<close>, \<^verbatim>\<open>infer\<close>, \<^verbatim>\<open>infer_dict\<close> and
  \<^verbatim>\<open>predict_dict\<close>, and the branch for \<^verbatim>\<open>explain\<close>.
\<close>

definition predict_operation ::
  "outside \<Rightarrow> hooks \<Rightarrow> server \<Rightarrow> event \<Rightarrow> int \<Rightarrow> pyval \<Rightarrow> string \<Rightarrow> pyval \<Rightarrow> pyval
     \<Rightarrow> (exn + event) \<times> server" where
  "predict_operation out h srv ev start event_body op event_id partition_key =
     (case pre_event_processing_actions out h srv ev event_body op of
        (Inl e, srv1) \<Rightarrow> (Inl e, srv1)
      | (Inr request, srv1) \<Rightarrow>
          (case h_predict h request of
             Inl exc \<Rightarrow>
               (case on_inference_error out srv1 start request op event_id exc partition_key of
                  (e, srv2) \<Rightarrow> (Inl e, srv2))
           | Inr outputs \<Rightarrow>
               after_inference out h srv1 ev start request
                 (PDict (predict_response out srv1 start event_id outputs)) op event_id
                 partition_key))"

definition explain_operation ::
  "outside \<Rightarrow> hooks \<Rightarrow> server \<Rightarrow> event \<Rightarrow> int \<Rightarrow> pyval \<Rightarrow> string \<Rightarrow> pyval \<Rightarrow> pyval
     \<Rightarrow> (exn + event) \<times> server" where
  "explain_operation out h srv ev start event_body op event_id partition_key =
     (case pre_event_processing_actions out h srv ev event_body op of
        (Inl e, srv1) \<Rightarrow> (Inl e, srv1)
      | (Inr request, srv1) \<Rightarrow>
          (case h_explain h request of
             Inl exc \<Rightarrow>
               (case on_inference_error out srv1 start request op event_id exc partition_key of
                  (e, srv2) \<Rightarrow> (Inl e, srv2))
           | Inr outputs \<Rightarrow>
               after_inference out h srv1 ev start request
                 (PDict (explain_response srv1 event_id outputs)) op event_id partition_key))"

text \<open>
  \<^verbatim>\<open>V2ModelServer.do_event\<close>: the event returned or the exception raised, and the server as
  the call leaves it.
\<close>

definition do_event :: "outside \<Rightarrow> hooks \<Rightarrow> server \<Rightarrow> event \<Rightarrow> (exn + event) \<times> server" where
  "do_event out h srv ev =
     (let start = now_start out;
          original_body = ev_body ev
      in case extract_input_data out (input_path srv) (ev_body ev) of
           Inl e \<Rightarrow> (Inl e, srv)
         | Inr event_body \<Rightarrow>
      (let (op, event_id) = event_operation ev event_body;
           partition_key = (if shard_by_endpoint srv \<noteq> Some False
                            then opt_str (model_endpoint_uid srv) else PNone)
       in
       if op = PStr ''predict''
       then predict_operation out h srv ev start event_body ''predict'' event_id partition_key
       else if op = PStr ''infer''
       then predict_operation out h srv ev start event_body ''infer'' event_id partition_key
       else if op = PStr ''infer_dict''
       then predict_operation out h srv ev start event_body ''infer_dict'' event_id partition_key
       else if op = PStr ''predict_dict''
       then predict_operation out h srv ev start event_body ''predict_dict'' event_id partition_key
       else if op = PStr ''ready'' \<and> ev_method ev = ''GET''
       then
         (Inr (ev\<lparr>ev_terminated := True,
                   ev_body := (if ready srv
                               then Response 200 (''Model '' @ str_opt (name srv)
                                      @ '' is ready (event_id = '' @ py_str out event_id @ '')'')
                               else Response 408 ''model not ready'')\<rparr>),
          srv)
       else if op = PStr [] \<and> ev_method ev = ''GET''
       then
         (let event_body1 =
                [(''name'', opt_str (name srv)),
                 (''version'', PStr (version srv)),
                 (''inputs'', (case model_spec srv of None \<Rightarrow> PList [] | Some ms \<Rightarrow> ms_inputs_dict ms)),
                 (''outputs'', (case model_spec srv of None \<Rightarrow> PList [] | Some ms \<Rightarrow> ms_outputs_dict ms))]
          in case update_result_body out (result_path srv) original_body (PDict event_body1) of
               Inl e \<Rightarrow> (Inl e, srv)
             | Inr b \<Rightarrow> (Inr (ev\<lparr>ev_terminated := True, ev_body := b\<rparr>), srv))
       else if op = PStr ''explain''
       then explain_operation out h srv ev start event_body ''explain'' event_id partition_key
       else
         (case op of
            PStr s \<Rightarrow>
              (case h_custom h s of
                 Some op_method \<Rightarrow>
                   (case op_method ev of
                      Inl e \<Rightarrow> (Inl e, srv)
                    | Inr response \<Rightarrow>
                        (case update_result_body out (result_path srv) original_body response of
                           Inl e \<Rightarrow> (Inl e, srv)
                         | Inr b \<Rightarrow> (Inr (ev\<lparr>ev_body := b\<rparr>), srv)))
               | None \<Rightarrow>
                   (Inl (Exn ValueError (''illegal model operation '' @ s @ '', method=''
                                          @ ev_method ev)),
                    srv))
          | _ \<Rightarrow> (Inl (Exn TypeError ''can only concatenate str to str''), srv))))"

section \<open>Endpoint reconciliation and model loading\<close>

text \<open>
  \<^verbatim>\<open>V2ModelServer.get_model\<close>, as far as the server keeps its result: the model spec. (The
  parameters of the spec go to \<^verbatim>\<open>_params\<close>, which no function modelled here reads.)
\<close>

definition get_model :: "outside \<Rightarrow> server \<Rightarrow> string \<Rightarrow> exn option \<times> server" where
  "get_model out srv suffix =
     (case model_path srv of
        None \<Rightarrow> (None, srv)
      | Some path \<Rightarrow>
          if path = [] then (None, srv)
          else (case artifacts_get_model out path suffix of
                  Inl e \<Rightarrow> (Some e, srv)
                | Inr spec \<Rightarrow> (None, srv\<lparr>model_spec := spec\<rparr>)))"

text \<open>\<^verbatim>\<open>function.get("metadata", {}).get("uid")\<close>.\<close>

definition function_uid_of :: "pydict \<Rightarrow> exn + pyval" where
  "function_uid_of function =
     (case dict_get_default function ''metadata'' (PDict []) of
        PDict md \<Rightarrow> Inr (dict_get_default md ''uid'' PNone)
      | _ \<Rightarrow> Inl (Exn AttributeError ''object has no attribute get''))"

text \<open>
  The patch of \<^verbatim>\<open>_init_endpoint_record\<close>: the fields of the remote record that differ from
  the local ones, in the order the code tests them. Two label dicts are equal when they hold
  the same entries, in any order.
\<close>

definition endpoint_attributes ::
  "server \<Rightarrow> bool \<Rightarrow> pyval \<Rightarrow> string option \<Rightarrow> string option \<Rightarrow> string option \<Rightarrow> string option
     \<Rightarrow> pydict \<Rightarrow> endpoint \<Rightarrow> (ModelEndpointSchema \<times> attr_value) list" where
  "endpoint_attributes srv track function_uid model_name model_db_key model_uid model_tag
     model_labels model_ep =
     (if function_uid \<noteq> ep_function_uid model_ep then [(FUNCTION_UID, AVal function_uid)] else [])
     @ (if model_name \<noteq> ep_model_name model_ep then [(MODEL_NAME, AVal (opt_str model_name))] else [])
     @ (if model_uid \<noteq> ep_model_uid model_ep then [(MODEL_UID, AVal (opt_str model_uid))] else [])
     @ (if model_tag \<noteq> ep_model_tag model_ep then [(MODEL_TAG, AVal (opt_str model_tag))] else [])
     @ (if model_db_key \<noteq> ep_model_db_key model_ep
        then [(MODEL_DB_KEY, AVal (opt_str model_db_key))] else [])
     @ (if set model_labels \<noteq> set (ep_labels model_ep)
        then [(LABELS, AVal (PDict model_labels))] else [])
     @ (if class_name srv \<noteq> ep_model_class model_ep
        then [(MODEL_CLASS, AVal (PStr (class_name srv)))] else [])
     @ (if (ep_monitoring_mode model_ep = enabled) \<noteq> track
        then [(MONITORING_MODE, AMode (if track then enabled else disabled))] else [])"

text \<open>\<^verbatim>\<open>graph_server.function_tag or "latest"\<close>.\<close>

definition function_tag_or_latest :: "graph_server \<Rightarrow> string" where
  "function_tag_or_latest graph_server =
     (case gs_function_tag graph_server of
        None \<Rightarrow> ''latest''
      | Some t \<Rightarrow> if t = [] then ''latest'' else t)"

text \<open>
  The lines of \<^verbatim>\<open>_init_endpoint_record\<close> after the lookup, \<open>model_ep0\<close> being the record found
  (\<open>None\<close> when the lookup found none): the endpoint id returned (\<open>None\<close> for Python's \<^verbatim>\<open>None\<close>)
  or the exception raised, and the lines written to the module's log. The keyword argument
  \<^verbatim>\<open>attributes\<close> of the log line of a patch is left out.
\<close>

definition after_lookup ::
  "outside \<Rightarrow> graph_server \<Rightarrow> server \<Rightarrow> endpoint option
     \<Rightarrow> (exn + string option) \<times> log_entry list" where
  "after_lookup out graph_server srv model_ep0 =
     (let (model_name, model_db_key, model_uid, model_tag, model_labels) =
            (case model_spec srv of
               Some ms \<Rightarrow> (ms_key ms, ms_db_key ms, ms_uid ms, ms_tag ms, ms_labels ms)
             | None \<Rightarrow> (None, None, None, None, []));
          tag = function_tag_or_latest graph_server
      in
      case db_get_function out (gs_function_name graph_server) (gs_project graph_server) tag of
        Inl e \<Rightarrow> (Inl e, [])
      | Inr function \<Rightarrow>
      (case function_uid_of function of
         Inl e \<Rightarrow> (Inl e, [])
       | Inr function_uid \<Rightarrow>
      (case ctx_server (ctx srv) of
         None \<Rightarrow> (Inl (Exn AttributeError ''object has no attribute track_models''), [])
       | Some context_server \<Rightarrow>
      (let track = gs_track_models context_server in
       case model_ep0 of
         None \<Rightarrow>
           if track
           then
             (let line = (INFO, ''Creating a new model endpoint record'',
                          [(''name'', opt_str (name srv)),
                           (''project'', PStr (gs_project graph_server)),
                           (''function_name'', PStr (gs_function_name graph_server)),
                           (''function_tag'', PStr tag),
                           (''function_uid'', function_uid),
                           (''model_name'', opt_str model_name),
                           (''model_tag'', opt_str model_tag),
                           (''model_db_key'', opt_str model_db_key),
                           (''model_uid'', opt_str model_uid),
                           (''model_class'', PStr (class_name srv))]);
                  model_ep =
                    \<lparr> ep_project = gs_project graph_server,
                      ep_labels = model_labels,
                      ep_name = name srv,
                      ep_uid = None,
                      ep_endpoint_type = ''NODE_EP'',
                      ep_function_name = gs_function_name graph_server,
                      ep_function_uid = function_uid,
                      ep_function_tag = tag,
                      ep_model_name = model_name,
                      ep_model_db_key = model_db_key,
                      ep_model_uid = model_uid,
                      ep_model_class = class_name srv,
                      ep_model_tag = model_tag,
                      ep_monitoring_mode = (if track then enabled else disabled) \<rparr>
              in case db_create_model_endpoint out model_ep of
                   Inl e \<Rightarrow> (Inl e, [line])
                 | Inr created \<Rightarrow> (Inr (ep_uid created), [line]))
           else (Inr None, [])
       | Some model_ep \<Rightarrow>
           (let attributes = endpoint_attributes srv track function_uid model_name model_db_key
                               model_uid model_tag model_labels model_ep
            in if attributes \<noteq> []
               then
                 (let line = (INFO, ''Updating model endpoint attributes'',
                              [(''project'', PStr (ep_project model_ep)),
                               (''name'', opt_str (ep_name model_ep)),
                               (''function_name'', PStr (ep_function_name model_ep))])
                  in case db_patch_model_endpoint out (ep_project model_ep) (ep_name model_ep)
                            (ep_uid model_ep) attributes of
                       Inl e \<Rightarrow> (Inl e, [line])
                     | Inr patched \<Rightarrow> (Inr (ep_uid patched), [line]))
               else (Inr (ep_uid model_ep), []))))))"

text \<open>
  \<^verbatim>\<open>_init_endpoint_record\<close>: the endpoint id returned or the exception raised, the server
  (\<^verbatim>\<open>get_model\<close> may fill its model spec) and the world (the module's log). Of the exceptions
  of the lookup, \<^verbatim>\<open>MLRunNotFoundError\<close> and \<^verbatim>\<open>MLRunBadRequestError\<close> are caught.
\<close>

definition init_endpoint_record ::
  "outside \<Rightarrow> graph_server \<Rightarrow> server \<Rightarrow> world \<Rightarrow> (exn + string option) \<times> server \<times> world" where
  "init_endpoint_record out graph_server srv w =
     (let w1 = logger INFO ''Initializing endpoint records'' [] w;
          (raised, srv1) = (if model_spec srv = None then get_model out srv [] else (None, srv))
      in case raised of
           Some e \<Rightarrow> (Inl e, srv1, w1)
         | None \<Rightarrow>
             (case db_get_model_endpoint out (gs_project graph_server) (name srv1)
                     (gs_function_name graph_server) (function_tag_or_latest graph_server) of
                Inr model_ep \<Rightarrow>
                  (case after_lookup out graph_server srv1 (Some model_ep) of
                     (result, lines) \<Rightarrow> (result, srv1, w1\<lparr>w_log := w_log w1 @ lines\<rparr>))
              | Inl err \<Rightarrow>
                  if exn_class err = MLRunNotFoundError
                  then (case after_lookup out graph_server srv1 None of
                          (result, lines) \<Rightarrow> (result, srv1, w1\<lparr>w_log := w_log w1 @ lines\<rparr>))
                  else if exn_class err = MLRunBadRequestError
                  then (Inr None, srv1,
                        logger INFO ''Cannot get the model endpoints store''
                          [(''err'', PStr (err_to_str out err))] w1)
                  else (Inl err, srv1, w1)))"

text \<open>\<^verbatim>\<open>V2ModelServer._load_and_update_state\<close>, with the \<^verbatim>\<open>load()\<close> of the class \<open>h\<close>.\<close>

definition load_and_update_state ::
  "outside \<Rightarrow> hooks \<Rightarrow> server \<Rightarrow> world \<Rightarrow> exn option \<times> server \<times> world" where
  "load_and_update_state out h srv w =
     (let w1 = w\<lparr>w_load_calls := w_load_calls w + 1\<rparr> in
      case h_load h srv of
        Inl exc \<Rightarrow>
          (Some (Exn RuntimeError (''failed to load model '' @ str_opt (name srv))),
           ctx_logger ERROR (traceback_text out) (srv\<lparr>error := Some exc\<rparr>), w1)
      | Inr srv1 \<Rightarrow>
          (None,
           ctx_logger INFO (''model '' @ str_opt (name srv1) @ '' was loaded'') (srv1\<lparr>ready := True\<rparr>),
           w1))"

text \<open>
  \<^verbatim>\<open>V2ModelServer.post_init\<close>. In \<^verbatim>\<open>async\<close> mode the load runs on a thread of its own, which
  is counted as started; what it writes is seen through \<open>ready_after\<close> and \<open>error_after\<close>.
\<close>

definition post_init ::
  "outside \<Rightarrow> hooks \<Rightarrow> server \<Rightarrow> world \<Rightarrow> string \<Rightarrow> exn option \<times> server \<times> world" where
  "post_init out h srv w mode =
     (let (raised, srv1, w1) =
            (if \<not> ready srv
             then if mode = ''async''
                  then (None,
                        ctx_logger INFO (''started async model loading for '' @ str_opt (name srv)) srv,
                        w\<lparr>w_threads_started := w_threads_started w + 1\<rparr>)
                  else load_and_update_state out h srv w
             else (None, srv, w))
      in case raised of
           Some e \<Rightarrow> (Some e, srv1, w1)
         | None \<Rightarrow>
             (case (case ctx_server_private (ctx srv1) of
                      Some s \<Rightarrow> Some s
                    | None \<Rightarrow> ctx_server (ctx srv1)) of
                None \<Rightarrow>
                  (None, srv1,
                   logger WARN ''GraphServer not initialized for VotingEnsemble instance'' [] w1)
              | Some graph_server \<Rightarrow>
                  (let (raised2, srv2, w2) =
                         (if \<not> ctx_is_mock (ctx srv1) \<or> ctx_monitoring_mock (ctx srv1)
                          then (case init_endpoint_record out graph_server srv1 w1 of
                                  (Inl e, s, w') \<Rightarrow> (Some e, s, w')
                                | (Inr uid, s, w') \<Rightarrow> (None, s\<lparr>model_endpoint_uid := uid\<rparr>, w'))
                          else (None, srv1, w1))
                   in case raised2 of
                        Some e \<Rightarrow> (Some e, srv2, w2)
                      | None \<Rightarrow>
                          (None,
                           srv2\<lparr>model_logger := (if ctx_stream_enabled (ctx srv2)
                                                  then Some (init_pusher (ctx srv2)) else None)\<rparr>,
                           w2))))"

section \<open>Sequences of pushes\<close>

text \<open>
  One call of \<^verbatim>\<open>push\<close>: its arguments, and what the call finds around it, the world outside
  and the model server (\<^verbatim>\<open>self.model\<close>) as they are during the call. Between two calls the
  server may have changed, by \<^verbatim>\<open>set_metric\<close> for one.
\<close>

record push_call =
  pc_out :: outside
  pc_model :: server
  pc_start :: int
  pc_request :: pyval
  pc_resp :: pyval
  pc_op :: pyval
  pc_error :: "exn option"
  pc_partition_key :: pyval

definition push_one :: "pusher \<Rightarrow> push_call \<Rightarrow> exn option \<times> pusher" where
  "push_one p c =
     push (pc_out c) (pc_model c) p (pc_start c) (pc_request c) (pc_resp c) (pc_op c) (pc_error c)
       (pc_partition_key c)"

text \<open>
  The calls of a list, one after the other on the same pusher. A call that raises leaves
  the pusher as it was when the exception left \<^verbatim>\<open>push\<close>, and the next call goes on from there.
\<close>

fun pushes :: "pusher \<Rightarrow> push_call list \<Rightarrow> pusher" where
  "pushes p [] = p"
| "pushes p (c # cs) = pushes (snd (push_one p c)) cs"

text \<open>What the sink of a pusher has received.\<close>

definition received :: "pusher \<Rightarrow> (pyval list \<times> pyval) list" where
  "received p = (case p_output_stream p of None \<Rightarrow> [] | Some s \<Rightarrow> sink_received s)"

text \<open>The calls of a list that carry an error, and those that do not.\<close>

definition is_error_call :: "push_call \<Rightarrow> bool" where
  "is_error_call c = (pc_error c \<noteq> None)"

definition error_calls :: "push_call list \<Rightarrow> push_call list" where
  "error_calls cs = filter is_error_call cs"

definition plain_calls :: "push_call list \<Rightarrow> push_call list" where
  "plain_calls cs = filter (\<lambda>c. \<not> is_error_call c) cs"

text \<open>
  The calls without an error that pass the sampling of rate \<open>n\<close>, the counter standing at
  \<open>c\<close> before the first: every call moves the counter on by one modulo \<open>n\<close>, and the call
  that brings it to zero passes.
\<close>

fun sampled :: "int \<Rightarrow> int \<Rightarrow> push_call list \<Rightarrow> push_call list" where
  "sampled n c [] = []"
| "sampled n c (x # xs) =
     (if (c + 1) mod n = 0 then x # sampled n ((c + 1) mod n) xs
      else sampled n ((c + 1) mod n) xs)"

text \<open>
  The calls of a list that a pusher emits: those without an error that pass its sampling.
\<close>

definition emitted :: "pusher \<Rightarrow> push_call list \<Rightarrow> push_call list" where
  "emitted p cs = sampled (p_stream_sample p) (p_sample_iter p) (plain_calls cs)"

text \<open>
  The records as the sink is to get them, written out field by field. \<open>fields\<close> are the
  fields that every record starts with; the key \<^verbatim>\<open>labels\<close> is there when the model has labels.
\<close>

definition fields :: "server \<Rightarrow> pusher \<Rightarrow> pydict" where
  "fields m p =
     [(''class'', PStr (class_name m)),
      (''worker'', p_worker p),
      (''model'', case name m of None \<Rightarrow> PNone | Some n \<Rightarrow> PStr n),
      (''version'', PStr (version m)),
      (''host'', PStr (p_hostname p)),
      (''function_uri'', PStr (p_function_uri p)),
      (''endpoint_id'', case model_endpoint_uid m of None \<Rightarrow> PNone | Some u \<Rightarrow> PStr u)]
     @ (if labels m = [] then [] else [(''labels'', PDict (labels m))])"

text \<open>
  The row of a call in the record of a batch: request, op, resp, when, microsec, metrics.
  \<open>m\<close> is the model server as it is when the batch is handed to the sink.
\<close>

definition batch_row :: "server \<Rightarrow> push_call \<Rightarrow> pyval" where
  "batch_row m c =
     PList [pc_request c, pc_op c, pc_resp c, PStr (dt_str (pc_out c) (pc_start c)),
            PInt ((now_push (pc_out c) - pc_start c) mod 1000000),
            PDict (metrics m)]"

text \<open>
  The record of a batch of calls: one dict with the header list and one row for each call,
  under the partition key of the last call, which is the call that hands the batch over.
\<close>

definition batch_record :: "pusher \<Rightarrow> push_call list \<Rightarrow> pyval list \<times> pyval" where
  "batch_record p cs =
     ([PDict (fields (pc_model (last cs)) p
              @ [(''headers'', PList [PStr ''request'', PStr ''op'', PStr ''resp'', PStr ''when'',
                                     PStr ''microsec'', PStr ''metrics'']),
                 (''values'', PList (map (batch_row (pc_model (last cs))) cs))])],
      pc_partition_key (last cs))"

text \<open>The record of a single emission, when the pusher does not batch.\<close>

definition flat_record :: "pusher \<Rightarrow> push_call \<Rightarrow> pyval list \<times> pyval" where
  "flat_record p c =
     ([PDict (fields (pc_model c) p
              @ [(''request'', pc_request c),
                 (''op'', pc_op c),
                 (''resp'', pc_resp c),
                 (''when'', PStr (isoformat (pc_out c) (pc_start c))),
                 (''microsec'', PInt ((now_push (pc_out c) - pc_start c) mod 1000000))]
              @ (if metrics (pc_model c) = [] then []
                 else [(''metrics'', PDict (metrics (pc_model c)))]))],
      pc_partition_key c)"

text \<open>The record of a push that carries the error \<open>e\<close>.\<close>

definition error_record :: "pusher \<Rightarrow> push_call \<Rightarrow> exn \<Rightarrow> pyval list \<times> pyval" where
  "error_record p c e =
     ([PDict (fields (pc_model c) p
              @ [(''request'', pc_request c),
                 (''op'', pc_op c),
                 (''when'', PStr (isoformat (pc_out c) (pc_start c))),
                 (''error'', PStr (if p_verbose p
                                  then exn_str e @ [CHR 0x0A] @ traceback_text (pc_out c)
                                  else exn_str e))])],
      pc_partition_key c)"

text \<open>The records of the calls of a list that carry an error, in order.\<close>

definition error_records :: "pusher \<Rightarrow> push_call list \<Rightarrow> (pyval list \<times> pyval) list" where
  "error_records p cs =
     concat (map (\<lambda>c. case pc_error c of None \<Rightarrow> [] | Some e \<Rightarrow> [error_record p c e]) cs)"

text \<open>A record of the sink is the record of an error: its only element has the key \<^verbatim>\<open>error\<close>.\<close>

definition is_error_record :: "pyval list \<times> pyval \<Rightarrow> bool" where
  "is_error_record r =
     (case fst r of [PDict d] \<Rightarrow> map_of d ''error'' \<noteq> None | _ \<Rightarrow> False)"

text \<open>The row of a call as the batch buffer holds it.\<close>

definition held_row :: "push_call \<Rightarrow> batch_cell list" where
  "held_row c =
     [Held (pc_request c), Held (pc_op c), Held (pc_resp c),
      Held (PStr (dt_str (pc_out c) (pc_start c))),
      Held (PInt ((now_push (pc_out c) - pc_start c) mod 1000000)), ModelMetrics]"

text \<open>
  The groups of exactly \<open>b\<close> elements of a list, in order; what is left at the end, fewer
  than \<open>b\<close>, belongs to no group.
\<close>

function batches :: "nat \<Rightarrow> 'a list \<Rightarrow> 'a list list" where
  "batches b xs = (if 0 < b \<and> b \<le> length xs then take b xs # batches b (drop b xs) else [])"
  by pat_completeness auto
termination
  by (relation "measure (\<lambda>(b, xs). length xs)") auto

declare batches.simps [simp del]

text \<open>
  What is left of a list when groups of \<open>b\<close> elements are taken from its front for as long as
  something is left behind them: the elements after the last full group, or the last full
  group itself when nothing comes after it.
\<close>

function last_rows :: "nat \<Rightarrow> 'a list \<Rightarrow> 'a list" where
  "last_rows b xs = (if 0 < b \<and> b < length xs then last_rows b (drop b xs) else xs)"
  by pat_completeness auto
termination
  by (relation "measure (\<lambda>(b, xs). length xs)") auto

declare last_rows.simps [simp del]

text \<open>A pusher has a sink, and the sink raises on no push.\<close>

definition sink_keeps :: "pusher \<Rightarrow> bool" where
  "sink_keeps p =
     (case p_output_stream p of
        None \<Rightarrow> False
      | Some s \<Rightarrow> \<forall>records. sink_raises s records = None)"

text \<open>The pusher once its sink has kept one more push.\<close>

definition deliver :: "pusher \<Rightarrow> pyval list \<times> pyval \<Rightarrow> pusher" where
  "deliver p r =
     p\<lparr>p_output_stream :=
         map_option (\<lambda>s. s\<lparr>sink_received := sink_received s @ [r]\<rparr>) (p_output_stream p)\<rparr>"

section \<open>The operation the specification names\<close>

text \<open>
  The classification as the specification words it: the \<^verbatim>\<open>operation\<close> field of the body
  first, else the non-empty trailing segment of the path, else \<^verbatim>\<open>infer\<close> unless the method
  is \<^verbatim>\<open>GET\<close> (then the empty operation).
\<close>

definition trailing_segment :: "string \<Rightarrow> string" where
  "trailing_segment path = rev (takeWhile (\<lambda>c. c \<noteq> CHR ''/'') (rev (strip_slash path)))"

definition spec_operation :: "event \<Rightarrow> pyval \<Rightarrow> pyval" where
  "spec_operation ev event_body =
     (case (case event_body of PDict d \<Rightarrow> map_of d ''operation'' | _ \<Rightarrow> None) of
        Some v \<Rightarrow> v
      | None \<Rightarrow>
          if trailing_segment (ev_path ev) \<noteq> [] then PStr (trailing_segment (ev_path ev))
          else if ev_method ev \<noteq> ''GET'' then PStr ''infer''
          else PStr [])"


section \<open>Concrete servers, events and worlds\<close>

text \<open>
  A world for the examples. The renderings of a \<^verbatim>\<open>datetime\<close> are given at the epoch, the
  instant the examples start at; \<^verbatim>\<open>str\<close> is given on strings, on lists of strings that hold no
  quote and no backslash (each in single quotes, as \<^verbatim>\<open>repr\<close> has it) and on \<^verbatim>\<open>None\<close>; the text
  logged for an exception is its \<^verbatim>\<open>str\<close>. No input path and
  no result path are set in the examples, where \<^verbatim>\<open>_extract_input_data\<close> hands back the body
  and \<^verbatim>\<open>_update_result_body\<close> the result. The model never gets ready, a load has failed with
  \<^verbatim>\<open>ValueError("boom")\<close>, and the registry knows no endpoint.
\<close>

fun join_comma :: "string list \<Rightarrow> string" where
  "join_comma [] = []"
| "join_comma [x] = x"
| "join_comma (x # y # ys) = x @ '', '' @ join_comma (y # ys)"

definition str0 :: "pyval \<Rightarrow> string" where
  "str0 v =
     (case v of
        PStr s \<Rightarrow> s
      | PList xs \<Rightarrow>
          ''['' @ join_comma (map (\<lambda>x. case x of PStr s \<Rightarrow> sq @ s @ sq | _ \<Rightarrow> ''None'') xs) @ '']''
      | _ \<Rightarrow> ''None'')"

definition out0 :: outside where
  "out0 =
     \<lparr> now_start = 0,
       now_push = 1500000,
       traceback_text = ''Traceback (most recent call last)'',
       ready_after = (\<lambda>i. False),
       error_after = (\<lambda>i. Some (Exn ValueError ''boom'')),
       isoformat = (\<lambda>t. if t = 0 then ''1970-01-01 00:00:00.000000+00:00'' else []),
       dt_str = (\<lambda>t. if t = 0 then ''1970-01-01 00:00:00+00:00'' else []),
       py_str = str0,
       err_to_str = exn_str,
       extract_input_data = (\<lambda>path b. case b of Payload v \<Rightarrow> Inr v | Response c t \<Rightarrow> Inr PNone),
       update_result_body = (\<lambda>path b result. Inr (Payload result)),
       artifacts_get_model = (\<lambda>path suffix. Inr None),
       db_get_model_endpoint = (\<lambda>project nm fn tag. Inl (Exn MLRunNotFoundError ''not found'')),
       db_get_function = (\<lambda>fn project tag. Inr [(''metadata'', PDict [(''uid'', PStr ''f1'')])]),
       db_create_model_endpoint = (\<lambda>ep. Inr (ep\<lparr>ep_uid := Some ''ep1''\<rparr>)),
       db_patch_model_endpoint = (\<lambda>project nm uid attributes. Inl (Exn MLRunNotFoundError ''not found'')) \<rparr>"

text \<open>
  Worlds where the registry fails with \<^verbatim>\<open>MLRunBadRequestError\<close>: at the lookup of the
  endpoint, and at its creation; and one where the lookup fails with an error of another class.
\<close>

definition store_unavailable :: exn where
  "store_unavailable = Exn MLRunBadRequestError ''model endpoints store is not available''"

definition out_lookup_fails :: outside where
  "out_lookup_fails = out0\<lparr>db_get_model_endpoint := (\<lambda>project nm fn tag. Inl store_unavailable)\<rparr>"

definition out_create_fails :: outside where
  "out_create_fails = out0\<lparr>db_create_model_endpoint := (\<lambda>ep. Inl store_unavailable)\<rparr>"

definition connection_refused :: exn where
  "connection_refused = Exn (OtherError ''ConnectionError'') ''connection refused''"

definition out_lookup_refused :: outside where
  "out_lookup_refused = out0\<lparr>db_get_model_endpoint := (\<lambda>project nm fn tag. Inl connection_refused)\<rparr>"

text \<open>A world where the loading thread gets the model ready between the second and third poll.\<close>

definition out_ready_at_3 :: outside where
  "out_ready_at_3 = out0\<lparr>ready_after := (\<lambda>i. 3 \<le> i), error_after := (\<lambda>i. None)\<rparr>"

text \<open>The world before the module has done anything to it.\<close>

definition w0 :: world where
  "w0 = \<lparr> w_log = [], w_load_calls = 0, w_threads_started = 0 \<rparr>"

text \<open>A sink that keeps what it is given, and one whose \<^verbatim>\<open>push\<close> always raises.\<close>

definition good_sink :: sink where
  "good_sink = \<lparr> sink_received = [], sink_raises = (\<lambda>records. None) \<rparr>"

definition sink_down :: exn where
  "sink_down = Exn (OtherError ''ConnectionError'') ''stream is down''"

definition bad_sink :: sink where
  "bad_sink = \<lparr> sink_received = [], sink_raises = (\<lambda>records. Some sink_down) \<rparr>"

definition gs0 :: graph_server where
  "gs0 = \<lparr> gs_project = ''proj'', gs_function_name = ''serving'', gs_function_tag = None,
           gs_track_models = True \<rparr>"

definition cx0 :: graph_context where
  "cx0 =
     \<lparr> ctx_verbose = False,
       ctx_worker_id = PInt 0,
       ctx_is_mock = False,
       ctx_monitoring_mock = False,
       ctx_server_private = Some gs0,
       ctx_server = Some gs0,
       ctx_stream_enabled = True,
       ctx_hostname = ''host'',
       ctx_function_uri = ''proj/serving'',
       ctx_stream_uri = ''v3io:///stream'',
       ctx_output_stream = Some good_sink,
       ctx_log_stream_batch = None,
       ctx_log_stream_sample = None,
       ctx_log = [] \<rparr>"

text \<open>
  Servers of a class \<^verbatim>\<open>MyClass\<close>: one built with a model object under the name \<^verbatim>\<open>my\<close>, one
  under the name \<^verbatim>\<open>my:latest\<close>, and one built without a model (not ready).
\<close>

definition srv_my :: server where
  "srv_my = init_server ''MyClass'' cx0 (Some ''my'') None (Some (ModelObj True)) None None None None"

definition srv_latest :: server where
  "srv_latest =
     init_server ''MyClass'' cx0 (Some ''my:latest'') None (Some (ModelObj True)) None None None None"

definition srv_unready :: server where
  "srv_unready = init_server ''MyClass'' cx0 (Some ''my'') None None None None None None"

text \<open>
  A server built with a model object that Python takes as false (an object with a \<^verbatim>\<open>__len__\<close>
  of 0 or a \<^verbatim>\<open>__bool__\<close> that returns \<^verbatim>\<open>False\<close>, such as an empty container).
\<close>

definition srv_falsy :: server where
  "srv_falsy = init_server ''MyClass'' cx0 (Some ''my'') None (Some (ModelObj False)) None None None None"



text \<open>A server whose hosting context does not track models.\<close>

definition srv_untracked :: server where
  "srv_untracked = srv_my\<lparr>ctx := cx0\<lparr>ctx_server := Some (gs0\<lparr>gs_track_models := False\<rparr>)\<rparr>\<rparr>"

text \<open>A pusher on a sink, with a sample rate and a batch size.\<close>

definition pusher_on :: "sink \<Rightarrow> int \<Rightarrow> int \<Rightarrow> pusher" where
  "pusher_on s n b =
     init_pusher (cx0\<lparr>ctx_output_stream := Some s, ctx_log_stream_sample := Some n,
                      ctx_log_stream_batch := Some b\<rparr>)"

text \<open>
  The server \<^verbatim>\<open>my\<close> with a pusher of sample rate 1 and batch size 1, on the sink that
  raises and on the sink that keeps.
\<close>

definition srv_bad_sink :: server where
  "srv_bad_sink = srv_my\<lparr>model_logger := Some (pusher_on bad_sink 1 1)\<rparr>"

definition srv_good_sink :: server where
  "srv_good_sink = srv_my\<lparr>model_logger := Some (pusher_on good_sink 1 1)\<rparr>"

text \<open>
  Model classes: \<^verbatim>\<open>predict\<close> and \<^verbatim>\<open>explain\<close> return \<^verbatim>\<open>[7]\<close>, or \<^verbatim>\<open>predict\<close> returns
  \<^verbatim>\<open>{"outputs": [7]}\<close>, or \<^verbatim>\<open>predict\<close> returns the inputs of the request it is given, or both
  raise; the other methods are those of the base class.
\<close>

definition inference_error :: exn where
  "inference_error = Exn ValueError ''bad input''"

definition MyClass :: hooks where
  "MyClass = V2ModelServer\<lparr> h_predict := (\<lambda>request. Inr (PList [PInt 7])),
                            h_explain := (\<lambda>request. Inr (PList [PInt 7])) \<rparr>"

definition DictClass :: hooks where
  "DictClass = V2ModelServer\<lparr> h_predict := (\<lambda>request. Inr (PDict [(''outputs'', PList [PInt 7])])) \<rparr>"


definition FailingClass :: hooks where
  "FailingClass = V2ModelServer\<lparr> h_predict := (\<lambda>request. Inl inference_error),
                                 h_explain := (\<lambda>request. Inl inference_error) \<rparr>"

text \<open>Events: a request body with inputs \<^verbatim>\<open>[[1,2,3]]\<close>, posted to a path, with a trigger.\<close>

definition inputs_body :: pydict where
  "inputs_body = [(''inputs'', PList [PList [PInt 1, PInt 2, PInt 3]])]"

definition event_at :: "string \<Rightarrow> string \<Rightarrow> pyval \<Rightarrow> trigger option \<Rightarrow> event" where
  "event_at path method body trg =
     \<lparr> ev_id = PStr ''e1'', ev_path = path, ev_method = method, ev_body = Payload body,
       ev_trigger = trg, ev_terminated = False \<rparr>"

definition plain_call :: "pyval \<Rightarrow> push_call" where
  "plain_call request =
     \<lparr> pc_out = out0, pc_model = srv_my, pc_start = 0, pc_request = request, pc_resp = PDict [(''outputs'', PList [PInt 7])],
       pc_op = PStr ''infer'', pc_error = None, pc_partition_key = PNone \<rparr>"

text \<open>A push made when \<^verbatim>\<open>set_metric("latency", 5)\<close> has been called on the model.\<close>

definition metered_call :: "pyval \<Rightarrow> push_call" where
  "metered_call request =
     (plain_call request)\<lparr>pc_model := set_metric srv_my ''latency'' (PInt 5)\<rparr>"

text \<open>A push that carries the inference error.\<close>

definition failed_call :: "pyval \<Rightarrow> push_call" where
  "failed_call request = (plain_call request)\<lparr>pc_resp := PNone, pc_error := Some inference_error\<rparr>"

text \<open>
  A pusher of sample rate 3 and batch size 2 on the sink that raises, after five pushes
  without an error: the third push is in the buffer, and the sixth is to complete a sample
  and a batch. The server \<^verbatim>\<open>my\<close> with this pusher, and with the same pusher before any push.
\<close>

definition pusher_due :: pusher where
  "pusher_due =
     pushes (pusher_on bad_sink 3 2)
       [plain_call (PInt 1), plain_call (PInt 2), plain_call (PInt 3), plain_call (PInt 4),
        plain_call (PInt 5)]"

definition srv_bad_sink_due :: server where
  "srv_bad_sink_due = srv_my\<lparr>model_logger := Some pusher_due\<rparr>"

definition srv_bad_sink_idle :: server where
  "srv_bad_sink_idle = srv_my\<lparr>model_logger := Some (pusher_on bad_sink 3 2)\<rparr>"

section \<open>Properties\<close>

subsection \<open>The handler on an inference operation\<close>

lemma do_event_predict:
  assumes "extract_input_data out (input_path srv) (ev_body ev) = Inr body"
    and "event_operation ev body = (PStr ''predict'', eid)"
  shows "do_event out h srv ev
           = predict_operation out h srv ev (now_start out) body ''predict'' eid
               (if shard_by_endpoint srv \<noteq> Some False
                then opt_str (model_endpoint_uid srv) else PNone)"
  unfolding do_event_def Let_def assms(1) sum.case assms(2) prod.case
  by simp

lemma do_event_infer:
  assumes "extract_input_data out (input_path srv) (ev_body ev) = Inr body"
    and "event_operation ev body = (PStr ''infer'', eid)"
  shows "do_event out h srv ev
           = predict_operation out h srv ev (now_start out) body ''infer'' eid
               (if shard_by_endpoint srv \<noteq> Some False
                then opt_str (model_endpoint_uid srv) else PNone)"
  unfolding do_event_def Let_def assms(1) sum.case assms(2) prod.case
  by simp

lemma do_event_infer_dict:
  assumes "extract_input_data out (input_path srv) (ev_body ev) = Inr body"
    and "event_operation ev body = (PStr ''infer_dict'', eid)"
  shows "do_event out h srv ev
           = predict_operation out h srv ev (now_start out) body ''infer_dict'' eid
               (if shard_by_endpoint srv \<noteq> Some False
                then opt_str (model_endpoint_uid srv) else PNone)"
  unfolding do_event_def Let_def assms(1) sum.case assms(2) prod.case
  by simp

lemma do_event_predict_dict:
  assumes "extract_input_data out (input_path srv) (ev_body ev) = Inr body"
    and "event_operation ev body = (PStr ''predict_dict'', eid)"
  shows "do_event out h srv ev
           = predict_operation out h srv ev (now_start out) body ''predict_dict'' eid
               (if shard_by_endpoint srv \<noteq> Some False
                then opt_str (model_endpoint_uid srv) else PNone)"
  unfolding do_event_def Let_def assms(1) sum.case assms(2) prod.case
  by simp

lemma do_event_explain:
  assumes "extract_input_data out (input_path srv) (ev_body ev) = Inr body"
    and "event_operation ev body = (PStr ''explain'', eid)"
  shows "do_event out h srv ev
           = explain_operation out h srv ev (now_start out) body ''explain'' eid
               (if shard_by_endpoint srv \<noteq> Some False
                then opt_str (model_endpoint_uid srv) else PNone)"
  unfolding do_event_def Let_def assms(1) sum.case assms(2) prod.case
  by simp

lemma do_event_inference:
  assumes "extract_input_data out (input_path srv) (ev_body ev) = Inr body"
    and "event_operation ev body = (PStr op, eid)"
    and "op \<in> set [''predict'', ''infer'', ''infer_dict'', ''predict_dict'', ''explain'']"
  shows "do_event out h srv ev
           = (if op = ''explain''
              then explain_operation out h srv ev (now_start out) body op eid
                     (if shard_by_endpoint srv \<noteq> Some False
                      then opt_str (model_endpoint_uid srv) else PNone)
              else predict_operation out h srv ev (now_start out) body op eid
                     (if shard_by_endpoint srv \<noteq> Some False
                      then opt_str (model_endpoint_uid srv) else PNone))"
proof -
  from assms(3) have "op = ''predict'' \<or> op = ''infer'' \<or> op = ''infer_dict''
      \<or> op = ''predict_dict'' \<or> op = ''explain''"
    by simp
  then consider (1) "op = ''predict''" | (2) "op = ''infer''" | (3) "op = ''infer_dict''"
    | (4) "op = ''predict_dict''" | (5) "op = ''explain''"
    by blast
  then show ?thesis
  proof cases
    case 1
    with assms(2) have "event_operation ev body = (PStr ''predict'', eid)" by simp
    from do_event_predict [OF assms(1) this] 1 show ?thesis by simp
  next
    case 2
    with assms(2) have "event_operation ev body = (PStr ''infer'', eid)" by simp
    from do_event_infer [OF assms(1) this] 2 show ?thesis by simp
  next
    case 3
    with assms(2) have "event_operation ev body = (PStr ''infer_dict'', eid)" by simp
    from do_event_infer_dict [OF assms(1) this] 3 show ?thesis by simp
  next
    case 4
    with assms(2) have "event_operation ev body = (PStr ''predict_dict'', eid)" by simp
    from do_event_predict_dict [OF assms(1) this] 4 show ?thesis by simp
  next
    case 5
    with assms(2) have "event_operation ev body = (PStr ''explain'', eid)" by simp
    from do_event_explain [OF assms(1) this] 5 show ?thesis by simp
  qed
qed

lemma inference_operation_raises:
  assumes "pre_event_processing_actions out h srv ev body op = (Inr request, srv')"
    and "(if op = ''explain'' then h_explain h else h_predict h) request = Inl exc"
  shows "(if op = ''explain'' then explain_operation out h srv ev start body op eid pk
          else predict_operation out h srv ev start body op eid pk)
           = (Inl (fst (on_inference_error out srv' start request op eid exc pk)),
              snd (on_inference_error out srv' start request op eid exc pk))"
  using assms
  by (simp add: explain_operation_def predict_operation_def split_beta split: if_splits)

lemma inference_operation_returns:
  assumes "pre_event_processing_actions out h srv ev body op = (Inr request, srv')"
    and "(if op = ''explain'' then h_explain h else h_predict h) request = Inr outputs"
  shows "(if op = ''explain'' then explain_operation out h srv ev start body op eid pk
          else predict_operation out h srv ev start body op eid pk)
           = after_inference out h srv' ev start request
               (PDict (if op = ''explain'' then explain_response srv' eid outputs
                       else predict_response out srv' start eid outputs)) op eid pk"
  using assms
  by (simp add: explain_operation_def predict_operation_def split: if_splits)

lemma after_inference_body:
  assumes "h_postprocess h response0 = Inr response"
    and "fst (after_inference out h srv ev start request response0 op eid pk) = Inr ev'"
  shows "update_result_body out (result_path srv) (ev_body ev) response = Inr (ev_body ev')"
  using assms
  by (auto simp: after_inference_def Let_def split_beta split: option.splits sum.splits if_splits)

subsection \<open>Readiness of a model that is not ready\<close>

lemma wait_ready_bounds:
  "wait_ready rdy k i = Some n \<Longrightarrow> i < n \<and> n \<le> i + k \<and> rdy n"
proof (induction k arbitrary: i)
  case 0
  then show ?case by simp
next
  case (Suc k)
  show ?case
  proof (cases "rdy (Suc i)")
    case True
    with Suc.prems show ?thesis by simp
  next
    case False
    with Suc.prems have "wait_ready rdy k (Suc i) = Some n" by simp
    from Suc.IH [OF this] show ?thesis by simp
  qed
qed

lemma wait_ready_None:
  "wait_ready rdy k i = None \<longleftrightarrow> (\<forall>j. i < j \<and> j \<le> i + k \<longrightarrow> \<not> rdy j)"
proof (induction k arbitrary: i)
  case 0
  then show ?case by auto
next
  case (Suc k)
  have "(\<forall>j. i < j \<and> j \<le> i + Suc k \<longrightarrow> \<not> rdy j)
          \<longleftrightarrow> (\<not> rdy (Suc i) \<and> (\<forall>j. Suc i < j \<and> j \<le> Suc i + k \<longrightarrow> \<not> rdy j))"
    (is "?L \<longleftrightarrow> ?R")
  proof
    assume l: ?L
    then have "\<not> rdy (Suc i)" by simp
    moreover from l have "\<forall>j. Suc i < j \<and> j \<le> Suc i + k \<longrightarrow> \<not> rdy j" by simp
    ultimately show ?R by simp
  next
    assume r: ?R
    show ?L
    proof (intro allI impI)
      fix j assume j: "i < j \<and> j \<le> i + Suc k"
      show "\<not> rdy j"
      proof (cases "j = Suc i")
        case True
        with r show ?thesis by simp
      next
        case False
        with j have "Suc i < j \<and> j \<le> Suc i + k" by arith
        with r show ?thesis by blast
      qed
    qed
  qed
  with Suc show ?case by simp
qed

lemma wait_ready_first:
  "i < n \<Longrightarrow> n \<le> i + k \<Longrightarrow> rdy n \<Longrightarrow> (\<forall>j. i < j \<and> j < n \<longrightarrow> \<not> rdy j)
     \<Longrightarrow> wait_ready rdy k i = Some n"
proof (induction k arbitrary: i)
  case 0
  then show ?case by simp
next
  case (Suc k)
  show ?case
  proof (cases "n = Suc i")
    case True
    with Suc.prems show ?thesis by simp
  next
    case False
    with Suc.prems have a: "Suc i < n" "n \<le> Suc i + k" by simp_all
    from Suc.prems a have b: "\<not> rdy (Suc i)" by simp
    from Suc.prems have c: "\<forall>j. Suc i < j \<and> j < n \<longrightarrow> \<not> rdy j" by simp
    from Suc.IH [OF a Suc.prems(3) c] b show ?thesis by simp
  qed
qed

lemma wait_ready_le: "wait_ready rdy k i = Some n \<Longrightarrow> n \<le> i + k"
  using wait_ready_bounds by blast

lemma inference_operation_rejected:
  assumes "fst (check_readiness out srv ev) = Some e"
  shows "fst (if op = ''explain'' then explain_operation out h srv ev start body op eid pk
              else predict_operation out h srv ev start body op eid pk) = Inl e"
proof -
  obtain r s t where c: "check_readiness out srv ev = (r, s, t)"
    by (cases "check_readiness out srv ev") auto
  with assms have "r = Some e" by simp
  with c show ?thesis
    by (simp add: explain_operation_def predict_operation_def pre_event_processing_actions_def)
qed

text \<open>
  C3. A request that meets a model that is not ready: with no trigger, or a trigger of kind
  \<^verbatim>\<open>http\<close> or of the empty kind, it is rejected at once, no \<^verbatim>\<open>time.sleep\<close> done. With any other
  trigger the check polls at most 50 times, 5 seconds apart (250 seconds at most); it returns
  at the first poll that finds the model ready, and when none of the 50 does it raises, after
  250 seconds, an error whose message ends with the failure that the load recorded in
  \<^verbatim>\<open>self.error\<close>. The handler runs this check on every predict, infer and explain request, and
  raises what the check raises.
\<close>

theorem check_readiness_not_ready:
  assumes "\<not> ready srv"
  shows "((ev_trigger ev = None \<or> (\<exists>t. ev_trigger ev = Some t \<and> (kind t = ''http'' \<or> kind t = [])))
            \<longrightarrow> check_readiness out srv ev
                  = (Some (Exn RuntimeError (''model '' @ str_opt (name srv) @ '' is not ready yet'')),
                     srv, 0)
                \<and> (extract_input_data out (input_path srv) (ev_body ev) = Inr body
                     \<and> event_operation ev body = (PStr op, eid)
                     \<and> op \<in> set [''predict'', ''infer'', ''infer_dict'', ''predict_dict'', ''explain'']
                     \<longrightarrow> fst (do_event out h srv ev)
                           = Inl (Exn RuntimeError (''model '' @ str_opt (name srv)
                                    @ '' is not ready yet''))))
       \<and> ((\<exists>t. ev_trigger ev = Some t \<and> kind t \<noteq> ''http'' \<and> kind t \<noteq> [])
            \<longrightarrow> snd (snd (check_readiness out srv ev)) \<le> 5 * 50
                \<and> ((\<forall>i. 1 \<le> i \<and> i \<le> 50 \<longrightarrow> \<not> ready_after out i)
                     \<longrightarrow> fst (check_readiness out srv ev)
                           = Some (Exn RuntimeError (''model '' @ str_opt (name srv)
                                     @ '' is not ready '' @ str_error (error_after out 50)))
                         \<and> snd (snd (check_readiness out srv ev)) = 250
                         \<and> (extract_input_data out (input_path srv) (ev_body ev) = Inr body
                              \<and> event_operation ev body = (PStr op, eid)
                              \<and> op \<in> set [''predict'', ''infer'', ''infer_dict'', ''predict_dict'',
                                           ''explain'']
                              \<longrightarrow> fst (do_event out h srv ev)
                                    = Inl (Exn RuntimeError (''model '' @ str_opt (name srv)
                                             @ '' is not ready '' @ str_error (error_after out 50)))))
                \<and> (\<forall>n. 1 \<le> n \<and> n \<le> 50 \<and> ready_after out n
                         \<and> (\<forall>i. 1 \<le> i \<and> i < n \<longrightarrow> \<not> ready_after out i)
                     \<longrightarrow> fst (check_readiness out srv ev) = None
                         \<and> snd (snd (check_readiness out srv ev)) = 5 * n))"
proof -
  let ?pk = "if shard_by_endpoint srv \<noteq> Some False then opt_str (model_endpoint_uid srv) else PNone"
  have handler: "fst (do_event out h srv ev) = Inl e"
    if "fst (check_readiness out srv ev) = Some e"
      and "extract_input_data out (input_path srv) (ev_body ev) = Inr body
           \<and> event_operation ev body = (PStr op, eid)
           \<and> op \<in> set [''predict'', ''infer'', ''infer_dict'', ''predict_dict'', ''explain'']"
    for e
  proof -
    from that(2) have "do_event out h srv ev
        = (if op = ''explain''
           then explain_operation out h srv ev (now_start out) body op eid ?pk
           else predict_operation out h srv ev (now_start out) body op eid ?pk)"
      by (intro do_event_inference) simp_all
    with inference_operation_rejected [OF that(1), of op h "now_start out" body eid ?pk]
    show ?thesis by simp
  qed
  show ?thesis
  proof (intro conjI impI)
    assume "ev_trigger ev = None \<or> (\<exists>t. ev_trigger ev = Some t \<and> (kind t = ''http'' \<or> kind t = []))"
    with assms show c: "check_readiness out srv ev
        = (Some (Exn RuntimeError (''model '' @ str_opt (name srv) @ '' is not ready yet'')), srv, 0)"
      by (auto simp: check_readiness_def)
    assume "extract_input_data out (input_path srv) (ev_body ev) = Inr body
           \<and> event_operation ev body = (PStr op, eid)
           \<and> op \<in> set [''predict'', ''infer'', ''infer_dict'', ''predict_dict'', ''explain'']"
    with c handler show "fst (do_event out h srv ev)
        = Inl (Exn RuntimeError (''model '' @ str_opt (name srv) @ '' is not ready yet''))"
      by simp
  next
    assume t: "\<exists>t. ev_trigger ev = Some t \<and> kind t \<noteq> ''http'' \<and> kind t \<noteq> []"
    show "snd (snd (check_readiness out srv ev)) \<le> 5 * 50"
      using assms t wait_ready_le [of "ready_after out" 50 0]
      by (auto simp: check_readiness_def Let_def split: option.splits)
  next
    assume t: "\<exists>t. ev_trigger ev = Some t \<and> kind t \<noteq> ''http'' \<and> kind t \<noteq> []"
    assume "\<forall>i. 1 \<le> i \<and> i \<le> 50 \<longrightarrow> \<not> ready_after out i"
    then have n: "wait_ready (ready_after out) 50 0 = None"
      by (simp add: wait_ready_None Suc_le_eq)
    from assms t n show c: "fst (check_readiness out srv ev)
        = Some (Exn RuntimeError (''model '' @ str_opt (name srv) @ '' is not ready ''
                  @ str_error (error_after out 50)))"
      by (auto simp: check_readiness_def Let_def)
    from assms t n show "snd (snd (check_readiness out srv ev)) = 250"
      by (auto simp: check_readiness_def Let_def)
    assume "extract_input_data out (input_path srv) (ev_body ev) = Inr body
           \<and> event_operation ev body = (PStr op, eid)
           \<and> op \<in> set [''predict'', ''infer'', ''infer_dict'', ''predict_dict'', ''explain'']"
    with c handler show "fst (do_event out h srv ev)
        = Inl (Exn RuntimeError (''model '' @ str_opt (name srv) @ '' is not ready ''
                 @ str_error (error_after out 50)))"
      by simp
  next
    assume t: "\<exists>t. ev_trigger ev = Some t \<and> kind t \<noteq> ''http'' \<and> kind t \<noteq> []"
    show "\<forall>n. 1 \<le> n \<and> n \<le> 50 \<and> ready_after out n
               \<and> (\<forall>i. 1 \<le> i \<and> i < n \<longrightarrow> \<not> ready_after out i)
            \<longrightarrow> fst (check_readiness out srv ev) = None
                \<and> snd (snd (check_readiness out srv ev)) = 5 * n"
    proof (intro allI impI)
      fix n
      assume h: "1 \<le> n \<and> n \<le> 50 \<and> ready_after out n
                   \<and> (\<forall>i. 1 \<le> i \<and> i < n \<longrightarrow> \<not> ready_after out i)"
      then have "wait_ready (ready_after out) 50 0 = Some n"
        by (intro wait_ready_first) (auto simp: Suc_le_eq)
      with assms t show "fst (check_readiness out srv ev) = None
          \<and> snd (snd (check_readiness out srv ev)) = 5 * n"
        by (auto simp: check_readiness_def Let_def)
    qed
  qed
qed

theorem check_readiness_not_ready_witness:
  "check_readiness out0 srv_unready (event_at ''/infer'' ''POST'' (PDict inputs_body) None)
     = (Some (Exn RuntimeError ''model my is not ready yet''), srv_unready, 0)
   \<and> fst (do_event out0 MyClass srv_unready (event_at ''/infer'' ''POST'' (PDict inputs_body) None))
       = Inl (Exn RuntimeError ''model my is not ready yet'')
   \<and> fst (check_readiness out0 srv_unready
            (event_at ''/infer'' ''POST'' (PDict inputs_body) (Some \<lparr>kind = ''kafka''\<rparr>)))
       = Some (Exn RuntimeError ''model my is not ready boom'')
   \<and> snd (snd (check_readiness out0 srv_unready
            (event_at ''/infer'' ''POST'' (PDict inputs_body) (Some \<lparr>kind = ''kafka''\<rparr>)))) = 250
   \<and> fst (do_event out0 MyClass srv_unready
            (event_at ''/infer'' ''POST'' (PDict inputs_body) (Some \<lparr>kind = ''kafka''\<rparr>)))
       = Inl (Exn RuntimeError ''model my is not ready boom'')
   \<and> fst (check_readiness out_ready_at_3 srv_unready
            (event_at ''/infer'' ''POST'' (PDict inputs_body) (Some \<lparr>kind = ''kafka''\<rparr>))) = None
   \<and> snd (snd (check_readiness out_ready_at_3 srv_unready
            (event_at ''/infer'' ''POST'' (PDict inputs_body) (Some \<lparr>kind = ''kafka''\<rparr>)))) = 15"
proof -
  let ?e1 = "event_at ''/infer'' ''POST'' (PDict inputs_body) None"
  let ?e2 = "event_at ''/infer'' ''POST'' (PDict inputs_body) (Some \<lparr>kind = ''kafka''\<rparr>)"
  have r: "\<not> ready srv_unready"
    and nm: "name srv_unready = Some ''my''"
    by (simp_all add: srv_unready_def init_server_def)
  have a: "ev_trigger ?e1 = None"
    and b: "\<exists>t. ev_trigger ?e2 = Some t \<and> kind t \<noteq> ''http'' \<and> kind t \<noteq> []"
    by (simp_all add: event_at_def)
  have c: "\<forall>i. 1 \<le> i \<and> i \<le> 50 \<longrightarrow> \<not> ready_after out0 i"
    and d: "error_after out0 50 = Some (Exn ValueError ''boom'')"
    by (simp_all add: out0_def)
  have x: "extract_input_data out0 (input_path srv_unready) (ev_body ?e1) = Inr (PDict inputs_body)"
          "extract_input_data out0 (input_path srv_unready) (ev_body ?e2) = Inr (PDict inputs_body)"
    and o: "event_operation ?e1 (PDict inputs_body) = (PStr ''infer'', PStr ''e1'')"
           "event_operation ?e2 (PDict inputs_body) = (PStr ''infer'', PStr ''e1'')"
    and m: "''infer'' \<in> set [''predict'', ''infer'', ''infer_dict'', ''predict_dict'', ''explain'']"
    by (simp_all add: out0_def event_at_def event_operation_def inputs_body_def strip_slash_def
          py_or_def dict_get_default_def Let_def)
  have g: "1 \<le> (3::nat) \<and> (3::nat) \<le> 50 \<and> ready_after out_ready_at_3 3
             \<and> (\<forall>i. 1 \<le> i \<and> i < 3 \<longrightarrow> \<not> ready_after out_ready_at_3 i)"
    by (simp add: out_ready_at_3_def)
  from check_readiness_not_ready [OF r, where ev = ?e1 and out = out0 and body = "PDict inputs_body"
         and op = "''infer''" and eid = "PStr ''e1''" and h = MyClass]
       a x o m nm
  have p1: "check_readiness out0 srv_unready ?e1
              = (Some (Exn RuntimeError ''model my is not ready yet''), srv_unready, 0)"
           "fst (do_event out0 MyClass srv_unready ?e1)
              = Inl (Exn RuntimeError ''model my is not ready yet'')"
    by (simp_all add: str_opt_def)
  from check_readiness_not_ready [OF r, where ev = ?e2 and out = out0 and body = "PDict inputs_body"
         and op = "''infer''" and eid = "PStr ''e1''" and h = MyClass]
       b c d x o m nm
  have p2: "fst (check_readiness out0 srv_unready ?e2)
              = Some (Exn RuntimeError ''model my is not ready boom'')"
           "snd (snd (check_readiness out0 srv_unready ?e2)) = 250"
           "fst (do_event out0 MyClass srv_unready ?e2)
              = Inl (Exn RuntimeError ''model my is not ready boom'')"
    by (simp_all add: str_opt_def str_error_def)
  from check_readiness_not_ready [OF r, where ev = ?e2 and out = out_ready_at_3] b
  have "\<forall>n. 1 \<le> n \<and> n \<le> 50 \<and> ready_after out_ready_at_3 n
             \<and> (\<forall>i. 1 \<le> i \<and> i < n \<longrightarrow> \<not> ready_after out_ready_at_3 i)
          \<longrightarrow> fst (check_readiness out_ready_at_3 srv_unready ?e2) = None
              \<and> snd (snd (check_readiness out_ready_at_3 srv_unready ?e2)) = 5 * n"
    by blast
  from this [rule_format, OF g]
  have p3: "fst (check_readiness out_ready_at_3 srv_unready ?e2) = None"
           "snd (snd (check_readiness out_ready_at_3 srv_unready ?e2)) = 15"
    by simp_all
  from p1 p2 p3 show ?thesis by simp
qed

subsection \<open>A server built with a model object\<close>

lemma get_model_ready: "ready (snd (get_model out srv suffix)) = ready srv"
  by (simp add: get_model_def split: option.splits sum.splits)

lemma init_endpoint_record_server:
  "fst (snd (init_endpoint_record out gs srv w))
     = (if model_spec srv = None then snd (get_model out srv []) else srv)"
  by (simp add: init_endpoint_record_def Let_def split_beta split: option.splits sum.splits)

lemma init_endpoint_record_world:
  "w_load_calls (snd (snd (init_endpoint_record out gs srv w))) = w_load_calls w
   \<and> w_threads_started (snd (snd (init_endpoint_record out gs srv w))) = w_threads_started w"
  by (simp add: init_endpoint_record_def Let_def logger_def split_beta
           split: option.splits sum.splits)

lemma init_endpoint_record_ready:
  "ready (fst (snd (init_endpoint_record out gs srv w))) = ready srv"
  by (simp add: init_endpoint_record_server get_model_ready)

lemma post_init_ready:
  assumes "ready srv"
  shows "ready (fst (snd (post_init out h srv w mode)))
       \<and> w_load_calls (snd (snd (post_init out h srv w mode))) = w_load_calls w
       \<and> w_threads_started (snd (snd (post_init out h srv w mode))) = w_threads_started w"
proof (cases "case ctx_server_private (ctx srv) of Some s \<Rightarrow> Some s | None \<Rightarrow> ctx_server (ctx srv)")
  case None
  with assms show ?thesis
    by (simp add: post_init_def logger_def)
next
  case (Some gs)
  obtain r s1 w1 where i: "init_endpoint_record out gs srv w = (r, s1, w1)"
    by (cases "init_endpoint_record out gs srv w") auto
  from i init_endpoint_record_ready [of out gs srv w] init_endpoint_record_world [of out gs srv w]
  have f: "ready s1 = ready srv" "w_load_calls w1 = w_load_calls w"
          "w_threads_started w1 = w_threads_started w"
    by simp_all
  from assms Some i f show ?thesis
    by (cases r) (simp_all add: post_init_def)
qed

text \<open>
  C10, as stated, fails on the code. The constructor tests the truth value of the model
  object (\<^verbatim>\<open>if model:\<close>), not its presence. A server built with a model object that Python takes
  as false is not ready and keeps no model: \<^verbatim>\<open>post_init\<close> calls \<^verbatim>\<open>load()\<close> once in sync mode
  (here the \<^verbatim>\<open>load\<close> of the base class, which raises, so that \<^verbatim>\<open>post_init\<close> raises) and starts
  the loading thread in async mode; a readiness check raises at once on an event without a
  trigger, and on an event of a \<^verbatim>\<open>kafka\<close> trigger it sleeps 250 seconds and raises.
\<close>

theorem falsy_model_counterexample:
  "\<not> ready srv_falsy
   \<and> model srv_falsy = None
   \<and> w_load_calls (snd (snd (post_init out0 V2ModelServer srv_falsy w0 ''sync''))) = 1
   \<and> fst (post_init out0 V2ModelServer srv_falsy w0 ''sync'')
       = Some (Exn RuntimeError ''failed to load model my'')
   \<and> w_threads_started (snd (snd (post_init out0 V2ModelServer srv_falsy w0 ''async''))) = 1
   \<and> check_readiness out0 srv_falsy (event_at ''/infer'' ''POST'' (PDict inputs_body) None)
       = (Some (Exn RuntimeError ''model my is not ready yet''), srv_falsy, 0)
   \<and> fst (check_readiness out0 srv_falsy
            (event_at ''/infer'' ''POST'' (PDict inputs_body) (Some \<lparr>kind = ''kafka''\<rparr>)))
       = Some (Exn RuntimeError ''model my is not ready boom'')
   \<and> snd (snd (check_readiness out0 srv_falsy
            (event_at ''/infer'' ''POST'' (PDict inputs_body) (Some \<lparr>kind = ''kafka''\<rparr>)))) = 250"
proof -
  have w: "wait_ready (\<lambda>i. False) 50 0 = None"
    by (simp add: wait_ready_None)
  have a: "w_threads_started (snd (snd (post_init out0 V2ModelServer srv_falsy w0 ''async''))) = 1"
    by (simp add: srv_falsy_def init_server_def post_init_def init_endpoint_record_def
          after_lookup_def get_model_def function_tag_or_latest_def function_uid_of_def
          logger_def dict_get_default_def out0_def w0_def cx0_def gs0_def ctx_logger_def
          str_opt_def Let_def)
  show ?thesis
    unfolding a
    by (simp add: srv_falsy_def init_server_def post_init_def load_and_update_state_def
          V2ModelServer_def load_def check_readiness_def w out0_def w0_def cx0_def event_at_def
          ctx_logger_def str_opt_def str_error_def Let_def)
qed

text \<open>
  C10, amended. A server built with a model object that Python takes as true (as
  \<^verbatim>\<open>if model:\<close> asks) is ready as soon as it is constructed. \<^verbatim>\<open>post_init\<close> then calls \<^verbatim>\<open>load()\<close> in
  no mode and starts no thread, and leaves the server ready, whether it returns or raises. A
  readiness check, before or after \<^verbatim>\<open>post_init\<close>, returns at once without sleeping and
  without raising, whatever the trigger of the event.
\<close>

theorem model_supplied_ready:
  assumes "mdl = Some m" and "obj_truth m"
  shows "ready (init_server cls cx nm mpath mdl proto ipath rpath shard)
       \<and> check_readiness out1 (init_server cls cx nm mpath mdl proto ipath rpath shard) ev1
           = (None, init_server cls cx nm mpath mdl proto ipath rpath shard, 0)
       \<and> w_load_calls (snd (snd (post_init out h
             (init_server cls cx nm mpath mdl proto ipath rpath shard) w mode))) = w_load_calls w
       \<and> w_threads_started (snd (snd (post_init out h
             (init_server cls cx nm mpath mdl proto ipath rpath shard) w mode)))
           = w_threads_started w
       \<and> ready (fst (snd (post_init out h
             (init_server cls cx nm mpath mdl proto ipath rpath shard) w mode)))
       \<and> check_readiness out2 (fst (snd (post_init out h
             (init_server cls cx nm mpath mdl proto ipath rpath shard) w mode))) ev2
           = (None, fst (snd (post_init out h
                (init_server cls cx nm mpath mdl proto ipath rpath shard) w mode)), 0)"
proof -
  let ?srv = "init_server cls cx nm mpath mdl proto ipath rpath shard"
  from assms have r: "ready ?srv"
    by (simp add: init_server_def Let_def split_beta)
  from post_init_ready [OF r, of out h w mode]
  have p: "ready (fst (snd (post_init out h ?srv w mode)))"
    "w_load_calls (snd (snd (post_init out h ?srv w mode))) = w_load_calls w"
    "w_threads_started (snd (snd (post_init out h ?srv w mode))) = w_threads_started w"
    by simp_all
  from r p show ?thesis
    by (simp add: check_readiness_def)
qed

theorem model_supplied_ready_witness:
  "ready srv_my
   \<and> w_load_calls (snd (snd (post_init out0 V2ModelServer srv_my w0 ''sync''))) = 0
   \<and> w_threads_started (snd (snd (post_init out0 V2ModelServer srv_my w0 ''async''))) = 0
   \<and> fst (check_readiness out0 (fst (snd (post_init out0 V2ModelServer srv_my w0 ''async'')))
            (event_at ''/infer'' ''POST'' (PDict inputs_body) (Some \<lparr>kind = ''kafka''\<rparr>))) = None"
proof -
  have t: "obj_truth (ModelObj True)" by simp
  from model_supplied_ready [OF refl t, of "''MyClass''" cx0 "Some ''my''" None None None None None
         out0 _ out0 V2ModelServer w0 "''sync''"]
       model_supplied_ready [OF refl t, of "''MyClass''" cx0 "Some ''my''" None None None None None
         out0 _ out0 V2ModelServer w0 "''async''" out0
         "event_at ''/infer'' ''POST'' (PDict inputs_body) (Some \<lparr>kind = ''kafka''\<rparr>)"]
  show ?thesis
    by (simp add: srv_my_def w0_def)
qed

subsection \<open>The elapsed time of a telemetry record\<close>

text \<open>
  C9. The code at a push that is emitted 1.5 seconds after its start: \<^verbatim>\<open>now_date() - start\<close> is
  1500000 microseconds, and the record that reaches the sink carries \<^verbatim>\<open>microsec\<close> 500000, the
  \<^verbatim>\<open>microseconds\<close> attribute of the \<^verbatim>\<open>timedelta\<close>, which leaves the whole seconds out.
\<close>

theorem microsec_leaves_seconds_out:
  "now_push out0 - 0 = 1500000
   \<and> (case received (snd (push out0 srv_my (pusher_on good_sink 1 1) 0 (PDict inputs_body)
                            (PDict [(''outputs'', PList [PInt 7])]) (PStr ''infer'') None PNone)) of
        [([PDict d], pk)] \<Rightarrow> map_of d ''microsec''
      | _ \<Rightarrow> None) = Some (PInt 500000)"
  by (simp add: out0_def push_def pusher_on_def init_pusher_def cx0_def good_sink_def sink_push_def
        received_def timedelta_microseconds_def base_data_def srv_my_def init_server_def Let_def
        opt_str_def)

subsection \<open>The operation of an event\<close>

text \<open>
  C2, as the specification words it, fails on the code: for the body
  \<^verbatim>\<open>{"operation": "explain"}\<close> posted to the path \<^verbatim>\<open>/infer\<close> the handler works with the operation
  \<^verbatim>\<open>infer\<close>, from the path, where the order of the specification gives \<^verbatim>\<open>explain\<close>, from the
  body.
\<close>

theorem body_operation_first_counterexample:
  "fst (event_operation (event_at ''/infer'' ''POST'' (PDict [(''operation'', PStr ''explain'')]) None)
         (PDict [(''operation'', PStr ''explain'')])) = PStr ''infer''
   \<and> spec_operation (event_at ''/infer'' ''POST'' (PDict [(''operation'', PStr ''explain'')]) None)
         (PDict [(''operation'', PStr ''explain'')]) = PStr ''explain''"
  by (simp add: event_operation_def spec_operation_def event_at_def strip_slash_def py_or_def
        dict_get_default_def)

text \<open>
  C2, amended. The operation is the path with its leading and trailing slashes stripped,
  whenever that is not empty, whatever the body holds. With an empty stripped path it is the
  \<^verbatim>\<open>operation\<close> field of a body that is a dict, when that field holds a true value. When
  neither gives an operation (the body is no dict, or is a dict without the field, or with
  a field that holds a false value such as the empty string) and the method is not \<^verbatim>\<open>GET\<close>,
  it is \<^verbatim>\<open>infer\<close>. The three examples of the specification hold.
\<close>

theorem event_operation_order:
  "(strip_slash (ev_path ev) \<noteq> []
      \<longrightarrow> fst (event_operation ev body) = PStr (strip_slash (ev_path ev)))
   \<and> (strip_slash (ev_path ev) = [] \<and> map_of d ''operation'' = Some v \<and> truthy v
      \<longrightarrow> fst (event_operation ev (PDict d)) = v)
   \<and> (strip_slash (ev_path ev) = [] \<and> map_of d ''operation'' = None \<and> ev_method ev \<noteq> ''GET''
      \<longrightarrow> fst (event_operation ev (PDict d)) = PStr ''infer'')
   \<and> (strip_slash (ev_path ev) = [] \<and> map_of d ''operation'' = Some v \<and> \<not> truthy v
      \<and> ev_method ev \<noteq> ''GET''
      \<longrightarrow> fst (event_operation ev (PDict d)) = PStr ''infer'')
   \<and> (strip_slash (ev_path ev) = [] \<and> \<not> is_dict body \<and> ev_method ev \<noteq> ''GET''
      \<longrightarrow> fst (event_operation ev body) = PStr ''infer'')
   \<and> fst (event_operation (event_at ''/infer'' ''POST'' (PDict []) trg) (PDict [])) = PStr ''infer''
   \<and> fst (event_operation (event_at [] ''POST'' (PDict [(''operation'', PStr ''explain'')]) trg)
            (PDict [(''operation'', PStr ''explain'')])) = PStr ''explain''
   \<and> fst (event_operation (event_at [] ''GET'' (PDict []) trg) (PDict [])) = PStr []"
proof (intro conjI impI)
  assume "strip_slash (ev_path ev) \<noteq> []"
  then show "fst (event_operation ev body) = PStr (strip_slash (ev_path ev))"
    by (cases body) (simp_all add: event_operation_def py_or_def split_beta Let_def)
next
  assume "strip_slash (ev_path ev) = [] \<and> map_of d ''operation'' = Some v \<and> truthy v"
  then show "fst (event_operation ev (PDict d)) = v"
    by (auto simp: event_operation_def py_or_def split_beta Let_def)
next
  assume "strip_slash (ev_path ev) = [] \<and> map_of d ''operation'' = None \<and> ev_method ev \<noteq> ''GET''"
  then show "fst (event_operation ev (PDict d)) = PStr ''infer''"
    by (simp add: event_operation_def py_or_def split_beta Let_def)
next
  assume "strip_slash (ev_path ev) = [] \<and> map_of d ''operation'' = Some v \<and> \<not> truthy v
      \<and> ev_method ev \<noteq> ''GET''"
  then show "fst (event_operation ev (PDict d)) = PStr ''infer''"
    by (auto simp: event_operation_def py_or_def split_beta Let_def)
next
  assume "strip_slash (ev_path ev) = [] \<and> \<not> is_dict body \<and> ev_method ev \<noteq> ''GET''"
  then show "fst (event_operation ev body) = PStr ''infer''"
    by (cases body) (simp_all add: event_operation_def py_or_def split_beta is_dict_def Let_def)
qed (simp_all add: event_operation_def event_at_def strip_slash_def py_or_def Let_def)

theorem event_operation_order_witness:
  "fst (event_operation (event_at ''//v2/models/my/infer/'' ''GET'' PNone None)
         (PDict [(''operation'', PStr ''explain'')])) = PStr ''v2/models/my/infer''
   \<and> fst (event_operation (event_at ''/'' ''GET'' PNone None)
         (PDict [(''id'', PInt 3), (''operation'', PStr ''explain'')])) = PStr ''explain''
   \<and> fst (event_operation (event_at ''/'' ''PUT'' PNone None) (PDict [(''id'', PInt 3)]))
       = PStr ''infer''
   \<and> fst (event_operation (event_at [] ''POST'' PNone None) (PList [PInt 1])) = PStr ''infer''
   \<and> fst (event_operation (event_at ''/'' ''PUT'' PNone None) (PDict [(''operation'', PStr [])]))
       = PStr ''infer''"
proof -
  let ?e1 = "event_at ''//v2/models/my/infer/'' ''GET'' PNone None"
  let ?e2 = "event_at ''/'' ''GET'' PNone None"
  let ?e3 = "event_at ''/'' ''PUT'' PNone None"
  let ?e4 = "event_at [] ''POST'' PNone None"
  have a: "strip_slash (ev_path ?e1) = ''v2/models/my/infer''"
    and b: "strip_slash (ev_path ?e2) = []" "strip_slash (ev_path ?e3) = []"
           "strip_slash (ev_path ?e4) = []"
    and m: "ev_method ?e3 \<noteq> ''GET''" "ev_method ?e4 \<noteq> ''GET''"
    by (simp_all add: event_at_def strip_slash_def)
  have c: "map_of [(''id'', PInt 3), (''operation'', PStr ''explain'')] ''operation''
             = Some (PStr ''explain'')" "truthy (PStr ''explain'')"
          "map_of [(''id'', PInt 3)] ''operation'' = None" "\<not> is_dict (PList [PInt 1])"
          "map_of [(''operation'', PStr [])] ''operation'' = Some (PStr [])" "\<not> truthy (PStr [])"
    by (simp_all add: is_dict_def)
  from event_operation_order [of ?e1 "PDict [(''operation'', PStr ''explain'')]"]
       event_operation_order [of ?e2 _ "[(''id'', PInt 3), (''operation'', PStr ''explain'')]"
          "PStr ''explain''"]
       event_operation_order [of ?e3 _ "[(''id'', PInt 3)]"]
       event_operation_order [of ?e4 "PList [PInt 1]"]
       event_operation_order [of ?e3 _ "[(''operation'', PStr [])]" "PStr []"]
       a b m c
  show ?thesis by simp
qed

subsection \<open>Inputs given as dicts\<close>






















subsection \<open>Reconciliation of the endpoint record\<close>

text \<open>
  C8, as stated, fails on the code. The lookup finds no endpoint, the context tracks models,
  and the creation of the record fails with \<^verbatim>\<open>MLRunBadRequestError\<close>: the error leaves
  \<^verbatim>\<open>_init_endpoint_record\<close>, and \<^verbatim>\<open>post_init\<close>, which called it. So does an error of the lookup
  that is of neither class the code catches.
\<close>

theorem reconcile_raises_counterexample:
  "fst (init_endpoint_record out_create_fails gs0 srv_my w0) = Inl store_unavailable
   \<and> fst (post_init out_create_fails V2ModelServer srv_my w0 ''sync'') = Some store_unavailable
   \<and> fst (init_endpoint_record out_lookup_refused gs0 srv_my w0) = Inl connection_refused"
  by (simp add: init_endpoint_record_def after_lookup_def post_init_def out_create_fails_def
        out_lookup_refused_def out0_def gs0_def srv_my_def init_server_def cx0_def w0_def
        logger_def get_model_def function_tag_or_latest_def function_uid_of_def
        dict_get_default_def store_unavailable_def connection_refused_def Let_def)


text \<open>
  C8, amended. \<open>srv'\<close> is the server once \<^verbatim>\<open>get_model\<close> has filled in a model spec that was not
  there. When the lookup of the endpoint raises \<^verbatim>\<open>MLRunBadRequestError\<close>, reconciliation logs
  the error (the text that \<^verbatim>\<open>err_to_str\<close> gives for it) and returns \<^verbatim>\<open>None\<close>. When the lookup raises \<^verbatim>\<open>MLRunNotFoundError\<close>, reconciliation
  goes on as with no record, and returns \<^verbatim>\<open>None\<close> when the context does not track models.
  An error of the lookup of any other class reaches the caller, and so does an error of the
  creation of the record.
\<close>

theorem lookup_soft_failure:
  "((if model_spec srv = None then get_model out srv [] else (None, srv)) = (None, srv')
      \<and> db_get_model_endpoint out (gs_project gs) (name srv') (gs_function_name gs)
            (function_tag_or_latest gs) = Inl err
      \<and> exn_class err = MLRunBadRequestError
      \<longrightarrow> init_endpoint_record out gs srv w
            = (Inr None, srv',
               w\<lparr>w_log := w_log w @ [(INFO, ''Initializing endpoint records'', []),
                                       (INFO, ''Cannot get the model endpoints store'',
                                        [(''err'', PStr (err_to_str out err))])]\<rparr>))
   \<and> ((if model_spec srv = None then get_model out srv [] else (None, srv)) = (None, srv')
      \<and> db_get_model_endpoint out (gs_project gs) (name srv') (gs_function_name gs)
            (function_tag_or_latest gs) = Inl err
      \<and> exn_class err = MLRunNotFoundError
      \<longrightarrow> fst (after_lookup out gs srv' None) = fst (init_endpoint_record out gs srv w)
          \<and> (db_get_function out (gs_function_name gs) (gs_project gs) (function_tag_or_latest gs)
                = Inr func
              \<and> function_uid_of func = Inr function_uid
              \<and> ctx_server (ctx srv') = Some context_server
              \<and> \<not> gs_track_models context_server
              \<longrightarrow> fst (init_endpoint_record out gs srv w) = Inr None)
          \<and> (db_get_function out (gs_function_name gs) (gs_project gs) (function_tag_or_latest gs)
                = Inr func
              \<and> function_uid_of func = Inr function_uid
              \<and> ctx_server (ctx srv') = Some context_server
              \<and> gs_track_models context_server
              \<and> (\<forall>ep. db_create_model_endpoint out ep = Inl e)
              \<longrightarrow> fst (init_endpoint_record out gs srv w) = Inl e))
   \<and> ((if model_spec srv = None then get_model out srv [] else (None, srv)) = (None, srv')
      \<and> db_get_model_endpoint out (gs_project gs) (name srv') (gs_function_name gs)
            (function_tag_or_latest gs) = Inl err
      \<and> exn_class err \<noteq> MLRunNotFoundError \<and> exn_class err \<noteq> MLRunBadRequestError
      \<longrightarrow> fst (init_endpoint_record out gs srv w) = Inl err)"
proof (intro conjI impI)
  assume "(if model_spec srv = None then get_model out srv [] else (None, srv)) = (None, srv')
      \<and> db_get_model_endpoint out (gs_project gs) (name srv') (gs_function_name gs)
            (function_tag_or_latest gs) = Inl err
      \<and> exn_class err = MLRunBadRequestError"
  then show "init_endpoint_record out gs srv w
      = (Inr None, srv',
         w\<lparr>w_log := w_log w @ [(INFO, ''Initializing endpoint records'', []),
                                 (INFO, ''Cannot get the model endpoints store'',
                                  [(''err'', PStr (err_to_str out err))])]\<rparr>)"
    by (simp add: init_endpoint_record_def logger_def)
next
  assume a: "(if model_spec srv = None then get_model out srv [] else (None, srv)) = (None, srv')
      \<and> db_get_model_endpoint out (gs_project gs) (name srv') (gs_function_name gs)
            (function_tag_or_latest gs) = Inl err
      \<and> exn_class err = MLRunNotFoundError"
  then show f: "fst (after_lookup out gs srv' None) = fst (init_endpoint_record out gs srv w)"
    by (simp add: init_endpoint_record_def split_beta Let_def)
  {
    assume "db_get_function out (gs_function_name gs) (gs_project gs) (function_tag_or_latest gs)
                = Inr func
              \<and> function_uid_of func = Inr function_uid
              \<and> ctx_server (ctx srv') = Some context_server
              \<and> \<not> gs_track_models context_server"
    then have "fst (after_lookup out gs srv' None) = Inr None"
      by (simp add: after_lookup_def split_beta)
    with f show "fst (init_endpoint_record out gs srv w) = Inr None"
      by simp
  }
  {
    assume "db_get_function out (gs_function_name gs) (gs_project gs) (function_tag_or_latest gs)
                = Inr func
              \<and> function_uid_of func = Inr function_uid
              \<and> ctx_server (ctx srv') = Some context_server
              \<and> gs_track_models context_server
              \<and> (\<forall>ep. db_create_model_endpoint out ep = Inl e)"
    then have "fst (after_lookup out gs srv' None) = Inl e"
      by (simp add: after_lookup_def split_beta Let_def)
    with f show "fst (init_endpoint_record out gs srv w) = Inl e"
      by simp
  }
next
  assume "(if model_spec srv = None then get_model out srv [] else (None, srv)) = (None, srv')
      \<and> db_get_model_endpoint out (gs_project gs) (name srv') (gs_function_name gs)
            (function_tag_or_latest gs) = Inl err
      \<and> exn_class err \<noteq> MLRunNotFoundError \<and> exn_class err \<noteq> MLRunBadRequestError"
  then show "fst (init_endpoint_record out gs srv w) = Inl err"
    by (simp add: init_endpoint_record_def)
qed

theorem lookup_soft_failure_witness:
  "init_endpoint_record out_lookup_fails gs0 srv_my w0
     = (Inr None, srv_my,
        w0\<lparr>w_log := [(INFO, ''Initializing endpoint records'', []),
                        (INFO, ''Cannot get the model endpoints store'',
                         [(''err'', PStr ''model endpoints store is not available'')])]\<rparr>)
   \<and> fst (init_endpoint_record out0 gs0 srv_untracked w0) = Inr None
   \<and> fst (init_endpoint_record out_create_fails gs0 srv_my w0) = Inl store_unavailable
   \<and> fst (init_endpoint_record out_lookup_refused gs0 srv_my w0) = Inl connection_refused"
proof -
  have m: "(if model_spec srv_my = None then get_model out_lookup_fails srv_my [] else (None, srv_my))
             = (None, srv_my)"
          "(if model_spec srv_untracked = None then get_model out0 srv_untracked []
            else (None, srv_untracked)) = (None, srv_untracked)"
          "(if model_spec srv_my = None then get_model out_create_fails srv_my [] else (None, srv_my))
             = (None, srv_my)"
          "(if model_spec srv_my = None then get_model out_lookup_refused srv_my [] else (None, srv_my))
             = (None, srv_my)"
    by (simp_all add: get_model_def srv_my_def srv_untracked_def init_server_def)
  have l: "db_get_model_endpoint out_lookup_fails (gs_project gs0) (name srv_my)
             (gs_function_name gs0) (function_tag_or_latest gs0) = Inl store_unavailable"
          "db_get_model_endpoint out0 (gs_project gs0) (name srv_untracked)
             (gs_function_name gs0) (function_tag_or_latest gs0)
             = Inl (Exn MLRunNotFoundError ''not found'')"
          "db_get_model_endpoint out_create_fails (gs_project gs0) (name srv_my)
             (gs_function_name gs0) (function_tag_or_latest gs0)
             = Inl (Exn MLRunNotFoundError ''not found'')"
          "db_get_model_endpoint out_lookup_refused (gs_project gs0) (name srv_my)
             (gs_function_name gs0) (function_tag_or_latest gs0) = Inl connection_refused"
    by (simp_all add: out_lookup_fails_def out_create_fails_def out_lookup_refused_def out0_def)
  have c: "exn_class store_unavailable = MLRunBadRequestError"
          "err_to_str out_lookup_fails store_unavailable = ''model endpoints store is not available''"
          "exn_class connection_refused \<noteq> MLRunNotFoundError"
          "exn_class connection_refused \<noteq> MLRunBadRequestError"
    by (simp_all add: store_unavailable_def connection_refused_def out_lookup_fails_def out0_def)
  have g: "db_get_function out0 (gs_function_name gs0) (gs_project gs0) (function_tag_or_latest gs0)
             = Inr [(''metadata'', PDict [(''uid'', PStr ''f1'')])]"
          "db_get_function out_create_fails (gs_function_name gs0) (gs_project gs0)
             (function_tag_or_latest gs0) = Inr [(''metadata'', PDict [(''uid'', PStr ''f1'')])]"
          "function_uid_of [(''metadata'', PDict [(''uid'', PStr ''f1'')])] = Inr (PStr ''f1'')"
          "\<forall>ep. db_create_model_endpoint out_create_fails ep = Inl store_unavailable"
    by (simp_all add: out_create_fails_def out0_def function_uid_of_def dict_get_default_def)
  have t: "ctx_server (ctx srv_untracked) = Some (gs0\<lparr>gs_track_models := False\<rparr>)"
          "\<not> gs_track_models (gs0\<lparr>gs_track_models := False\<rparr>)"
          "ctx_server (ctx srv_my) = Some gs0" "gs_track_models gs0"
    by (simp_all add: srv_untracked_def srv_my_def init_server_def cx0_def gs0_def)
  from lookup_soft_failure [where srv = srv_my and out = out_lookup_fails and srv' = srv_my
         and gs = gs0 and err = store_unavailable and w = w0]
       lookup_soft_failure [where srv = srv_untracked and out = out0 and srv' = srv_untracked
         and gs = gs0 and err = "Exn MLRunNotFoundError ''not found''" and w = w0
         and func = "[(''metadata'', PDict [(''uid'', PStr ''f1'')])]"
         and function_uid = "PStr ''f1''" and context_server = "gs0\<lparr>gs_track_models := False\<rparr>"]
       lookup_soft_failure [where srv = srv_my and out = out_create_fails and srv' = srv_my
         and gs = gs0 and err = "Exn MLRunNotFoundError ''not found''" and w = w0
         and func = "[(''metadata'', PDict [(''uid'', PStr ''f1'')])]"
         and function_uid = "PStr ''f1''" and context_server = gs0 and e = store_unavailable]
       lookup_soft_failure [where srv = srv_my and out = out_lookup_refused and srv' = srv_my
         and gs = gs0 and err = connection_refused and w = w0]
       m l c g t
  show ?thesis by (simp add: w0_def)
qed

subsection \<open>The response envelope\<close>

lemmas eval_defs =
  do_event_def event_operation_def predict_operation_def explain_operation_def
  pre_event_processing_actions_def check_readiness_def after_inference_def
  on_inference_error_def predict_response_def explain_response_def
  validate_def py_in_def push_def sink_push_def base_data_def timedelta_microseconds_def
  out0_def srv_my_def srv_latest_def srv_bad_sink_def srv_good_sink_def init_server_def split_colon_def cx0_def gs0_def
  MyClass_def FailingClass_def DictClass_def V2ModelServer_def event_at_def inputs_body_def
  strip_slash_def py_or_def dict_get_default_def opt_str_def Let_def
  pusher_on_def init_pusher_def good_sink_def bad_sink_def sink_down_def inference_error_def

lemma explain_latest:
  "fst (do_event out0 MyClass srv_latest (event_at ''/explain'' ''POST'' (PDict inputs_body) None))
     = Inr ((event_at ''/explain'' ''POST'' (PDict inputs_body) None)
              \<lparr>ev_body := Payload (PDict [(''id'', PStr ''e1''), (''model_name'', PStr ''my''),
                                         (''outputs'', PList [PInt 7]),
                                         (''model_version'', PStr ''latest'')])\<rparr>)"
  by (simp add: eval_defs)

lemma infer_my:
  "fst (do_event out0 MyClass srv_my (event_at ''/infer'' ''POST'' (PDict inputs_body) None))
     = Inr ((event_at ''/infer'' ''POST'' (PDict inputs_body) None)
              \<lparr>ev_body := Payload (PDict [(''id'', PStr ''e1''), (''model_name'', PStr ''my''),
                                         (''outputs'', PList [PInt 7]),
                                         (''timestamp'', PStr ''1970-01-01 00:00:00.000000+00:00'')])\<rparr>)"
  by (simp add: eval_defs)

lemma infer_dict_class:
  "fst (do_event out0 DictClass srv_latest (event_at ''/infer'' ''POST'' (PDict inputs_body) None))
     = Inr ((event_at ''/infer'' ''POST'' (PDict inputs_body) None)
              \<lparr>ev_body := Payload (PDict [(''id'', PStr ''e1''), (''model_name'', PStr ''my''),
                     (''outputs'', PDict [(''outputs'', PList [PInt 7])]),
                     (''timestamp'', PStr ''1970-01-01 00:00:00.000000+00:00''),
                     (''model_version'', PStr ''latest'')])\<rparr>)"
  by (simp add: eval_defs)

text \<open>
  C6, as stated, fails on the code. The response of an \<^verbatim>\<open>explain\<close> request holds no
  \<^verbatim>\<open>timestamp\<close>. The response to \<^verbatim>\<open>{"inputs": [[1,2,3]]}\<close> of a ready server constructed under
  the name \<^verbatim>\<open>my\<close>, whose \<^verbatim>\<open>predict\<close> returns \<^verbatim>\<open>[7]\<close>, holds no \<^verbatim>\<open>model_version\<close>: the version of
  that server is empty, and nothing in the handler puts \<^verbatim>\<open>latest\<close> for it. And when \<^verbatim>\<open>predict\<close>
  returns \<^verbatim>\<open>{"outputs": [7]}\<close>, the field \<^verbatim>\<open>outputs\<close> of the response is that dict, not \<^verbatim>\<open>[7]\<close>.
\<close>

theorem envelope_counterexample:
  "fst (do_event out0 MyClass srv_latest (event_at ''/explain'' ''POST'' (PDict inputs_body) None))
     = Inr ((event_at ''/explain'' ''POST'' (PDict inputs_body) None)
              \<lparr>ev_body := Payload (PDict [(''id'', PStr ''e1''), (''model_name'', PStr ''my''),
                                         (''outputs'', PList [PInt 7]),
                                         (''model_version'', PStr ''latest'')])\<rparr>)
   \<and> map_of [(''id'', PStr ''e1''), (''model_name'', PStr ''my''), (''outputs'', PList [PInt 7]),
              (''model_version'', PStr ''latest'')] ''timestamp'' = None
   \<and> fst (do_event out0 MyClass srv_my (event_at ''/infer'' ''POST'' (PDict inputs_body) None))
     = Inr ((event_at ''/infer'' ''POST'' (PDict inputs_body) None)
              \<lparr>ev_body := Payload (PDict [(''id'', PStr ''e1''), (''model_name'', PStr ''my''),
                                         (''outputs'', PList [PInt 7]),
                                         (''timestamp'', PStr ''1970-01-01 00:00:00.000000+00:00'')])\<rparr>)
   \<and> map_of [(''id'', PStr ''e1''), (''model_name'', PStr ''my''), (''outputs'', PList [PInt 7]),
              (''timestamp'', PStr ''1970-01-01 00:00:00.000000+00:00'')] ''model_version'' = None
   \<and> fst (do_event out0 DictClass srv_latest (event_at ''/infer'' ''POST'' (PDict inputs_body) None))
     = Inr ((event_at ''/infer'' ''POST'' (PDict inputs_body) None)
              \<lparr>ev_body := Payload (PDict [(''id'', PStr ''e1''), (''model_name'', PStr ''my''),
                     (''outputs'', PDict [(''outputs'', PList [PInt 7])]),
                     (''timestamp'', PStr ''1970-01-01 00:00:00.000000+00:00''),
                     (''model_version'', PStr ''latest'')])\<rparr>)"
  using explain_latest infer_my infer_dict_class by simp


text \<open>
  C6, amended. The response of a predict operation holds \<^verbatim>\<open>id\<close>, \<^verbatim>\<open>model_name\<close>, \<^verbatim>\<open>outputs\<close> and
  \<^verbatim>\<open>timestamp\<close>, the start of the handler in ISO form with microseconds, and holds
  \<^verbatim>\<open>model_version\<close> exactly when the version of the server is not empty. The response of an
  explain operation holds \<^verbatim>\<open>id\<close>, \<^verbatim>\<open>model_name\<close> and \<^verbatim>\<open>outputs\<close>, and \<^verbatim>\<open>model_version\<close> under the
  same condition. When the handler returns from one of these operations, with the
  \<^verbatim>\<open>postprocess\<close> of the base class, the body of the event it returns is that response, written
  by \<^verbatim>\<open>_update_result_body\<close>. The request \<^verbatim>\<open>{"inputs": [[1,2,3]]}\<close> to a ready server constructed
  under the name \<^verbatim>\<open>my:latest\<close>, whose \<^verbatim>\<open>predict\<close> returns \<^verbatim>\<open>[7]\<close>, yields the five fields, with
  \<^verbatim>\<open>model_name\<close> \<^verbatim>\<open>my\<close> and \<^verbatim>\<open>model_version\<close> \<^verbatim>\<open>latest\<close>.
\<close>

theorem response_envelope:
  "map_of (predict_response out srv start eid outputs) ''id'' = Some eid
   \<and> map_of (predict_response out srv start eid outputs) ''model_name'' = Some (opt_str (name srv))
   \<and> map_of (predict_response out srv start eid outputs) ''outputs'' = Some outputs
   \<and> map_of (predict_response out srv start eid outputs) ''timestamp''
       = Some (PStr (isoformat out start))
   \<and> map_of (predict_response out srv start eid outputs) ''model_version''
       = (if version srv = [] then None else Some (PStr (version srv)))
   \<and> map_of (explain_response srv eid outputs) ''id'' = Some eid
   \<and> map_of (explain_response srv eid outputs) ''model_name'' = Some (opt_str (name srv))
   \<and> map_of (explain_response srv eid outputs) ''outputs'' = Some outputs
   \<and> map_of (explain_response srv eid outputs) ''model_version''
       = (if version srv = [] then None else Some (PStr (version srv)))
   \<and> (extract_input_data out (input_path srv) (ev_body ev) = Inr body
      \<and> event_operation ev body = (PStr op, eid)
      \<and> op \<in> set [''predict'', ''infer'', ''infer_dict'', ''predict_dict'', ''explain'']
      \<and> pre_event_processing_actions out h srv ev body op = (Inr request, srv')
      \<and> (if op = ''explain'' then h_explain h else h_predict h) request = Inr outputs
      \<and> h_postprocess h = Inr
      \<and> fst (do_event out h srv ev) = Inr ev'
      \<longrightarrow> update_result_body out (result_path srv') (ev_body ev)
            (PDict (if op = ''explain'' then explain_response srv' eid outputs
                    else predict_response out srv' (now_start out) eid outputs))
            = Inr (ev_body ev'))
   \<and> fst (do_event out0 MyClass srv_latest (event_at ''/infer'' ''POST'' (PDict inputs_body) None))
       = Inr ((event_at ''/infer'' ''POST'' (PDict inputs_body) None)
                \<lparr>ev_body := Payload (PDict [(''id'', PStr ''e1''), (''model_name'', PStr ''my''),
                     (''outputs'', PList [PInt 7]),
                     (''timestamp'', PStr ''1970-01-01 00:00:00.000000+00:00''),
                     (''model_version'', PStr ''latest'')])\<rparr>)"
proof (intro conjI impI)
  assume a: "extract_input_data out (input_path srv) (ev_body ev) = Inr body
      \<and> event_operation ev body = (PStr op, eid)
      \<and> op \<in> set [''predict'', ''infer'', ''infer_dict'', ''predict_dict'', ''explain'']
      \<and> pre_event_processing_actions out h srv ev body op = (Inr request, srv')
      \<and> (if op = ''explain'' then h_explain h else h_predict h) request = Inr outputs
      \<and> h_postprocess h = Inr
      \<and> fst (do_event out h srv ev) = Inr ev'"
  let ?pk = "if shard_by_endpoint srv \<noteq> Some False then opt_str (model_endpoint_uid srv) else PNone"
  let ?resp = "PDict (if op = ''explain'' then explain_response srv' eid outputs
                      else predict_response out srv' (now_start out) eid outputs)"
  from a have e: "extract_input_data out (input_path srv) (ev_body ev) = Inr body"
    and o: "event_operation ev body = (PStr op, eid)"
    and m: "op \<in> set [''predict'', ''infer'', ''infer_dict'', ''predict_dict'', ''explain'']"
    and p: "pre_event_processing_actions out h srv ev body op = (Inr request, srv')"
    and r: "(if op = ''explain'' then h_explain h else h_predict h) request = Inr outputs"
    and q: "h_postprocess h ?resp = Inr ?resp"
    and d: "fst (do_event out h srv ev) = Inr ev'"
    by simp_all
  have "do_event out h srv ev
          = after_inference out h srv' ev (now_start out) request ?resp op eid ?pk"
    unfolding do_event_inference [OF e o m]
    by (rule inference_operation_returns [OF p r])
  with d have "fst (after_inference out h srv' ev (now_start out) request ?resp op eid ?pk) = Inr ev'"
    by simp
  from after_inference_body [OF q this]
  show "update_result_body out (result_path srv') (ev_body ev) ?resp = Inr (ev_body ev')" .
qed (simp_all add: predict_response_def explain_response_def eval_defs)

theorem response_envelope_witness:
  "update_result_body out0 None (Payload (PDict inputs_body))
     (PDict [(''id'', PStr ''e1''), (''model_name'', PStr ''my''), (''outputs'', PList [PInt 7]),
             (''model_version'', PStr ''latest'')])
     = Inr (Payload (PDict [(''id'', PStr ''e1''), (''model_name'', PStr ''my''),
                            (''outputs'', PList [PInt 7]), (''model_version'', PStr ''latest'')]))
   \<and> map_of (predict_response out0 srv_latest 0 (PStr ''e1'') (PList [PInt 7])) ''model_version''
       = Some (PStr ''latest'')
   \<and> map_of (predict_response out0 srv_my 0 (PStr ''e1'') (PList [PInt 7])) ''model_version'' = None"
proof -
  let ?ev = "event_at ''/explain'' ''POST'' (PDict inputs_body) None"
  have e: "extract_input_data out0 (input_path srv_latest) (ev_body ?ev) = Inr (PDict inputs_body)"
    and o: "event_operation ?ev (PDict inputs_body) = (PStr ''explain'', PStr ''e1'')"
    and p: "pre_event_processing_actions out0 MyClass srv_latest ?ev (PDict inputs_body) ''explain''
              = (Inr (PDict inputs_body), srv_latest)"
    and r: "h_explain MyClass (PDict inputs_body) = Inr (PList [PInt 7])"
    and q: "h_postprocess MyClass = Inr"
    and v: "version srv_latest = ''latest''" "version srv_my = []" "result_path srv_latest = None"
           "ev_body ?ev = Payload (PDict inputs_body)"
           "name srv_latest = Some ''my''" "name srv_my = Some ''my''"
    and x: "explain_response srv_latest (PStr ''e1'') (PList [PInt 7])
              = [(''id'', PStr ''e1''), (''model_name'', PStr ''my''), (''outputs'', PList [PInt 7]),
                 (''model_version'', PStr ''latest'')]"
    by (simp_all add: eval_defs)
  from response_envelope [where out = out0 and srv = srv_latest and ev = ?ev
         and body = "PDict inputs_body" and op = "''explain''" and eid = "PStr ''e1''"
         and h = MyClass and request = "PDict inputs_body" and srv' = srv_latest
         and outputs = "PList [PInt 7]" and start = 0
         and ev' = "?ev\<lparr>ev_body := Payload (PDict [(''id'', PStr ''e1''), (''model_name'', PStr ''my''),
                                         (''outputs'', PList [PInt 7]),
                                         (''model_version'', PStr ''latest'')])\<rparr>"]
       response_envelope [where out = out0 and srv = srv_my and ev = ?ev
         and body = "PDict inputs_body" and op = "''explain''" and eid = "PStr ''e1''"
         and h = MyClass and request = "PDict inputs_body" and srv' = srv_my
         and outputs = "PList [PInt 7]" and start = 0 and ev' = ?ev]
       explain_latest e o p r q v x
  show ?thesis by (simp add: opt_str_def)
qed

subsection \<open>Pushes on a sink that raises, and on one that does not\<close>

lemma push_error_raising:
  assumes "p_output_stream p = Some s" and "\<forall>records. sink_raises s records = Some e"
  shows "push out srv p start request resp op (Some exc) pk = (Some e, p)"
  using assms by (simp add: push_def sink_push_def Let_def)

lemma push_plain_raising:
  assumes "p_output_stream p = Some s" and "\<forall>records. sink_raises s records = Some e"
    and "emits p"
  shows "fst (push out srv p start request resp op None pk) = Some e"
  using assms by (auto simp: emits_def push_def sink_push_def Let_def)

lemma push_plain_unreached:
  assumes "p_stream_sample p \<noteq> 0" and "\<not> emits p"
  shows "fst (push out srv p start request resp op None pk) = None"
    and "p_output_stream (snd (push out srv p start request resp op None pk)) = p_output_stream p"
  using assms by (auto simp: emits_def push_def sink_push_def Let_def)

lemma push_error_kept:
  assumes "p_output_stream p = Some s" and "\<forall>records. sink_raises s records = None"
  shows "fst (push out srv p start request resp op (Some exc) pk) = None"
  using assms by (simp add: push_def sink_push_def Let_def)

lemma push_plain_kept:
  assumes "p_output_stream p = Some s" and "\<forall>records. sink_raises s records = None"
    and "p_stream_sample p \<noteq> 0"
  shows "fst (push out srv p start request resp op None pk) = None"
  using assms by (simp add: push_def sink_push_def Let_def)

lemma on_inference_error_raising:
  assumes "model_logger srv = Some p" and "p_output_stream p = Some s"
    and "\<forall>records. sink_raises s records = Some e"
  shows "fst (on_inference_error out srv start (PDict req) op eid exc pk) = e"
  using assms push_error_raising [OF assms(2,3)]
  by (simp add: on_inference_error_def)

lemma on_inference_error_kept:
  assumes "model_logger srv = Some p" and "p_output_stream p = Some s"
    and "\<forall>records. sink_raises s records = None"
  shows "fst (on_inference_error out srv start (PDict req) op eid exc pk) = exc"
proof -
  obtain r p' where x: "push out srv p start (PDict (dict_set req ''id'' eid)) PNone (PStr op)
                          (Some exc) pk = (r, p')"
    by (cases "push out srv p start (PDict (dict_set req ''id'' eid)) PNone (PStr op) (Some exc) pk")
  with push_error_kept [OF assms(2,3), of out srv start "PDict (dict_set req ''id'' eid)" PNone
         "PStr op" exc pk]
  have "r = None" by simp
  with x assms(1) show ?thesis
    by (simp add: on_inference_error_def)
qed

lemma after_inference_raising:
  assumes "h_postprocess h response0 = Inr response"
    and "model_logger srv = Some p"
    and "\<And>rq rs. fst (push out srv p start rq rs (PStr op) None pk) = Some e"
  shows "fst (after_inference out h srv ev start request response0 op eid pk) = Inl e"
  using assms
  by (simp add: after_inference_def Let_def split_beta)

lemma after_inference_kept:
  assumes "h_postprocess h response0 = Inr response"
    and "model_logger srv = Some p"
    and "\<And>rq rs. fst (push out srv p start rq rs (PStr op) None pk) = None"
  shows "fst (after_inference out h srv ev start request response0 op eid pk)
           = (case update_result_body out (result_path srv) (ev_body ev) response of
                Inl x \<Rightarrow> Inl x
              | Inr b \<Rightarrow> Inr (ev\<lparr>ev_body := b\<rparr>))"
  using assms
  by (simp add: after_inference_def Let_def split_beta split: sum.splits)

lemma infer_bad_sink:
  "fst (do_event out0 MyClass srv_bad_sink (event_at ''/infer'' ''POST'' (PDict inputs_body) None))
     = Inl sink_down"
  "fst (do_event out0 FailingClass srv_bad_sink (event_at ''/infer'' ''POST'' (PDict inputs_body) None))
     = Inl sink_down"
  by (simp_all add: eval_defs)

lemma infer_good_sink:
  "fst (do_event out0 MyClass srv_good_sink (event_at ''/infer'' ''POST'' (PDict inputs_body) None))
     = Inr ((event_at ''/infer'' ''POST'' (PDict inputs_body) None)
              \<lparr>ev_body := Payload (PDict [(''id'', PStr ''e1''), (''model_name'', PStr ''my''),
                     (''outputs'', PList [PInt 7]),
                     (''timestamp'', PStr ''1970-01-01 00:00:00.000000+00:00'')])\<rparr>)"
  "fst (do_event out0 FailingClass srv_good_sink (event_at ''/infer'' ''POST'' (PDict inputs_body) None))
     = Inl inference_error"
  by (simp_all add: eval_defs)

text \<open>
  C1, as stated, fails on the code. The sink of the pusher raises \<^verbatim>\<open>ConnectionError\<close> on every
  push. A request whose \<^verbatim>\<open>predict\<close> returns \<^verbatim>\<open>[7]\<close> does not get its response: the handler raises
  the error of the sink. A request whose \<^verbatim>\<open>predict\<close> raises \<^verbatim>\<open>ValueError\<close> does not get that error:
  the handler raises the error of the sink in its place. On the sink that keeps its records
  the same two requests get the response and the \<^verbatim>\<open>ValueError\<close>.
\<close>

theorem sink_failure_counterexample:
  "fst (do_event out0 MyClass srv_bad_sink (event_at ''/infer'' ''POST'' (PDict inputs_body) None))
     = Inl sink_down
   \<and> fst (do_event out0 FailingClass srv_bad_sink
            (event_at ''/infer'' ''POST'' (PDict inputs_body) None)) = Inl sink_down
   \<and> sink_down \<noteq> inference_error
   \<and> fst (do_event out0 MyClass srv_good_sink (event_at ''/infer'' ''POST'' (PDict inputs_body) None))
     = Inr ((event_at ''/infer'' ''POST'' (PDict inputs_body) None)
              \<lparr>ev_body := Payload (PDict [(''id'', PStr ''e1''), (''model_name'', PStr ''my''),
                     (''outputs'', PList [PInt 7]),
                     (''timestamp'', PStr ''1970-01-01 00:00:00.000000+00:00'')])\<rparr>)
   \<and> fst (do_event out0 FailingClass srv_good_sink
            (event_at ''/infer'' ''POST'' (PDict inputs_body) None)) = Inl inference_error"
  using infer_bad_sink infer_good_sink
  by (simp add: sink_down_def inference_error_def)

text \<open>
  C1, amended. The sink of the pusher raises \<open>e\<close> on every push. A push that carries an error
  raises \<open>e\<close>. A push without an error raises \<open>e\<close> whenever it reaches the sink, that is when it
  passes the sampling (the sample counter comes to 0) and, on a pusher that batches, completes
  a batch (the batch counter comes to 0); any other push without an error returns, and leaves
  the sink alone. The failure leaves \<^verbatim>\<open>do_event\<close> too, for a predict or explain request on a
  server whose pusher writes to that sink: in place of the inference error when the model
  raises, and in place of the response when the model returns and the push of the response
  reaches the sink. When the sink does not raise, or the push of the response does not reach
  it, the handler re-raises the inference error, or returns the event with the response
  written by \<^verbatim>\<open>_update_result_body\<close>.
\<close>

theorem sink_failure_propagates:
  "(p_output_stream p = Some s \<and> (\<forall>records. sink_raises s records = Some e)
      \<longrightarrow> fst (push out srv p start request resp op (Some exc) pk) = Some e
          \<and> (emits p \<longrightarrow> fst (push out srv p start request resp op None pk) = Some e)
          \<and> (p_stream_sample p \<noteq> 0 \<and> \<not> emits p
               \<longrightarrow> fst (push out srv p start request resp op None pk) = None
                   \<and> p_output_stream (snd (push out srv p start request resp op None pk))
                       = Some s))
   \<and> (extract_input_data out (input_path srv) (ev_body ev) = Inr body
      \<and> event_operation ev body = (PStr opn, eid)
      \<and> opn \<in> set [''predict'', ''infer'', ''infer_dict'', ''predict_dict'', ''explain'']
      \<and> pre_event_processing_actions out h srv ev body opn = (Inr (PDict req), srv')
      \<and> model_logger srv' = Some p \<and> p_output_stream p = Some s
      \<longrightarrow> ((if opn = ''explain'' then h_explain h else h_predict h) (PDict req) = Inl exc
             \<longrightarrow> ((\<forall>records. sink_raises s records = Some e)
                    \<longrightarrow> fst (do_event out h srv ev) = Inl e)
                 \<and> ((\<forall>records. sink_raises s records = None)
                    \<longrightarrow> fst (do_event out h srv ev) = Inl exc))
          \<and> ((if opn = ''explain'' then h_explain h else h_predict h) (PDict req) = Inr outputs
             \<and> h_postprocess h = Inr \<and> p_stream_sample p \<noteq> 0
             \<longrightarrow> ((\<forall>records. sink_raises s records = Some e) \<and> emits p
                    \<longrightarrow> fst (do_event out h srv ev) = Inl e)
                 \<and> ((\<forall>records. sink_raises s records = None) \<or> \<not> emits p
                    \<longrightarrow> fst (do_event out h srv ev)
                          = (case update_result_body out (result_path srv') (ev_body ev)
                                    (PDict (if opn = ''explain''
                                            then explain_response srv' eid outputs
                                            else predict_response out srv' (now_start out) eid
                                                   outputs)) of
                               Inl x \<Rightarrow> Inl x
                             | Inr b \<Rightarrow> Inr (ev\<lparr>ev_body := b\<rparr>)))))"
proof (intro conjI impI)
  assume "p_output_stream p = Some s \<and> (\<forall>records. sink_raises s records = Some e)"
  then show "fst (push out srv p start request resp op (Some exc) pk) = Some e"
    by (simp add: push_error_raising)
next
  assume "p_output_stream p = Some s \<and> (\<forall>records. sink_raises s records = Some e)"
    and "emits p"
  then show "fst (push out srv p start request resp op None pk) = Some e"
    by (simp add: push_plain_raising)
next
  assume "p_output_stream p = Some s \<and> (\<forall>records. sink_raises s records = Some e)"
    and "p_stream_sample p \<noteq> 0 \<and> \<not> emits p"
  then show "fst (push out srv p start request resp op None pk) = None"
    by (simp add: push_plain_unreached)
next
  assume "p_output_stream p = Some s \<and> (\<forall>records. sink_raises s records = Some e)"
    and "p_stream_sample p \<noteq> 0 \<and> \<not> emits p"
  then show "p_output_stream (snd (push out srv p start request resp op None pk)) = Some s"
    by (simp add: push_plain_unreached)
next
  assume a: "extract_input_data out (input_path srv) (ev_body ev) = Inr body
      \<and> event_operation ev body = (PStr opn, eid)
      \<and> opn \<in> set [''predict'', ''infer'', ''infer_dict'', ''predict_dict'', ''explain'']
      \<and> pre_event_processing_actions out h srv ev body opn = (Inr (PDict req), srv')
      \<and> model_logger srv' = Some p \<and> p_output_stream p = Some s"
    and r: "(if opn = ''explain'' then h_explain h else h_predict h) (PDict req) = Inl exc"
  let ?pk = "if shard_by_endpoint srv \<noteq> Some False then opt_str (model_endpoint_uid srv) else PNone"
  from a have e: "extract_input_data out (input_path srv) (ev_body ev) = Inr body"
    and o: "event_operation ev body = (PStr opn, eid)"
    and m: "opn \<in> set [''predict'', ''infer'', ''infer_dict'', ''predict_dict'', ''explain'']"
    and q: "pre_event_processing_actions out h srv ev body opn = (Inr (PDict req), srv')"
    and l: "model_logger srv' = Some p" and t: "p_output_stream p = Some s"
    by simp_all
  have d: "fst (do_event out h srv ev)
             = Inl (fst (on_inference_error out srv' (now_start out) (PDict req) opn eid exc ?pk))"
    unfolding do_event_inference [OF e o m] inference_operation_raises [OF q r]
    by simp
  {
    assume "\<forall>records. sink_raises s records = Some e"
    from on_inference_error_raising [OF l t this] d
    show "fst (do_event out h srv ev) = Inl e" by simp
  }
  {
    assume "\<forall>records. sink_raises s records = None"
    from on_inference_error_kept [OF l t this] d
    show "fst (do_event out h srv ev) = Inl exc" by simp
  }
next
  assume a: "extract_input_data out (input_path srv) (ev_body ev) = Inr body
      \<and> event_operation ev body = (PStr opn, eid)
      \<and> opn \<in> set [''predict'', ''infer'', ''infer_dict'', ''predict_dict'', ''explain'']
      \<and> pre_event_processing_actions out h srv ev body opn = (Inr (PDict req), srv')
      \<and> model_logger srv' = Some p \<and> p_output_stream p = Some s"
    and b: "(if opn = ''explain'' then h_explain h else h_predict h) (PDict req) = Inr outputs
      \<and> h_postprocess h = Inr \<and> p_stream_sample p \<noteq> 0"
  let ?pk = "if shard_by_endpoint srv \<noteq> Some False then opt_str (model_endpoint_uid srv) else PNone"
  let ?resp = "PDict (if opn = ''explain'' then explain_response srv' eid outputs
                      else predict_response out srv' (now_start out) eid outputs)"
  from a have e: "extract_input_data out (input_path srv) (ev_body ev) = Inr body"
    and o: "event_operation ev body = (PStr opn, eid)"
    and m: "opn \<in> set [''predict'', ''infer'', ''infer_dict'', ''predict_dict'', ''explain'']"
    and q: "pre_event_processing_actions out h srv ev body opn = (Inr (PDict req), srv')"
    and l: "model_logger srv' = Some p" and t: "p_output_stream p = Some s"
    by simp_all
  from b have r: "(if opn = ''explain'' then h_explain h else h_predict h) (PDict req) = Inr outputs"
    and pp: "h_postprocess h ?resp = Inr ?resp"
    and n: "p_stream_sample p \<noteq> 0"
    by simp_all
  have d: "do_event out h srv ev
             = after_inference out h srv' ev (now_start out) (PDict req) ?resp opn eid ?pk"
    unfolding do_event_inference [OF e o m]
    by (rule inference_operation_returns [OF q r])
  {
    assume "(\<forall>records. sink_raises s records = Some e) \<and> emits p"
    then have "\<And>rq rs. fst (push out srv' p (now_start out) rq rs (PStr opn) None ?pk) = Some e"
      by (simp add: push_plain_raising [OF t])
    from after_inference_raising [OF pp l this] d
    show "fst (do_event out h srv ev) = Inl e" by simp
  }
  {
    assume "(\<forall>records. sink_raises s records = None) \<or> \<not> emits p"
    then have "\<And>rq rs. fst (push out srv' p (now_start out) rq rs (PStr opn) None ?pk) = None"
    proof
      assume "\<forall>records. sink_raises s records = None"
      from push_plain_kept [OF t this n]
      show "\<And>rq rs. fst (push out srv' p (now_start out) rq rs (PStr opn) None ?pk) = None" .
    next
      assume "\<not> emits p"
      from push_plain_unreached(1) [OF n this]
      show "\<And>rq rs. fst (push out srv' p (now_start out) rq rs (PStr opn) None ?pk) = None" .
    qed
    from after_inference_kept [OF pp l this] d
    show "fst (do_event out h srv ev)
            = (case update_result_body out (result_path srv') (ev_body ev) ?resp of
                 Inl x \<Rightarrow> Inl x
               | Inr b \<Rightarrow> Inr (ev\<lparr>ev_body := b\<rparr>))"
      by simp
  }
qed

lemma infer_prepared:
  assumes "ready srv"
  shows "pre_event_processing_actions out0 hk srv ev (PDict inputs_body) ''infer''
           = (case h_preprocess hk (PDict inputs_body) ''infer'' of
                Inl e \<Rightarrow> (Inl e, srv)
              | Inr request \<Rightarrow> (h_validate hk srv request ''infer'', srv))"
  using assms
  by (simp add: pre_event_processing_actions_def check_readiness_def)

theorem sink_failure_propagates_witness:
  "fst (push out0 srv_bad_sink (pusher_on bad_sink 1 1) 0 (PDict inputs_body) PNone (PStr ''infer'')
          (Some inference_error) PNone) = Some sink_down
   \<and> fst (push out0 srv_bad_sink (pusher_on bad_sink 1 1) 0 (PDict inputs_body) PNone (PStr ''infer'')
          None PNone) = Some sink_down
   \<and> fst (push out0 srv_my pusher_due 0 (PDict inputs_body) PNone (PStr ''infer'') None PNone)
       = Some sink_down
   \<and> fst (push out0 srv_my (pusher_on bad_sink 3 2) 0 (PDict inputs_body) PNone (PStr ''infer'')
            None PNone) = None
   \<and> fst (do_event out0 FailingClass srv_bad_sink
            (event_at ''/infer'' ''POST'' (PDict inputs_body) None)) = Inl sink_down
   \<and> fst (do_event out0 MyClass srv_bad_sink
            (event_at ''/infer'' ''POST'' (PDict inputs_body) None)) = Inl sink_down
   \<and> fst (do_event out0 MyClass srv_bad_sink_due
            (event_at ''/infer'' ''POST'' (PDict inputs_body) None)) = Inl sink_down
   \<and> fst (do_event out0 MyClass srv_bad_sink_idle
            (event_at ''/infer'' ''POST'' (PDict inputs_body) None))
       = Inr ((event_at ''/infer'' ''POST'' (PDict inputs_body) None)
                \<lparr>ev_body := Payload (PDict [(''id'', PStr ''e1''), (''model_name'', PStr ''my''),
                       (''outputs'', PList [PInt 7]),
                       (''timestamp'', PStr ''1970-01-01 00:00:00.000000+00:00'')])\<rparr>)
   \<and> fst (do_event out0 FailingClass srv_good_sink
            (event_at ''/infer'' ''POST'' (PDict inputs_body) None)) = Inl inference_error
   \<and> fst (do_event out0 MyClass srv_good_sink
            (event_at ''/infer'' ''POST'' (PDict inputs_body) None))
       = Inr ((event_at ''/infer'' ''POST'' (PDict inputs_body) None)
                \<lparr>ev_body := Payload (PDict [(''id'', PStr ''e1''), (''model_name'', PStr ''my''),
                       (''outputs'', PList [PInt 7]),
                       (''timestamp'', PStr ''1970-01-01 00:00:00.000000+00:00'')])\<rparr>)"
proof -
  let ?ev = "event_at ''/infer'' ''POST'' (PDict inputs_body) None"
  let ?out = "PDict [(''id'', PStr ''e1''), (''model_name'', PStr ''my''),
                       (''outputs'', PList [PInt 7]),
                       (''timestamp'', PStr ''1970-01-01 00:00:00.000000+00:00'')]"
  have f: "input_path srv_bad_sink = None" "input_path srv_good_sink = None"
          "input_path srv_bad_sink_due = None" "input_path srv_bad_sink_idle = None"
          "ready srv_bad_sink" "ready srv_good_sink" "ready srv_bad_sink_due"
          "ready srv_bad_sink_idle"
          "protocol srv_bad_sink = ''v2''" "protocol srv_good_sink = ''v2''"
          "protocol srv_bad_sink_due = ''v2''" "protocol srv_bad_sink_idle = ''v2''"
    by (simp_all add: srv_bad_sink_def srv_good_sink_def srv_bad_sink_due_def
          srv_bad_sink_idle_def srv_my_def init_server_def)
  have g: "result_path srv_good_sink = None" "result_path srv_bad_sink_idle = None"
          "name srv_good_sink = Some ''my''" "name srv_bad_sink_idle = Some ''my''"
          "version srv_good_sink = []" "version srv_bad_sink_idle = []"
    by (simp_all add: srv_good_sink_def srv_bad_sink_idle_def srv_my_def init_server_def)
  have e: "extract_input_data out0 None (ev_body ?ev) = Inr (PDict inputs_body)"
    and o: "event_operation ?ev (PDict inputs_body) = (PStr ''infer'', PStr ''e1'')"
    and m: "''infer'' \<in> set [''predict'', ''infer'', ''infer_dict'', ''predict_dict'', ''explain'']"
    by (simp_all add: out0_def event_operation_def event_at_def inputs_body_def strip_slash_def
          py_or_def dict_get_default_def)
  have q: "pre_event_processing_actions out0 hk srv ?ev (PDict inputs_body) ''infer''
             = (Inr (PDict inputs_body), srv)"
    if "ready srv" and "protocol srv = ''v2''" and "hk = MyClass \<or> hk = FailingClass" for hk srv
    using that(3)
  proof
    assume "hk = MyClass"
    with infer_prepared [OF that(1), of hk ?ev] that(2) show ?thesis
      by (simp add: MyClass_def V2ModelServer_def validate_def py_in_def inputs_body_def)
  next
    assume "hk = FailingClass"
    with infer_prepared [OF that(1), of hk ?ev] that(2) show ?thesis
      by (simp add: FailingClass_def V2ModelServer_def validate_def py_in_def inputs_body_def)
  qed
  have l: "model_logger srv_bad_sink = Some (pusher_on bad_sink 1 1)"
          "model_logger srv_good_sink = Some (pusher_on good_sink 1 1)"
          "model_logger srv_bad_sink_due = Some pusher_due"
          "model_logger srv_bad_sink_idle = Some (pusher_on bad_sink 3 2)"
    by (simp_all add: srv_bad_sink_def srv_good_sink_def srv_bad_sink_due_def
          srv_bad_sink_idle_def)
  have t: "p_output_stream (pusher_on bad_sink 1 1) = Some bad_sink"
          "p_output_stream (pusher_on good_sink 1 1) = Some good_sink"
          "p_output_stream (pusher_on bad_sink 3 2) = Some bad_sink"
          "p_stream_sample (pusher_on bad_sink 1 1) \<noteq> 0"
          "p_stream_sample (pusher_on good_sink 1 1) \<noteq> 0"
          "p_stream_sample (pusher_on bad_sink 3 2) \<noteq> 0"
          "emits (pusher_on bad_sink 1 1)" "\<not> emits (pusher_on bad_sink 3 2)"
    by (simp_all add: emits_def pusher_on_def init_pusher_def)
  have td: "p_output_stream pusher_due = Some bad_sink" "p_stream_sample pusher_due \<noteq> 0"
           "emits pusher_due"
    by (simp_all add: emits_def pusher_due_def push_one_def push_def plain_call_def pusher_on_def
          init_pusher_def bad_sink_def out0_def Let_def)
  have k: "\<forall>records. sink_raises bad_sink records = Some sink_down"
          "\<forall>records. sink_raises good_sink records = None"
    by (simp_all add: bad_sink_def good_sink_def)
  have h: "h_predict FailingClass (PDict inputs_body) = Inl inference_error"
          "h_predict MyClass (PDict inputs_body) = Inr (PList [PInt 7])"
          "h_postprocess MyClass = Inr"
    by (simp_all add: FailingClass_def MyClass_def V2ModelServer_def)
  have u: "update_result_body out0 None (ev_body ?ev)
             (PDict (predict_response out0 srv_good_sink (now_start out0) (PStr ''e1'')
                       (PList [PInt 7])))
           = Inr (Payload ?out)"
          "update_result_body out0 None (ev_body ?ev)
             (PDict (predict_response out0 srv_bad_sink_idle (now_start out0) (PStr ''e1'')
                       (PList [PInt 7])))
           = Inr (Payload ?out)"
    by (simp_all add: out0_def predict_response_def opt_str_def g)
  from sink_failure_propagates [where p = "pusher_on bad_sink 1 1" and s = bad_sink
         and e = sink_down and out = out0 and srv = srv_bad_sink and start = 0
         and request = "PDict inputs_body" and resp = PNone and op = "PStr ''infer''"
         and exc = inference_error and pk = PNone and ev = ?ev and body = "PDict inputs_body"
         and opn = "''infer''" and eid = "PStr ''e1''" and h = FailingClass and req = inputs_body
         and srv' = srv_bad_sink and outputs = PNone]
       e o m q [of srv_bad_sink FailingClass] f l t k h
  have a: "fst (push out0 srv_bad_sink (pusher_on bad_sink 1 1) 0 (PDict inputs_body) PNone
                  (PStr ''infer'') (Some inference_error) PNone) = Some sink_down"
          "fst (push out0 srv_bad_sink (pusher_on bad_sink 1 1) 0 (PDict inputs_body) PNone
                  (PStr ''infer'') None PNone) = Some sink_down"
          "fst (do_event out0 FailingClass srv_bad_sink ?ev) = Inl sink_down"
    by simp_all
  from sink_failure_propagates [where p = "pusher_on bad_sink 1 1" and s = bad_sink
         and e = sink_down and out = out0 and srv = srv_bad_sink and start = 0
         and request = "PDict inputs_body" and resp = PNone and op = "PStr ''infer''"
         and exc = inference_error and pk = PNone and ev = ?ev and body = "PDict inputs_body"
         and opn = "''infer''" and eid = "PStr ''e1''" and h = MyClass and req = inputs_body
         and srv' = srv_bad_sink and outputs = "PList [PInt 7]"]
       e o m q [of srv_bad_sink MyClass] f l t k h
  have b: "fst (do_event out0 MyClass srv_bad_sink ?ev) = Inl sink_down"
    by simp
  from sink_failure_propagates [where p = pusher_due and s = bad_sink
         and e = sink_down and out = out0 and srv = srv_bad_sink_due and start = 0
         and request = "PDict inputs_body" and resp = PNone and op = "PStr ''infer''"
         and exc = inference_error and pk = PNone and ev = ?ev and body = "PDict inputs_body"
         and opn = "''infer''" and eid = "PStr ''e1''" and h = MyClass and req = inputs_body
         and srv' = srv_bad_sink_due and outputs = "PList [PInt 7]"]
       e o m q [of srv_bad_sink_due MyClass] f l td k h
  have c: "fst (do_event out0 MyClass srv_bad_sink_due ?ev) = Inl sink_down"
    by simp
  from sink_failure_propagates [where p = pusher_due and s = bad_sink
         and e = sink_down and out = out0 and srv = srv_my and start = 0
         and request = "PDict inputs_body" and resp = PNone and op = "PStr ''infer''"
         and exc = inference_error and pk = PNone]
       td k
  have c': "fst (push out0 srv_my pusher_due 0 (PDict inputs_body) PNone (PStr ''infer'') None PNone)
              = Some sink_down"
    by simp
  from sink_failure_propagates [where p = "pusher_on bad_sink 3 2" and s = bad_sink
         and e = sink_down and out = out0 and srv = srv_bad_sink_idle and start = 0
         and request = "PDict inputs_body" and resp = PNone and op = "PStr ''infer''"
         and exc = inference_error and pk = PNone and ev = ?ev and body = "PDict inputs_body"
         and opn = "''infer''" and eid = "PStr ''e1''" and h = MyClass and req = inputs_body
         and srv' = srv_bad_sink_idle and outputs = "PList [PInt 7]"]
       e o m q [of srv_bad_sink_idle MyClass] f g l t k h u
  have d: "fst (do_event out0 MyClass srv_bad_sink_idle ?ev) = Inr (?ev\<lparr>ev_body := Payload ?out\<rparr>)"
    by simp
  from sink_failure_propagates [where p = "pusher_on bad_sink 3 2" and s = bad_sink
         and e = sink_down and out = out0 and srv = srv_my and start = 0
         and request = "PDict inputs_body" and resp = PNone and op = "PStr ''infer''"
         and exc = inference_error and pk = PNone]
       t k
  have d': "fst (push out0 srv_my (pusher_on bad_sink 3 2) 0 (PDict inputs_body) PNone
                   (PStr ''infer'') None PNone) = None"
    by simp
  from sink_failure_propagates [where p = "pusher_on good_sink 1 1" and s = good_sink
         and e = sink_down and out = out0 and srv = srv_good_sink and start = 0
         and request = "PDict inputs_body" and resp = PNone and op = "PStr ''infer''"
         and exc = inference_error and pk = PNone and ev = ?ev and body = "PDict inputs_body"
         and opn = "''infer''" and eid = "PStr ''e1''" and h = FailingClass and req = inputs_body
         and srv' = srv_good_sink and outputs = PNone]
       e o m q [of srv_good_sink FailingClass] f l t k h
  have x: "fst (do_event out0 FailingClass srv_good_sink ?ev) = Inl inference_error"
    by simp
  from sink_failure_propagates [where p = "pusher_on good_sink 1 1" and s = good_sink
         and e = sink_down and out = out0 and srv = srv_good_sink and start = 0
         and request = "PDict inputs_body" and resp = PNone and op = "PStr ''infer''"
         and exc = inference_error and pk = PNone and ev = ?ev and body = "PDict inputs_body"
         and opn = "''infer''" and eid = "PStr ''e1''" and h = MyClass and req = inputs_body
         and srv' = srv_good_sink and outputs = "PList [PInt 7]"]
       e o m q [of srv_good_sink MyClass] f g l t k h u
  have y: "fst (do_event out0 MyClass srv_good_sink ?ev) = Inr (?ev\<lparr>ev_body := Payload ?out\<rparr>)"
    by simp
  from a b c c' d d' x y show ?thesis by simp
qed

subsection \<open>One push on a sink that keeps its records\<close>

lemma sink_push_keeps:
  "sink_keeps p \<Longrightarrow> sink_push p records pk = (None, deliver p (records, pk))"
  by (auto simp: sink_keeps_def sink_push_def deliver_def split: option.splits)

lemma sink_keeps_frame [simp]:
  "sink_keeps (p\<lparr>p_sample_iter := c\<rparr>) = sink_keeps p"
  "sink_keeps (p\<lparr>p_batch_iter := i\<rparr>) = sink_keeps p"
  "sink_keeps (p\<lparr>p_batch := rows\<rparr>) = sink_keeps p"
  by (simp_all add: sink_keeps_def)

lemma sink_keeps_deliver [simp]: "sink_keeps (deliver p r) = sink_keeps p"
  by (simp add: sink_keeps_def deliver_def split: option.splits)

lemma received_frame [simp]:
  "received (p\<lparr>p_sample_iter := c\<rparr>) = received p"
  "received (p\<lparr>p_batch_iter := i\<rparr>) = received p"
  "received (p\<lparr>p_batch := rows\<rparr>) = received p"
  by (simp_all add: received_def)

lemma received_deliver: "sink_keeps p \<Longrightarrow> received (deliver p r) = received p @ [r]"
  by (simp add: sink_keeps_def received_def deliver_def split: option.splits)

lemma dict_set_fresh: "map_of d k = None \<Longrightarrow> dict_set d k v = d @ [(k, v)]"
  by (induction d k v rule: dict_set.induct) (simp_all split: if_splits)

lemma dict_set_append_fresh: "map_of d k = None \<Longrightarrow> dict_set (d @ e) k v = d @ dict_set e k v"
  by (induction d k v rule: dict_set.induct) (simp_all split: if_splits)

lemma base_data_fields: "base_data m p = fields m p"
  by (simp add: base_data_def fields_def opt_str_def Let_def)

lemma fields_fresh:
  "map_of (fields m p) ''request'' = None"
  "map_of (fields m p) ''op'' = None"
  "map_of (fields m p) ''resp'' = None"
  "map_of (fields m p) ''when'' = None"
  "map_of (fields m p) ''microsec'' = None"
  "map_of (fields m p) ''metrics'' = None"
  "map_of (fields m p) ''error'' = None"
  "map_of (fields m p) ''headers'' = None"
  "map_of (fields m p) ''values'' = None"
  by (simp_all add: fields_def)

lemma fields_frame [simp]:
  "fields m (p\<lparr>p_sample_iter := c\<rparr>) = fields m p"
  "fields m (p\<lparr>p_batch_iter := i\<rparr>) = fields m p"
  "fields m (p\<lparr>p_batch := rows\<rparr>) = fields m p"
  "fields m (deliver p r) = fields m p"
  by (simp_all add: fields_def deliver_def)

lemma deliver_fields [simp]:
  "p_sample_iter (deliver p r) = p_sample_iter p"
  "p_batch_iter (deliver p r) = p_batch_iter p"
  "p_batch (deliver p r) = p_batch p"
  "p_stream_sample (deliver p r) = p_stream_sample p"
  "p_stream_batch (deliver p r) = p_stream_batch p"
  "p_verbose (deliver p r) = p_verbose p"
  by (simp_all add: deliver_def)

lemma error_record_frame [simp]:
  "error_record (p\<lparr>p_sample_iter := c\<rparr>) = error_record p"
  "error_record (p\<lparr>p_batch_iter := i\<rparr>) = error_record p"
  "error_record (p\<lparr>p_batch := rows\<rparr>) = error_record p"
  "error_record (deliver p r) = error_record p"
  by (rule ext, rule ext, simp add: error_record_def)+

lemma read_held_rows:
  "read_batch m (map held_row cs) = PList (map (batch_row m) cs)"
  by (simp add: read_batch_def read_cell_def held_row_def batch_row_def)

lemma push_one_error:
  assumes "sink_keeps p" and "pc_error c = Some e"
  shows "push_one p c = (None, deliver p (error_record p c e))"
  using assms
  by (simp add: push_one_def push_def error_record_def Let_def sink_push_keeps base_data_fields
        dict_set_fresh dict_set_append_fresh fields_fresh)

lemma push_one_skip:
  assumes "pc_error c = None" and "p_stream_sample p \<noteq> 0"
    and "(p_sample_iter p + 1) mod p_stream_sample p \<noteq> 0"
  shows "push_one p c = (None, p\<lparr>p_sample_iter := (p_sample_iter p + 1) mod p_stream_sample p\<rparr>)"
  using assms
  by (simp add: push_one_def push_def Let_def)

lemma push_one_flat:
  assumes "sink_keeps p" and "pc_error c = None" and "p_stream_sample p \<noteq> 0"
    and "(p_sample_iter p + 1) mod p_stream_sample p = 0" and "p_stream_batch p \<le> 1"
  shows "push_one p c = (None, deliver (p\<lparr>p_sample_iter := 0\<rparr>) (flat_record p c))"
proof -
  from assms(1) have "p_output_stream p \<noteq> None"
    by (auto simp: sink_keeps_def split: option.splits)
  with assms show ?thesis
    by (simp add: push_one_def push_def flat_record_def Let_def sink_push_keeps base_data_fields
          timedelta_microseconds_def dict_set_fresh dict_set_append_fresh fields_fresh)
qed

lemma push_one_batch_add:
  assumes "sink_keeps p" and "pc_error c = None" and "p_stream_sample p \<noteq> 0"
    and "(p_sample_iter p + 1) mod p_stream_sample p = 0" and "1 < p_stream_batch p"
    and "(p_batch_iter p + 1) mod p_stream_batch p \<noteq> 0"
  shows "push_one p c
           = (None, p\<lparr>p_sample_iter := 0,
                       p_batch := (if p_batch_iter p = 0 then [] else p_batch p) @ [held_row c],
                       p_batch_iter := (p_batch_iter p + 1) mod p_stream_batch p\<rparr>)"
proof -
  from assms(1) have "p_output_stream p \<noteq> None"
    by (auto simp: sink_keeps_def split: option.splits)
  with assms show ?thesis
    by (simp add: push_one_def push_def held_row_def timedelta_microseconds_def Let_def)
qed

lemma push_one_batch_flush:
  assumes "sink_keeps p" and "pc_error c = None" and "p_stream_sample p \<noteq> 0"
    and "(p_sample_iter p + 1) mod p_stream_sample p = 0" and "1 < p_stream_batch p"
    and "(p_batch_iter p + 1) mod p_stream_batch p = 0"
  shows "push_one p c
           = (None,
              deliver (p\<lparr>p_sample_iter := 0,
                          p_batch := p_batch p @ [held_row c],
                          p_batch_iter := 0\<rparr>)
                ([PDict (fields (pc_model c) p
                         @ [(''headers'', PList [PStr ''request'', PStr ''op'', PStr ''resp'',
                                                PStr ''when'', PStr ''microsec'', PStr ''metrics'']),
                            (''values'', read_batch (pc_model c) (p_batch p @ [held_row c]))])],
                 pc_partition_key c))"
proof -
  from assms(1) have "p_output_stream p \<noteq> None"
    by (auto simp: sink_keeps_def split: option.splits)
  moreover have "p_batch_iter p \<noteq> 0"
  proof
    assume "p_batch_iter p = 0"
    with assms(5,6) show False by (simp add: mod_pos_pos_trivial)
  qed
  ultimately show ?thesis
    using assms
    by (simp add: push_one_def push_def held_row_def timedelta_microseconds_def Let_def
          sink_push_keeps base_data_fields batch_headers_def dict_set_fresh dict_set_append_fresh
          fields_fresh)
qed

subsection \<open>Sampling over a sequence of pushes\<close>

lemma sample_step_skip:
  fixes c n :: int
  assumes "0 \<le> c" and "c < n" and "(c + 1) mod n \<noteq> 0"
  shows "(c + 1) mod n = c + 1" and "c + 1 < n"
proof -
  from assms have "c + 1 \<noteq> n" by auto
  with assms show "c + 1 < n" by simp
  with assms(1) show "(c + 1) mod n = c + 1" by (simp add: mod_pos_pos_trivial)
qed

lemma sample_step_hit:
  fixes c n :: int
  assumes "0 \<le> c" and "c < n" and "(c + 1) mod n = 0"
  shows "c + 1 = n"
proof (rule ccontr)
  assume "c + 1 \<noteq> n"
  with assms have "c + 1 < n" by simp
  with assms(1) have "(c + 1) mod n = c + 1" by (simp add: mod_pos_pos_trivial)
  with assms show False by simp
qed

lemma pushes_sampling:
  assumes "sink_keeps p" and "0 \<le> p_sample_iter p" and "p_sample_iter p < p_stream_sample p"
    and "p_stream_batch p \<le> 1"
  shows "p_sample_iter (pushes p cs)
           = (p_sample_iter p + int (length (plain_calls cs))) mod p_stream_sample p
       \<and> int (length (received (pushes p cs)))
           = int (length (received p)) + int (length (error_calls cs))
             + (p_sample_iter p + int (length (plain_calls cs))) div p_stream_sample p"
  using assms
proof (induction cs arbitrary: p)
  case Nil
  then show ?case
    by (simp add: plain_calls_def error_calls_def mod_pos_pos_trivial div_pos_pos_trivial)
next
  case (Cons c cs)
  let ?n = "p_stream_sample p"
  from Cons.prems have n: "0 < ?n" by simp
  show ?case
  proof (cases "pc_error c")
    case (Some e)
    let ?q = "deliver p (error_record p c e)"
    from Some Cons.prems(1) have q: "push_one p c = (None, ?q)"
      by (simp add: push_one_error)
    from Cons.prems have "sink_keeps ?q" "0 \<le> p_sample_iter ?q"
      "p_sample_iter ?q < p_stream_sample ?q" "p_stream_batch ?q \<le> 1"
      by simp_all
    from Cons.IH [OF this] q Some Cons.prems(1) show ?thesis
      by (simp add: plain_calls_def error_calls_def is_error_call_def received_deliver)
  next
    case None
    show ?thesis
    proof (cases "(p_sample_iter p + 1) mod ?n = 0")
      case False
      let ?q = "p\<lparr>p_sample_iter := (p_sample_iter p + 1) mod ?n\<rparr>"
      from None n False have q: "push_one p c = (None, ?q)"
        by (simp add: push_one_skip)
      from sample_step_skip [OF Cons.prems(2,3) False]
      have s: "(p_sample_iter p + 1) mod ?n = p_sample_iter p + 1" "p_sample_iter p + 1 < ?n" .
      from Cons.prems n s have "sink_keeps ?q" "0 \<le> p_sample_iter ?q"
        "p_sample_iter ?q < p_stream_sample ?q" "p_stream_batch ?q \<le> 1"
        by simp_all
      from Cons.IH [OF this] q None s show ?thesis
        by (simp add: plain_calls_def error_calls_def is_error_call_def add.assoc)
    next
      case True
      let ?q = "deliver (p\<lparr>p_sample_iter := 0\<rparr>) (flat_record p c)"
      from None n True Cons.prems have q: "push_one p c = (None, ?q)"
        by (simp add: push_one_flat)
      from sample_step_hit [OF Cons.prems(2,3) True]
      have s: "p_sample_iter p + 1 = ?n" .
      have t: "(p_sample_iter p + (1 + k)) mod ?n = k mod ?n"
              "(p_sample_iter p + (1 + k)) div ?n = 1 + k div ?n" for k :: int
      proof -
        from s have e: "p_sample_iter p + (1 + k) = ?n + k" by simp
        show "(p_sample_iter p + (1 + k)) mod ?n = k mod ?n"
          unfolding e by simp
        from n have "?n \<noteq> 0" by simp
        from div_add_self1 [OF this, of k]
        show "(p_sample_iter p + (1 + k)) div ?n = 1 + k div ?n"
          unfolding e by simp
      qed
      from Cons.prems n have "sink_keeps ?q" "0 \<le> p_sample_iter ?q"
        "p_sample_iter ?q < p_stream_sample ?q" "p_stream_batch ?q \<le> 1"
        by simp_all
      from Cons.IH [OF this] q None n Cons.prems(1) show ?thesis
        by (simp add: plain_calls_def error_calls_def is_error_call_def received_deliver t)
    qed
  qed
qed

lemma push_one_counter:
  assumes "pc_error c = None" and "p_stream_sample q \<noteq> 0"
  shows "p_sample_iter (snd (push_one q c)) = (p_sample_iter q + 1) mod p_stream_sample q"
  using assms
  by (simp add: push_one_def push_def sink_push_def Let_def split: option.splits)

lemmas push_eval_defs =
  push_one_def push_def sink_push_def base_data_def timedelta_microseconds_def received_def
  batch_record_def batch_row_def batch_headers_def flat_record_def error_record_def
  fields_def read_batch_def read_cell_def held_row_def
  plain_call_def failed_call_def pusher_on_def init_pusher_def cx0_def gs0_def good_sink_def
  out0_def srv_my_def init_server_def opt_str_def inference_error_def Let_def

text \<open>
  C4, as stated, fails on the code. With sample rate 1 every push without an error passes
  the sampling, but with batch size 2 the first push reaches no sink, and of three pushes the
  sink gets one record with the rows of the first two: the third has not reached it.
\<close>

theorem sampled_push_not_in_sink_counterexample:
  "p_stream_sample (pusher_on good_sink 1 2) = 1
   \<and> received (pushes (pusher_on good_sink 1 2) [plain_call (PInt 1)]) = []
   \<and> received (pushes (pusher_on good_sink 1 2)
                 [plain_call (PInt 1), plain_call (PInt 2), plain_call (PInt 3)])
       = [batch_record (pusher_on good_sink 1 2) [plain_call (PInt 1), plain_call (PInt 2)]]"
  by (simp add: push_eval_defs)


text \<open>
  C4, amended. A push without an error moves the sampling counter on by one modulo the
  sample rate, whatever the batch size and the sink. On a pusher that starts with its counter
  at 0, has a sample rate \<open>N \<ge> 1\<close>, does not batch (batch size at most 1) and writes to a sink
  that raises on no push: after any sequence of pushes the counter is the number of pushes
  without an error modulo \<open>N\<close>, and the sink has got one record for each push with an error and
  one for each \<open>N\<close>-th push without one. A push with an error, on any pusher whose sink does
  not raise, hands its record to the sink whatever the counter and the batch size are, and
  leaves the counter as it is.
\<close>

theorem sampling_one_in_n:
  assumes "sink_keeps p" and "0 < p_stream_sample p" and "p_sample_iter p = 0"
    and "p_stream_batch p \<le> 1"
  shows "p_sample_iter (pushes p cs) = int (length (plain_calls cs)) mod p_stream_sample p
       \<and> int (length (received (pushes p cs)))
           = int (length (received p)) + int (length (error_calls cs))
             + int (length (plain_calls cs)) div p_stream_sample p
       \<and> (\<forall>q c. pc_error c = None \<and> p_stream_sample q \<noteq> 0
             \<longrightarrow> p_sample_iter (snd (push_one q c))
                   = (p_sample_iter q + 1) mod p_stream_sample q)
       \<and> (\<forall>q c e. sink_keeps q \<and> pc_error c = Some e
             \<longrightarrow> fst (push_one q c) = None
                 \<and> received (snd (push_one q c)) = received q @ [error_record q c e]
                 \<and> p_sample_iter (snd (push_one q c)) = p_sample_iter q)"
proof -
  from assms have "0 \<le> p_sample_iter p" "p_sample_iter p < p_stream_sample p"
    by simp_all
  from pushes_sampling [OF assms(1) this assms(4), of cs] assms(3)
  have a: "p_sample_iter (pushes p cs) = int (length (plain_calls cs)) mod p_stream_sample p"
    "int (length (received (pushes p cs)))
       = int (length (received p)) + int (length (error_calls cs))
         + int (length (plain_calls cs)) div p_stream_sample p"
    by simp_all
  have b: "\<forall>q c. pc_error c = None \<and> p_stream_sample q \<noteq> 0
             \<longrightarrow> p_sample_iter (snd (push_one q c))
                   = (p_sample_iter q + 1) mod p_stream_sample q"
    by (simp add: push_one_counter)
  have c: "\<forall>q c e. sink_keeps q \<and> pc_error c = Some e
             \<longrightarrow> fst (push_one q c) = None
                 \<and> received (snd (push_one q c)) = received q @ [error_record q c e]
                 \<and> p_sample_iter (snd (push_one q c)) = p_sample_iter q"
    by (simp add: push_one_error received_deliver)
  from a b c show ?thesis by blast
qed

theorem sampling_one_in_n_witness:
  "p_sample_iter (pushes (pusher_on good_sink 3 1)
       [plain_call (PInt 1), plain_call (PInt 2), failed_call (PInt 3), plain_call (PInt 4),
        plain_call (PInt 5), plain_call (PInt 6), plain_call (PInt 7), plain_call (PInt 8)]) = 1
   \<and> int (length (received (pushes (pusher_on good_sink 3 1)
       [plain_call (PInt 1), plain_call (PInt 2), failed_call (PInt 3), plain_call (PInt 4),
        plain_call (PInt 5), plain_call (PInt 6), plain_call (PInt 7), plain_call (PInt 8)]))) = 3
   \<and> p_sample_iter (snd (push_one ((pusher_on good_sink 3 2)\<lparr>p_sample_iter := 2\<rparr>)
                               (plain_call (PInt 1)))) = 0
   \<and> received (snd (push_one ((pusher_on good_sink 3 2)\<lparr>p_sample_iter := 2\<rparr>)
                        (failed_call (PInt 3))))
       = [error_record ((pusher_on good_sink 3 2)\<lparr>p_sample_iter := 2\<rparr>)
            (failed_call (PInt 3)) inference_error]"
proof -
  let ?p = "pusher_on good_sink 3 1"
  let ?q = "(pusher_on good_sink 3 2)\<lparr>p_sample_iter := 2\<rparr>"
  let ?cs = "[plain_call (PInt 1), plain_call (PInt 2), failed_call (PInt 3), plain_call (PInt 4),
        plain_call (PInt 5), plain_call (PInt 6), plain_call (PInt 7), plain_call (PInt 8)]"
  have h: "sink_keeps ?p" "0 < p_stream_sample ?p" "p_sample_iter ?p = 0" "p_stream_batch ?p \<le> 1"
    by (simp_all add: sink_keeps_def pusher_on_def init_pusher_def good_sink_def)
  have k: "sink_keeps ?q" "p_stream_sample ?q = 3" "p_sample_iter ?q = 2" "received ?q = []"
    by (simp_all add: sink_keeps_def received_def pusher_on_def init_pusher_def good_sink_def)
  have e: "pc_error (plain_call (PInt 1)) = None"
          "pc_error (failed_call (PInt 3)) = Some inference_error"
    by (simp_all add: plain_call_def failed_call_def)
  have n: "length (plain_calls ?cs) = 7" "length (error_calls ?cs) = 1" "received ?p = []"
    by (simp_all add: plain_calls_def error_calls_def is_error_call_def plain_call_def
          failed_call_def received_def pusher_on_def init_pusher_def good_sink_def)
  have m: "p_stream_sample ?p = 3"
    by (simp add: pusher_on_def init_pusher_def)
  from sampling_one_in_n [OF h, of ?cs]
  have a: "p_sample_iter (pushes ?p ?cs) = int (length (plain_calls ?cs)) mod p_stream_sample ?p"
    and b: "int (length (received (pushes ?p ?cs)))
              = int (length (received ?p)) + int (length (error_calls ?cs))
                + int (length (plain_calls ?cs)) div p_stream_sample ?p"
    and c: "pc_error (plain_call (PInt 1)) = None \<and> p_stream_sample ?q \<noteq> 0
              \<longrightarrow> p_sample_iter (snd (push_one ?q (plain_call (PInt 1))))
                    = (p_sample_iter ?q + 1) mod p_stream_sample ?q"
    and d: "sink_keeps ?q \<and> pc_error (failed_call (PInt 3)) = Some inference_error
              \<longrightarrow> received (snd (push_one ?q (failed_call (PInt 3))))
                    = received ?q @ [error_record ?q (failed_call (PInt 3)) inference_error]"
    by blast+
  from a n m have "p_sample_iter (pushes ?p ?cs) = 1"
    by (simp del: pushes.simps)
  moreover from b n m have "int (length (received (pushes ?p ?cs))) = 3"
    by (simp del: pushes.simps)
  moreover from c e k have "p_sample_iter (snd (push_one ?q (plain_call (PInt 1)))) = 0"
    by simp
  moreover from d e k have "received (snd (push_one ?q (failed_call (PInt 3))))
       = [error_record ?q (failed_call (PInt 3)) inference_error]"
    by simp
  ultimately show ?thesis by blast
qed

subsection \<open>Batching over a sequence of pushes\<close>

lemma batches_short: "length xs < b \<Longrightarrow> batches b xs = []"
  by (subst batches.simps) simp

lemma batches_cons:
  assumes "0 < b" and "length g = b"
  shows "batches b (g @ ys) = g # batches b ys"
  using assms by (subst batches.simps) simp

lemma length_batches: "0 < b \<Longrightarrow> length (batches b xs) = length xs div b"
proof (induction b xs rule: batches.induct)
  case (1 b xs)
  show ?case
  proof (cases "b \<le> length xs")
    case True
    with 1 have "length (batches b (drop b xs)) = (length xs - b) div b"
      by simp
    with True 1(2) show ?thesis
      by (subst batches.simps) (simp add: le_div_geq)
  next
    case False
    then show ?thesis
      by (subst batches.simps) simp
  qed
qed

lemma batches_full: "g \<in> set (batches b xs) \<Longrightarrow> length g = b"
proof (induction b xs rule: batches.induct)
  case (1 b xs)
  show ?case
  proof (cases "0 < b \<and> b \<le> length xs")
    case True
    from 1(2) have "g \<in> set (take b xs # batches b (drop b xs))"
      by (subst (asm) batches.simps) (simp add: True)
    with True 1(1) show ?thesis
      by auto
  next
    case False
    from 1(2) have "g \<in> set []"
      by (subst (asm) batches.simps) (simp add: False)
    then show ?thesis by simp
  qed
qed

lemma concat_batches: "0 < b \<Longrightarrow> concat (batches b xs) = take (b * (length xs div b)) xs"
proof (induction b xs rule: batches.induct)
  case (1 b xs)
  show ?case
  proof (cases "b \<le> length xs")
    case True
    with 1 have "concat (batches b (drop b xs)) = take (b * ((length xs - b) div b)) (drop b xs)"
      by simp
    moreover from True 1(2) have "length xs div b = Suc ((length xs - b) div b)"
      by (simp add: le_div_geq)
    ultimately show ?thesis
      using True 1(2) by (subst batches.simps) (simp add: take_add)
  next
    case False
    then show ?thesis
      by (subst batches.simps) simp
  qed
qed

lemma last_rows_short: "length xs \<le> b \<Longrightarrow> last_rows b xs = xs"
  by (subst last_rows.simps) simp

lemma last_rows_cons:
  assumes "0 < b" and "length g = b" and "ys \<noteq> []"
  shows "last_rows b (g @ ys) = last_rows b ys"
  using assms by (subst last_rows.simps) simp

lemma last_rows_partial:
  "0 < b \<Longrightarrow> length xs mod b \<noteq> 0 \<Longrightarrow> last_rows b xs = drop (b * (length xs div b)) xs"
proof (induction b xs rule: last_rows.induct)
  case (1 b xs)
  show ?case
  proof (cases "b < length xs")
    case True
    with 1(2) have le: "b \<le> length xs" by simp
    from 1(3) le have m: "length (drop b xs) mod b \<noteq> 0"
      by (simp add: le_mod_geq)
    from True 1(2) have "last_rows b xs = last_rows b (drop b xs)"
      by (subst last_rows.simps) simp
    also from 1(1) True 1(2) m
    have "\<dots> = drop (b * (length (drop b xs) div b)) (drop b xs)"
      by simp
    also from le 1(2) have "\<dots> = drop (b * (length xs div b)) xs"
      by (simp add: le_div_geq add.commute)
    finally show ?thesis .
  next
    case False
    then have le: "length xs \<le> b" by simp
    with 1(3) have "length xs < b"
      by (cases "length xs = b") simp_all
    then have "length xs div b = 0" by simp
    with le show ?thesis
      by (simp add: last_rows_short)
  qed
qed

lemma last_rows_full:
  "0 < b \<Longrightarrow> xs \<noteq> [] \<Longrightarrow> length xs mod b = 0 \<Longrightarrow> last_rows b xs = last (batches b xs)"
proof (induction b xs rule: last_rows.induct)
  case (1 b xs)
  show ?case
  proof (cases "b < length xs")
    case True
    with 1(2) have le: "b \<le> length xs" by simp
    from 1(4) le have m: "length (drop b xs) mod b = 0"
      by (simp add: le_mod_geq)
    from True have ne: "drop b xs \<noteq> []" by simp
    from m ne 1(2) have "b \<le> length (drop b xs)"
      by (metis length_greater_0_conv mod_less not_le_imp_less not_less_iff_gr_or_eq)
    then have nb: "batches b (drop b xs) \<noteq> []"
      using 1(2) by (subst batches.simps) simp
    from True 1(2) have "last_rows b xs = last_rows b (drop b xs)"
      by (subst last_rows.simps) simp
    also from 1(1) True 1(2) ne m have "\<dots> = last (batches b (drop b xs))"
      by simp
    also from le 1(2) nb have "\<dots> = last (batches b xs)"
      by (subst (2) batches.simps) simp
    finally show ?thesis .
  next
    case False
    then have le: "length xs \<le> b" by simp
    from 1(3) have "0 < length xs" by simp
    with 1(4) le 1(2) have eq: "length xs = b"
      by (metis le_neq_implies_less mod_less not_less_iff_gr_or_eq)
    then have "batches b xs = [xs]"
      using 1(2) by (subst batches.simps, simp, subst batches.simps, simp)
    with le show ?thesis
      by (simp add: last_rows_short)
  qed
qed

lemma batch_record_frame [simp]:
  "batch_record (p\<lparr>p_sample_iter := c\<rparr>) = batch_record p"
  "batch_record (p\<lparr>p_batch_iter := i\<rparr>) = batch_record p"
  "batch_record (p\<lparr>p_batch := rows\<rparr>) = batch_record p"
  "batch_record (deliver p r) = batch_record p"
  by (rule ext, simp add: batch_record_def)+

lemma flat_record_frame [simp]:
  "flat_record (p\<lparr>p_sample_iter := c\<rparr>) = flat_record p"
  "flat_record (deliver p r) = flat_record p"
  by (rule ext, simp add: flat_record_def)+

lemma error_records_frame [simp]:
  "error_records (p\<lparr>p_sample_iter := c\<rparr>) = error_records p"
  "error_records (p\<lparr>p_batch_iter := i\<rparr>) = error_records p"
  "error_records (p\<lparr>p_batch := rows\<rparr>) = error_records p"
  "error_records (deliver p r) = error_records p"
  by (rule ext, simp add: error_records_def cong: option.case_cong)+

lemma is_error_record_cases [simp]:
  "is_error_record (error_record p c e)"
  "\<not> is_error_record (flat_record p c)"
  "\<not> is_error_record (batch_record p g)"
  by (simp_all add: is_error_record_def error_record_def flat_record_def batch_record_def
        map_add_def fields_fresh)

lemma calls_step:
  "pc_error c = Some e \<Longrightarrow> plain_calls (c # cs) = plain_calls cs"
  "pc_error c = None \<Longrightarrow> plain_calls (c # cs) = c # plain_calls cs"
  "pc_error c = Some e \<Longrightarrow> error_records p (c # cs) = error_record p c e # error_records p cs"
  "pc_error c = None \<Longrightarrow> error_records p (c # cs) = error_records p cs"
  by (simp_all add: plain_calls_def is_error_call_def error_records_def)

lemma pushes_flat:
  assumes "sink_keeps p" and "0 \<le> p_sample_iter p" and "p_sample_iter p < p_stream_sample p"
    and "p_stream_batch p \<le> 1"
  shows "filter (\<lambda>r. \<not> is_error_record r) (received (pushes p cs))
           = filter (\<lambda>r. \<not> is_error_record r) (received p)
             @ map (flat_record p) (sampled (p_stream_sample p) (p_sample_iter p) (plain_calls cs))
       \<and> filter is_error_record (received (pushes p cs))
           = filter is_error_record (received p) @ error_records p cs"
  using assms
proof (induction cs arbitrary: p)
  case Nil
  then show ?case by (simp add: plain_calls_def error_records_def)
next
  case (Cons c cs)
  let ?n = "p_stream_sample p"
  from Cons.prems have n: "0 < ?n" by simp
  show ?case
  proof (cases "pc_error c")
    case (Some e)
    let ?q = "deliver p (error_record p c e)"
    from Some Cons.prems(1) have q: "push_one p c = (None, ?q)"
      by (simp add: push_one_error)
    from Cons.prems have "sink_keeps ?q" "0 \<le> p_sample_iter ?q"
      "p_sample_iter ?q < p_stream_sample ?q" "p_stream_batch ?q \<le> 1"
      by simp_all
    from Cons.IH [OF this] q Cons.prems(1) show ?thesis
      by (simp add: calls_step(1,3) [OF Some] received_deliver)
  next
    case None
    show ?thesis
    proof (cases "(p_sample_iter p + 1) mod ?n = 0")
      case False
      let ?q = "p\<lparr>p_sample_iter := (p_sample_iter p + 1) mod ?n\<rparr>"
      from None n False have q: "push_one p c = (None, ?q)"
        by (simp add: push_one_skip)
      from sample_step_skip [OF Cons.prems(2,3) False]
      have s: "(p_sample_iter p + 1) mod ?n = p_sample_iter p + 1" "p_sample_iter p + 1 < ?n" .
      from Cons.prems n s have "sink_keeps ?q" "0 \<le> p_sample_iter ?q"
        "p_sample_iter ?q < p_stream_sample ?q" "p_stream_batch ?q \<le> 1"
        by simp_all
      from Cons.IH [OF this] q False show ?thesis
        by (simp add: calls_step(2,4) [OF None])
    next
      case True
      let ?q = "deliver (p\<lparr>p_sample_iter := 0\<rparr>) (flat_record p c)"
      from None n True Cons.prems have q: "push_one p c = (None, ?q)"
        by (simp add: push_one_flat)
      from Cons.prems n have "sink_keeps ?q" "0 \<le> p_sample_iter ?q"
        "p_sample_iter ?q < p_stream_sample ?q" "p_stream_batch ?q \<le> 1"
        by simp_all
      from Cons.IH [OF this] q True Cons.prems(1) show ?thesis
        by (simp add: calls_step(2,4) [OF None] received_deliver)
    qed
  qed
qed

lemma batch_step_add:
  fixes i b :: int
  assumes "0 \<le> i" and "i < b" and "(i + 1) mod b \<noteq> 0"
  shows "(i + 1) mod b = i + 1" and "i + 1 < b"
  using sample_step_skip [OF assms] by simp_all

lemma pushes_batching:
  assumes "sink_keeps p" and "0 \<le> p_sample_iter p" and "p_sample_iter p < p_stream_sample p"
    and "1 < p_stream_batch p" and "int (length pend) = p_batch_iter p"
    and "p_batch_iter p < p_stream_batch p"
    and "p_batch_iter p \<noteq> 0 \<longrightarrow> p_batch p = map held_row pend"
  shows "filter (\<lambda>r. \<not> is_error_record r) (received (pushes p cs))
           = filter (\<lambda>r. \<not> is_error_record r) (received p)
             @ map (batch_record p)
                 (batches (nat (p_stream_batch p))
                    (pend @ sampled (p_stream_sample p) (p_sample_iter p) (plain_calls cs)))
       \<and> filter is_error_record (received (pushes p cs))
           = filter is_error_record (received p) @ error_records p cs
       \<and> p_batch_iter (pushes p cs)
           = int (length (pend @ sampled (p_stream_sample p) (p_sample_iter p) (plain_calls cs)))
               mod p_stream_batch p
       \<and> p_batch (pushes p cs)
           = (if sampled (p_stream_sample p) (p_sample_iter p) (plain_calls cs) = []
              then p_batch p
              else map held_row
                     (last_rows (nat (p_stream_batch p))
                        (pend @ sampled (p_stream_sample p) (p_sample_iter p) (plain_calls cs))))"
  using assms
proof (induction cs arbitrary: p pend)
  case Nil
  from Nil.prems have "length pend < nat (p_stream_batch p)" by simp
  then have "batches (nat (p_stream_batch p)) pend = []" by (rule batches_short)
  moreover from Nil.prems have "int (length pend) mod p_stream_batch p = p_batch_iter p"
    by (simp add: mod_pos_pos_trivial)
  ultimately show ?case by (simp add: plain_calls_def error_records_def)
next
  case (Cons c cs)
  let ?n = "p_stream_sample p"
  let ?b = "p_stream_batch p"
  from Cons.prems have n: "0 < ?n" and i: "0 \<le> p_batch_iter p"
    by simp_all
  show ?case
  proof (cases "pc_error c")
    case (Some e)
    let ?q = "deliver p (error_record p c e)"
    from Some Cons.prems(1) have q: "push_one p c = (None, ?q)"
      by (simp add: push_one_error)
    from Cons.prems have "sink_keeps ?q" "0 \<le> p_sample_iter ?q"
      "p_sample_iter ?q < p_stream_sample ?q" "1 < p_stream_batch ?q"
      "int (length pend) = p_batch_iter ?q" "p_batch_iter ?q < p_stream_batch ?q"
      "p_batch_iter ?q \<noteq> 0 \<longrightarrow> p_batch ?q = map held_row pend"
      by simp_all
    from Cons.IH [OF this] q Cons.prems(1) show ?thesis
      by (simp add: calls_step(1,3) [OF Some] received_deliver)
  next
    case None
    show ?thesis
    proof (cases "(p_sample_iter p + 1) mod ?n = 0")
      case False
      let ?q = "p\<lparr>p_sample_iter := (p_sample_iter p + 1) mod ?n\<rparr>"
      from None n False have q: "push_one p c = (None, ?q)"
        by (simp add: push_one_skip)
      from sample_step_skip [OF Cons.prems(2,3) False]
      have s: "(p_sample_iter p + 1) mod ?n = p_sample_iter p + 1" "p_sample_iter p + 1 < ?n" .
      from Cons.prems n s have "sink_keeps ?q" "0 \<le> p_sample_iter ?q"
        "p_sample_iter ?q < p_stream_sample ?q" "1 < p_stream_batch ?q"
        "int (length pend) = p_batch_iter ?q" "p_batch_iter ?q < p_stream_batch ?q"
        "p_batch_iter ?q \<noteq> 0 \<longrightarrow> p_batch ?q = map held_row pend"
        by simp_all
      from Cons.IH [OF this] q False show ?thesis
        by (simp add: calls_step(2,4) [OF None])
    next
      case True
      let ?em = "sampled ?n 0 (plain_calls cs)"
      let ?rows = "(if p_batch_iter p = 0 then [] else p_batch p) @ [held_row c]"
      from Cons.prems(5,7) have rows: "?rows = map held_row (pend @ [c])"
        by auto
      from True have em: "sampled ?n (p_sample_iter p) (plain_calls (c # cs)) = c # ?em"
        by (simp add: calls_step(2) [OF None])
      show ?thesis
      proof (cases "(p_batch_iter p + 1) mod ?b = 0")
        case False
        let ?q = "p\<lparr>p_sample_iter := 0, p_batch := ?rows,
                      p_batch_iter := (p_batch_iter p + 1) mod ?b\<rparr>"
        from None n True False Cons.prems have q: "push_one p c = (None, ?q)"
          by (simp add: push_one_batch_add)
        from batch_step_add [OF i Cons.prems(6) False]
        have s: "(p_batch_iter p + 1) mod ?b = p_batch_iter p + 1" "p_batch_iter p + 1 < ?b" .
        from Cons.prems n s rows have h: "sink_keeps ?q" "0 \<le> p_sample_iter ?q"
          "p_sample_iter ?q < p_stream_sample ?q" "1 < p_stream_batch ?q"
          "int (length (pend @ [c])) = p_batch_iter ?q" "p_batch_iter ?q < p_stream_batch ?q"
          "p_batch_iter ?q \<noteq> 0 \<longrightarrow> p_batch ?q = map held_row (pend @ [c])"
          by simp_all
        from s Cons.prems(5) have "length (pend @ [c]) \<le> nat ?b"
          by simp
        then have short: "last_rows (nat ?b) (pend @ [c]) = pend @ [c]"
          by (rule last_rows_short)
        from Cons.IH [OF h]
        have a: "filter (\<lambda>r. \<not> is_error_record r) (received (pushes ?q cs))
                   = filter (\<lambda>r. \<not> is_error_record r) (received p)
                     @ map (batch_record p) (batches (nat ?b) ((pend @ [c]) @ ?em))"
          and b: "filter is_error_record (received (pushes ?q cs))
                   = filter is_error_record (received p) @ error_records p cs"
          and d: "p_batch_iter (pushes ?q cs) = int (length ((pend @ [c]) @ ?em)) mod ?b"
          and f: "p_batch (pushes ?q cs)
                   = (if ?em = [] then ?rows
                      else map held_row (last_rows (nat ?b) ((pend @ [c]) @ ?em)))"
          by simp_all
        from f rows short
        have f': "p_batch (pushes ?q cs) = map held_row (last_rows (nat ?b) (pend @ c # ?em))"
          by (cases "?em = []") simp_all
        from a b d f' q show ?thesis
          unfolding em
          by (simp add: calls_step(4) [OF None])
      next
        case flush: True
        let ?rec = "([PDict (fields (pc_model c) p
                         @ [(''headers'', PList [PStr ''request'', PStr ''op'', PStr ''resp'',
                                                PStr ''when'', PStr ''microsec'', PStr ''metrics'']),
                            (''values'', read_batch (pc_model c) (p_batch p @ [held_row c]))])],
                     pc_partition_key c)"
        let ?q = "deliver (p\<lparr>p_sample_iter := 0, p_batch := p_batch p @ [held_row c],
                               p_batch_iter := 0\<rparr>) ?rec"
        from None n True flush Cons.prems have q: "push_one p c = (None, ?q)"
          by (simp add: push_one_batch_flush)
        from sample_step_hit [OF i Cons.prems(6) flush]
        have g0: "p_batch_iter p + 1 = ?b" .
        with Cons.prems(4) have nz: "p_batch_iter p \<noteq> 0" by simp
        with Cons.prems(7) have pb: "p_batch p = map held_row pend" by simp
        from g0 Cons.prems(5) have g: "length (pend @ [c]) = nat ?b"
          by simp
        from pb have "read_batch (pc_model c) (p_batch p @ [held_row c])
                        = PList (map (batch_row (pc_model c)) (pend @ [c]))"
          using read_held_rows [of "pc_model c" "pend @ [c]"] by simp
        then have rec: "?rec = batch_record p (pend @ [c])"
          by (simp add: batch_record_def)
        from Cons.prems(4) have pos: "0 < nat ?b" by simp
        from batches_cons [OF pos g]
        have bc: "batches (nat ?b) ((pend @ [c]) @ ?em) = (pend @ [c]) # batches (nat ?b) ?em" .
        have md: "(1 + (int (length pend) + k)) mod ?b = k mod ?b" for k :: int
        proof -
          from g0 Cons.prems(5) have e2: "1 + (int (length pend) + k) = ?b + k" by simp
          show ?thesis unfolding e2 by simp
        qed
        from Cons.prems n have h: "sink_keeps ?q" "0 \<le> p_sample_iter ?q"
          "p_sample_iter ?q < p_stream_sample ?q" "1 < p_stream_batch ?q"
          "int (length ([] :: push_call list)) = p_batch_iter ?q"
          "p_batch_iter ?q < p_stream_batch ?q"
          "p_batch_iter ?q \<noteq> 0 \<longrightarrow> p_batch ?q = map held_row []"
          by simp_all
        from Cons.IH [OF h] Cons.prems(1)
        have a: "filter (\<lambda>r. \<not> is_error_record r) (received (pushes ?q cs))
                   = filter (\<lambda>r. \<not> is_error_record r) (received p @ [?rec])
                     @ map (batch_record p) (batches (nat ?b) ?em)"
          and b: "filter is_error_record (received (pushes ?q cs))
                   = filter is_error_record (received p @ [?rec]) @ error_records p cs"
          and d: "p_batch_iter (pushes ?q cs) = int (length ?em) mod ?b"
          and f: "p_batch (pushes ?q cs)
                   = (if ?em = [] then p_batch p @ [held_row c]
                      else map held_row (last_rows (nat ?b) ?em))"
          by (simp_all add: received_deliver)
        have f': "p_batch (pushes ?q cs) = map held_row (last_rows (nat ?b) (pend @ c # ?em))"
        proof (cases "?em = []")
          case True
          from g have "last_rows (nat ?b) (pend @ [c]) = pend @ [c]"
            by (simp add: last_rows_short)
          with f pb True show ?thesis by simp
        next
          case False
          from last_rows_cons [OF pos g False] f False show ?thesis by simp
        qed
        from a b have a': "filter (\<lambda>r. \<not> is_error_record r) (received (pushes ?q cs))
                   = filter (\<lambda>r. \<not> is_error_record r) (received p)
                     @ map (batch_record p) (batches (nat ?b) (pend @ c # ?em))"
          and b': "filter is_error_record (received (pushes ?q cs))
                   = filter is_error_record (received p) @ error_records p cs"
          unfolding rec using bc by simp_all
        from d md have d': "p_batch_iter (pushes ?q cs) = int (length (pend @ c # ?em)) mod ?b"
          by simp
        from a' b' d' f' q show ?thesis
          unfolding em
          by (simp add: calls_step(4) [OF None])
      qed
    qed
  qed
qed

lemma push_one_flush_keeps_rows:
  assumes "sink_keeps q" and "pc_error c = None" and "emits q" and "1 < p_stream_batch q"
  shows "fst (push_one q c) = None"
    and "p_batch (snd (push_one q c)) = p_batch q @ [held_row c]"
    and "p_batch_iter (snd (push_one q c)) = 0"
    and "received (snd (push_one q c))
           = received q
             @ [([PDict (fields (pc_model c) q
                         @ [(''headers'', PList [PStr ''request'', PStr ''op'', PStr ''resp'',
                                                PStr ''when'', PStr ''microsec'', PStr ''metrics'']),
                            (''values'', read_batch (pc_model c) (p_batch q @ [held_row c]))])],
                 pc_partition_key c)]"
proof -
  from assms(3,4) have "p_stream_sample q \<noteq> 0" "(p_sample_iter q + 1) mod p_stream_sample q = 0"
    "(p_batch_iter q + 1) mod p_stream_batch q = 0"
    by (simp_all add: emits_def)
  from push_one_batch_flush [OF assms(1,2) this(1,2) assms(4) this(3)] assms(1)
  show "fst (push_one q c) = None"
    and "p_batch (snd (push_one q c)) = p_batch q @ [held_row c]"
    and "p_batch_iter (snd (push_one q c)) = 0"
    and "received (snd (push_one q c))
           = received q
             @ [([PDict (fields (pc_model c) q
                         @ [(''headers'', PList [PStr ''request'', PStr ''op'', PStr ''resp'',
                                                PStr ''when'', PStr ''microsec'', PStr ''metrics'']),
                            (''values'', read_batch (pc_model c) (p_batch q @ [held_row c]))])],
                 pc_partition_key c)]"
    by (simp_all add: received_deliver)
qed

lemma push_one_first_row:
  assumes "p_output_stream q \<noteq> None" and "pc_error c = None" and "p_stream_sample q \<noteq> 0"
    and "(p_sample_iter q + 1) mod p_stream_sample q = 0" and "1 < p_stream_batch q"
    and "p_batch_iter q = 0"
  shows "p_batch (snd (push_one q c)) = [held_row c]"
    and "p_batch_iter (snd (push_one q c)) = 1"
    and "received (snd (push_one q c)) = received q"
  using assms
  by (simp_all add: push_one_def push_def held_row_def timedelta_microseconds_def Let_def
        mod_pos_pos_trivial)

text \<open>
  C5, as stated, fails on the code: the buffer is not reset after a flush. With batch size 2
  and sample rate 1, after two pushes the sink has the record of the batch, the batch
  counter is back at 0, and the buffer still holds the two rows that were flushed. It is
  emptied when the next row arrives: after a third push it holds the row of that push only.
\<close>

theorem buffer_kept_after_flush_counterexample:
  "received (pushes (pusher_on good_sink 1 2) [plain_call (PInt 1), plain_call (PInt 2)])
     = [batch_record (pusher_on good_sink 1 2) [plain_call (PInt 1), plain_call (PInt 2)]]
   \<and> p_batch_iter (pushes (pusher_on good_sink 1 2) [plain_call (PInt 1), plain_call (PInt 2)]) = 0
   \<and> p_batch (pushes (pusher_on good_sink 1 2) [plain_call (PInt 1), plain_call (PInt 2)])
       = [held_row (plain_call (PInt 1)), held_row (plain_call (PInt 2))]
   \<and> p_batch (pushes (pusher_on good_sink 1 2) [plain_call (PInt 1), plain_call (PInt 2)]) \<noteq> []
   \<and> p_batch (pushes (pusher_on good_sink 1 2)
                [plain_call (PInt 1), plain_call (PInt 2), plain_call (PInt 3)])
       = [held_row (plain_call (PInt 3))]"
  by (simp add: push_eval_defs)

text \<open>
  C5, amended. A pusher starts with its counters at 0, on a sink that raises on no push, and
  gets any sequence of pushes, with and without an error; the emitted ones are those without
  an error that pass the sampling. A push with an error goes to the sink on its own, as the
  record of the error, and counts for no batch.

  With a batch size \<open>B > 1\<close> the other records of the sink are exactly the records of the
  full groups of \<open>B\<close> emitted pushes, in order: there are as many as the number of emitted
  pushes divided by \<open>B\<close>, each is one dict with the fields of the pusher, the header list
  and \<open>B\<close> rows of the shape (request, op, resp, when, microsec, metrics), the rows of its
  own group only, in order of arrival, and the rows of all records together are the emitted
  pushes up to the last full group. The metrics of every row of a record are the metrics that
  the model has when the record is handed over, since a row holds the dict of the metrics
  itself. What is left after the last full group, fewer than \<open>B\<close> rows, is not in the sink:
  these rows are in the buffer, and the batch counter holds their number.

  The buffer is not reset by the flush: the push that completes a batch leaves in it the \<open>B\<close>
  rows it has handed over, with the batch counter at 0, and the buffer is emptied by the
  next emitted push, which leaves its own row there. So after the sequence the buffer holds
  the rows that came after the last full group, or the rows of the last full group when
  nothing came after it.

  With a batch size of 1 (or less) each emitted push is handed to the sink on its own, as
  a flat record: the fields of the pusher, then request, op, resp, when, microsec, and the
  metrics when the model has any.
\<close>

theorem batching_full_batches:
  assumes "sink_keeps p" and "0 < p_stream_sample p" and "p_sample_iter p = 0"
    and "p_batch_iter p = 0"
  shows "(1 < p_stream_batch p
          \<longrightarrow> filter (\<lambda>r. \<not> is_error_record r) (received (pushes p cs))
                = filter (\<lambda>r. \<not> is_error_record r) (received p)
                  @ map (batch_record p) (batches (nat (p_stream_batch p)) (emitted p cs))
              \<and> length (batches (nat (p_stream_batch p)) (emitted p cs))
                  = length (emitted p cs) div nat (p_stream_batch p)
              \<and> (\<forall>g \<in> set (batches (nat (p_stream_batch p)) (emitted p cs)).
                    length g = nat (p_stream_batch p))
              \<and> concat (batches (nat (p_stream_batch p)) (emitted p cs))
                  = take (nat (p_stream_batch p)
                          * (length (emitted p cs) div nat (p_stream_batch p)))
                      (emitted p cs)
              \<and> p_batch_iter (pushes p cs) = int (length (emitted p cs)) mod p_stream_batch p
              \<and> (emitted p cs \<noteq> []
                   \<longrightarrow> p_batch (pushes p cs)
                         = map held_row (last_rows (nat (p_stream_batch p)) (emitted p cs)))
              \<and> (length (emitted p cs) mod nat (p_stream_batch p) \<noteq> 0
                   \<longrightarrow> last_rows (nat (p_stream_batch p)) (emitted p cs)
                         = drop (nat (p_stream_batch p)
                                 * (length (emitted p cs) div nat (p_stream_batch p)))
                             (emitted p cs))
              \<and> (emitted p cs \<noteq> [] \<and> length (emitted p cs) mod nat (p_stream_batch p) = 0
                   \<longrightarrow> last_rows (nat (p_stream_batch p)) (emitted p cs)
                         = last (batches (nat (p_stream_batch p)) (emitted p cs))))
       \<and> (p_stream_batch p \<le> 1
          \<longrightarrow> filter (\<lambda>r. \<not> is_error_record r) (received (pushes p cs))
                = filter (\<lambda>r. \<not> is_error_record r) (received p)
                  @ map (flat_record p) (emitted p cs))
       \<and> filter is_error_record (received (pushes p cs))
           = filter is_error_record (received p) @ error_records p cs
       \<and> (\<forall>q c. sink_keeps q \<and> pc_error c = None \<and> emits q \<and> 1 < p_stream_batch q
             \<longrightarrow> p_batch (snd (push_one q c)) = p_batch q @ [held_row c]
                 \<and> p_batch_iter (snd (push_one q c)) = 0
                 \<and> received (snd (push_one q c))
                     = received q
                       @ [([PDict (fields (pc_model c) q
                                   @ [(''headers'',
                                       PList [PStr ''request'', PStr ''op'', PStr ''resp'',
                                              PStr ''when'', PStr ''microsec'', PStr ''metrics'']),
                                      (''values'',
                                       read_batch (pc_model c) (p_batch q @ [held_row c]))])],
                           pc_partition_key c)])
       \<and> (\<forall>q c. p_output_stream q \<noteq> None \<and> pc_error c = None \<and> p_stream_sample q \<noteq> 0
                \<and> (p_sample_iter q + 1) mod p_stream_sample q = 0 \<and> 1 < p_stream_batch q
                \<and> p_batch_iter q = 0
             \<longrightarrow> p_batch (snd (push_one q c)) = [held_row c]
                 \<and> p_batch_iter (snd (push_one q c)) = 1
                 \<and> received (snd (push_one q c)) = received q)"
proof -
  let ?b = "nat (p_stream_batch p)"
  let ?em = "emitted p cs"
  from assms have h: "0 \<le> p_sample_iter p" "p_sample_iter p < p_stream_sample p"
    by simp_all
  have em: "sampled (p_stream_sample p) (p_sample_iter p) (plain_calls cs) = ?em"
    by (simp add: emitted_def)
  have batched: "1 < p_stream_batch p \<longrightarrow>
              filter (\<lambda>r. \<not> is_error_record r) (received (pushes p cs))
                = filter (\<lambda>r. \<not> is_error_record r) (received p)
                  @ map (batch_record p) (batches ?b ?em)
              \<and> length (batches ?b ?em) = length ?em div ?b
              \<and> (\<forall>g \<in> set (batches ?b ?em). length g = ?b)
              \<and> concat (batches ?b ?em) = take (?b * (length ?em div ?b)) ?em
              \<and> p_batch_iter (pushes p cs) = int (length ?em) mod p_stream_batch p
              \<and> (?em \<noteq> [] \<longrightarrow> p_batch (pushes p cs) = map held_row (last_rows ?b ?em))
              \<and> (length ?em mod ?b \<noteq> 0
                   \<longrightarrow> last_rows ?b ?em = drop (?b * (length ?em div ?b)) ?em)
              \<and> (?em \<noteq> [] \<and> length ?em mod ?b = 0
                   \<longrightarrow> last_rows ?b ?em = last (batches ?b ?em))"
  proof (rule impI)
    assume b: "1 < p_stream_batch p"
    from assms b have k: "int (length ([] :: push_call list)) = p_batch_iter p"
      "p_batch_iter p < p_stream_batch p"
      "p_batch_iter p \<noteq> 0 \<longrightarrow> p_batch p = map held_row []"
      by simp_all
    from pushes_batching [OF assms(1) h b k, of cs]
    have 1: "filter (\<lambda>r. \<not> is_error_record r) (received (pushes p cs))
                = filter (\<lambda>r. \<not> is_error_record r) (received p)
                  @ map (batch_record p) (batches ?b ?em)"
      and 2: "p_batch_iter (pushes p cs) = int (length ?em) mod p_stream_batch p"
      and 3: "p_batch (pushes p cs)
                = (if ?em = [] then p_batch p else map held_row (last_rows ?b ?em))"
      unfolding em by simp_all
    from b have pos: "0 < ?b" by simp
    have 4: "length (batches ?b ?em) = length ?em div ?b"
      using pos by (rule length_batches)
    have 5: "\<forall>g \<in> set (batches ?b ?em). length g = ?b"
      by (simp add: batches_full)
    have 6: "concat (batches ?b ?em) = take (?b * (length ?em div ?b)) ?em"
      using pos by (rule concat_batches)
    from 3 have 7: "?em \<noteq> [] \<longrightarrow> p_batch (pushes p cs) = map held_row (last_rows ?b ?em)"
      by simp
    have 8: "length ?em mod ?b \<noteq> 0 \<longrightarrow> last_rows ?b ?em = drop (?b * (length ?em div ?b)) ?em"
      by (rule impI) (rule last_rows_partial [OF pos])
    have 9: "?em \<noteq> [] \<and> length ?em mod ?b = 0 \<longrightarrow> last_rows ?b ?em = last (batches ?b ?em)"
      by (rule impI, erule conjE, rule last_rows_full [OF pos])
    show "filter (\<lambda>r. \<not> is_error_record r) (received (pushes p cs))
                = filter (\<lambda>r. \<not> is_error_record r) (received p)
                  @ map (batch_record p) (batches ?b ?em)
              \<and> length (batches ?b ?em) = length ?em div ?b
              \<and> (\<forall>g \<in> set (batches ?b ?em). length g = ?b)
              \<and> concat (batches ?b ?em) = take (?b * (length ?em div ?b)) ?em
              \<and> p_batch_iter (pushes p cs) = int (length ?em) mod p_stream_batch p
              \<and> (?em \<noteq> [] \<longrightarrow> p_batch (pushes p cs) = map held_row (last_rows ?b ?em))
              \<and> (length ?em mod ?b \<noteq> 0
                   \<longrightarrow> last_rows ?b ?em = drop (?b * (length ?em div ?b)) ?em)
              \<and> (?em \<noteq> [] \<and> length ?em mod ?b = 0
                   \<longrightarrow> last_rows ?b ?em = last (batches ?b ?em))"
      by (intro conjI) (fact 1 4 5 6 2 7 8 9)+
  qed
  have flat: "p_stream_batch p \<le> 1 \<longrightarrow>
              filter (\<lambda>r. \<not> is_error_record r) (received (pushes p cs))
                = filter (\<lambda>r. \<not> is_error_record r) (received p) @ map (flat_record p) ?em"
  proof (rule impI)
    assume b: "p_stream_batch p \<le> 1"
    from pushes_flat [OF assms(1) h b, of cs]
    show "filter (\<lambda>r. \<not> is_error_record r) (received (pushes p cs))
                = filter (\<lambda>r. \<not> is_error_record r) (received p) @ map (flat_record p) ?em"
      unfolding em by simp
  qed
  have errors: "filter is_error_record (received (pushes p cs))
                  = filter is_error_record (received p) @ error_records p cs"
  proof (cases "1 < p_stream_batch p")
    case True
    from assms True have k: "int (length ([] :: push_call list)) = p_batch_iter p"
      "p_batch_iter p < p_stream_batch p"
      "p_batch_iter p \<noteq> 0 \<longrightarrow> p_batch p = map held_row []"
      by simp_all
    from pushes_batching [OF assms(1) h True k, of cs] show ?thesis by simp
  next
    case False
    then have "p_stream_batch p \<le> 1" by simp
    from pushes_flat [OF assms(1) h this, of cs] show ?thesis by simp
  qed
  have flush: "\<forall>q c. sink_keeps q \<and> pc_error c = None \<and> emits q \<and> 1 < p_stream_batch q
             \<longrightarrow> p_batch (snd (push_one q c)) = p_batch q @ [held_row c]
                 \<and> p_batch_iter (snd (push_one q c)) = 0
                 \<and> received (snd (push_one q c))
                     = received q
                       @ [([PDict (fields (pc_model c) q
                                   @ [(''headers'',
                                       PList [PStr ''request'', PStr ''op'', PStr ''resp'',
                                              PStr ''when'', PStr ''microsec'', PStr ''metrics'']),
                                      (''values'',
                                       read_batch (pc_model c) (p_batch q @ [held_row c]))])],
                           pc_partition_key c)]"
  proof (intro allI impI)
    fix q :: pusher and c :: push_call
    assume "sink_keeps q \<and> pc_error c = None \<and> emits q \<and> 1 < p_stream_batch q"
    then have s: "sink_keeps q" "pc_error c = None" "emits q" "1 < p_stream_batch q"
      by simp_all
    show "p_batch (snd (push_one q c)) = p_batch q @ [held_row c]
                 \<and> p_batch_iter (snd (push_one q c)) = 0
                 \<and> received (snd (push_one q c))
                     = received q
                       @ [([PDict (fields (pc_model c) q
                                   @ [(''headers'',
                                       PList [PStr ''request'', PStr ''op'', PStr ''resp'',
                                              PStr ''when'', PStr ''microsec'', PStr ''metrics'']),
                                      (''values'',
                                       read_batch (pc_model c) (p_batch q @ [held_row c]))])],
                           pc_partition_key c)]"
      by (intro conjI) (rule push_one_flush_keeps_rows(2,3,4) [OF s])+
  qed
  have first: "\<forall>q c. p_output_stream q \<noteq> None \<and> pc_error c = None \<and> p_stream_sample q \<noteq> 0
                \<and> (p_sample_iter q + 1) mod p_stream_sample q = 0 \<and> 1 < p_stream_batch q
                \<and> p_batch_iter q = 0
             \<longrightarrow> p_batch (snd (push_one q c)) = [held_row c]
                 \<and> p_batch_iter (snd (push_one q c)) = 1
                 \<and> received (snd (push_one q c)) = received q"
  proof (intro allI impI)
    fix q :: pusher and c :: push_call
    assume "p_output_stream q \<noteq> None \<and> pc_error c = None \<and> p_stream_sample q \<noteq> 0
                \<and> (p_sample_iter q + 1) mod p_stream_sample q = 0 \<and> 1 < p_stream_batch q
                \<and> p_batch_iter q = 0"
    then have s: "p_output_stream q \<noteq> None" "pc_error c = None" "p_stream_sample q \<noteq> 0"
      "(p_sample_iter q + 1) mod p_stream_sample q = 0" "1 < p_stream_batch q"
      "p_batch_iter q = 0"
      by simp_all
    show "p_batch (snd (push_one q c)) = [held_row c]
                 \<and> p_batch_iter (snd (push_one q c)) = 1
                 \<and> received (snd (push_one q c)) = received q"
      by (intro conjI) (rule push_one_first_row [OF s])+
  qed
  show ?thesis
    by (intro conjI) (fact batched flat errors flush first)+
qed

theorem batching_full_batches_witness:
  "filter (\<lambda>r. \<not> is_error_record r)
     (received (pushes (pusher_on good_sink 2 2)
        [plain_call (PInt 1), plain_call (PInt 2), failed_call (PInt 3), plain_call (PInt 4),
         plain_call (PInt 5), plain_call (PInt 6), plain_call (PInt 7), plain_call (PInt 8)]))
     = [([PDict
           [(''class'', PStr ''MyClass''), (''worker'', PInt 0), (''model'', PStr ''my''),
            (''version'', PStr []), (''host'', PStr ''host''),
            (''function_uri'', PStr ''proj/serving''), (''endpoint_id'', PNone),
            (''headers'',
             PList [PStr ''request'', PStr ''op'', PStr ''resp'', PStr ''when'',
                    PStr ''microsec'', PStr ''metrics'']),
            (''values'',
             PList
               [PList [PInt 2, PStr ''infer'', PDict [(''outputs'', PList [PInt 7])],
                       PStr ''1970-01-01 00:00:00+00:00'', PInt 500000, PDict []],
                PList [PInt 5, PStr ''infer'', PDict [(''outputs'', PList [PInt 7])],
                       PStr ''1970-01-01 00:00:00+00:00'', PInt 500000, PDict []]])]],
         PNone)]
   \<and> filter is_error_record
       (received (pushes (pusher_on good_sink 2 2)
          [plain_call (PInt 1), plain_call (PInt 2), failed_call (PInt 3), plain_call (PInt 4),
           plain_call (PInt 5), plain_call (PInt 6), plain_call (PInt 7), plain_call (PInt 8)]))
       = [([PDict
             [(''class'', PStr ''MyClass''), (''worker'', PInt 0), (''model'', PStr ''my''),
              (''version'', PStr []), (''host'', PStr ''host''),
              (''function_uri'', PStr ''proj/serving''), (''endpoint_id'', PNone),
              (''request'', PInt 3), (''op'', PStr ''infer''),
              (''when'', PStr ''1970-01-01 00:00:00.000000+00:00''),
              (''error'', PStr ''bad input'')]],
           PNone)]
   \<and> p_batch_iter (pushes (pusher_on good_sink 2 2)
        [plain_call (PInt 1), plain_call (PInt 2), failed_call (PInt 3), plain_call (PInt 4),
         plain_call (PInt 5), plain_call (PInt 6), plain_call (PInt 7), plain_call (PInt 8)]) = 1
   \<and> p_batch (pushes (pusher_on good_sink 2 2)
        [plain_call (PInt 1), plain_call (PInt 2), failed_call (PInt 3), plain_call (PInt 4),
         plain_call (PInt 5), plain_call (PInt 6), plain_call (PInt 7), plain_call (PInt 8)])
       = [[Held (PInt 7), Held (PStr ''infer''), Held (PDict [(''outputs'', PList [PInt 7])]),
           Held (PStr ''1970-01-01 00:00:00+00:00''), Held (PInt 500000), ModelMetrics]]
   \<and> filter (\<lambda>r. \<not> is_error_record r)
       (received (pushes (pusher_on good_sink 2 1)
          [plain_call (PInt 1), metered_call (PInt 2), failed_call (PInt 3)]))
       = [([PDict
             [(''class'', PStr ''MyClass''), (''worker'', PInt 0), (''model'', PStr ''my''),
              (''version'', PStr []), (''host'', PStr ''host''),
              (''function_uri'', PStr ''proj/serving''), (''endpoint_id'', PNone),
              (''request'', PInt 2), (''op'', PStr ''infer''),
              (''resp'', PDict [(''outputs'', PList [PInt 7])]),
              (''when'', PStr ''1970-01-01 00:00:00.000000+00:00''),
              (''microsec'', PInt 500000),
              (''metrics'', PDict [(''latency'', PInt 5)])]],
           PNone)]
   \<and> filter (\<lambda>r. \<not> is_error_record r)
       (received (pushes (pusher_on good_sink 1 2) [plain_call (PInt 1), metered_call (PInt 2)]))
       = [([PDict
             [(''class'', PStr ''MyClass''), (''worker'', PInt 0), (''model'', PStr ''my''),
              (''version'', PStr []), (''host'', PStr ''host''),
              (''function_uri'', PStr ''proj/serving''), (''endpoint_id'', PNone),
              (''headers'',
               PList [PStr ''request'', PStr ''op'', PStr ''resp'', PStr ''when'',
                      PStr ''microsec'', PStr ''metrics'']),
              (''values'',
               PList
                 [PList [PInt 1, PStr ''infer'', PDict [(''outputs'', PList [PInt 7])],
                         PStr ''1970-01-01 00:00:00+00:00'', PInt 500000,
                         PDict [(''latency'', PInt 5)]],
                  PList [PInt 2, PStr ''infer'', PDict [(''outputs'', PList [PInt 7])],
                         PStr ''1970-01-01 00:00:00+00:00'', PInt 500000,
                         PDict [(''latency'', PInt 5)]]])]],
           PNone)]
   \<and> p_batch_iter (pushes (pusher_on good_sink 1 2)
                     [plain_call (PInt 1), metered_call (PInt 2)]) = 0
   \<and> p_batch (pushes (pusher_on good_sink 1 2) [plain_call (PInt 1), metered_call (PInt 2)])
       = [held_row (plain_call (PInt 1)), held_row (metered_call (PInt 2))]
   \<and> p_batch (snd (push_one ((pusher_on good_sink 1 2)
                               \<lparr>p_batch_iter := 1, p_batch := [held_row (plain_call (PInt 1))]\<rparr>)
                      (metered_call (PInt 2))))
       = [held_row (plain_call (PInt 1)), held_row (metered_call (PInt 2))]
   \<and> p_batch (snd (push_one ((pusher_on good_sink 1 2)
                               \<lparr>p_batch := [held_row (plain_call (PInt 1)),
                                            held_row (metered_call (PInt 2))]\<rparr>)
                      (plain_call (PInt 3))))
       = [held_row (plain_call (PInt 3))]"
proof -
  let ?p = "pusher_on good_sink 2 2"
  let ?f = "pusher_on good_sink 2 1"
  let ?m = "pusher_on good_sink 1 2"
  let ?c1 = "plain_call (PInt 1)"
  let ?c2 = "plain_call (PInt 2)"
  let ?c5 = "plain_call (PInt 5)"
  let ?c7 = "plain_call (PInt 7)"
  let ?m2 = "metered_call (PInt 2)"
  let ?cs = "[plain_call (PInt 1), plain_call (PInt 2), failed_call (PInt 3), plain_call (PInt 4),
         plain_call (PInt 5), plain_call (PInt 6), plain_call (PInt 7), plain_call (PInt 8)]"
  let ?fs = "[plain_call (PInt 1), metered_call (PInt 2), failed_call (PInt 3)]"
  let ?ms = "[plain_call (PInt 1), metered_call (PInt 2)]"
  let ?q1 = "(pusher_on good_sink 1 2)\<lparr>p_batch_iter := 1, p_batch := [held_row ?c1]\<rparr>"
  let ?q0 = "(pusher_on good_sink 1 2)\<lparr>p_batch := [held_row ?c1, held_row ?m2]\<rparr>"
  have h: "sink_keeps ?p" "0 < p_stream_sample ?p" "p_sample_iter ?p = 0" "p_batch_iter ?p = 0"
    and k: "sink_keeps ?f" "0 < p_stream_sample ?f" "p_sample_iter ?f = 0" "p_batch_iter ?f = 0"
    and l: "sink_keeps ?m" "0 < p_stream_sample ?m" "p_sample_iter ?m = 0" "p_batch_iter ?m = 0"
    by (simp_all add: sink_keeps_def pusher_on_def init_pusher_def good_sink_def)
  have v: "p_stream_batch ?p = 2" "received ?p = []"
          "p_stream_batch ?f = 1" "received ?f = []"
          "p_stream_batch ?m = 2" "received ?m = []"
    by (simp_all add: received_def pusher_on_def init_pusher_def good_sink_def)
  have e: "pc_error (plain_call x) = None" "pc_error (metered_call x) = None"
          "pc_error (failed_call x) = Some inference_error" for x
    by (simp_all add: plain_call_def metered_call_def failed_call_def)
  have em: "emitted ?p ?cs = [?c2, ?c5, ?c7]" "emitted ?f ?fs = [?m2]" "emitted ?m ?ms = [?c1, ?m2]"
    by (simp_all add: emitted_def plain_calls_def is_error_call_def e pusher_on_def
          init_pusher_def)
  have er: "error_records ?p ?cs = [error_record ?p (failed_call (PInt 3)) inference_error]"
    by (simp add: error_records_def e)
  have b: "batches 2 [?c2, ?c5, ?c7] = [[?c2, ?c5]]" "batches 2 [?c1, ?m2] = [[?c1, ?m2]]"
          "last_rows 2 [?c2, ?c5, ?c7] = [?c7]" "last_rows 2 [?c1, ?m2] = [?c1, ?m2]"
    by (simp_all add: batches.simps last_rows.simps)
  have q1: "sink_keeps ?q1" "emits ?q1" "1 < p_stream_batch ?q1" "p_batch ?q1 = [held_row ?c1]"
    by (simp_all add: sink_keeps_def emits_def pusher_on_def init_pusher_def good_sink_def)
  have q0: "p_output_stream ?q0 \<noteq> None" "p_stream_sample ?q0 \<noteq> 0"
    "(p_sample_iter ?q0 + 1) mod p_stream_sample ?q0 = 0" "1 < p_stream_batch ?q0"
    "p_batch_iter ?q0 = 0"
    by (simp_all add: pusher_on_def init_pusher_def)
  have r: "batch_record ?p [?c2, ?c5]
     = ([PDict
           [(''class'', PStr ''MyClass''), (''worker'', PInt 0), (''model'', PStr ''my''),
            (''version'', PStr []), (''host'', PStr ''host''),
            (''function_uri'', PStr ''proj/serving''), (''endpoint_id'', PNone),
            (''headers'',
             PList [PStr ''request'', PStr ''op'', PStr ''resp'', PStr ''when'',
                    PStr ''microsec'', PStr ''metrics'']),
            (''values'',
             PList
               [PList [PInt 2, PStr ''infer'', PDict [(''outputs'', PList [PInt 7])],
                       PStr ''1970-01-01 00:00:00+00:00'', PInt 500000, PDict []],
                PList [PInt 5, PStr ''infer'', PDict [(''outputs'', PList [PInt 7])],
                       PStr ''1970-01-01 00:00:00+00:00'', PInt 500000, PDict []]])]],
         PNone)"
    "error_record ?p (failed_call (PInt 3)) inference_error
       = ([PDict
             [(''class'', PStr ''MyClass''), (''worker'', PInt 0), (''model'', PStr ''my''),
              (''version'', PStr []), (''host'', PStr ''host''),
              (''function_uri'', PStr ''proj/serving''), (''endpoint_id'', PNone),
              (''request'', PInt 3), (''op'', PStr ''infer''),
              (''when'', PStr ''1970-01-01 00:00:00.000000+00:00''),
              (''error'', PStr ''bad input'')]],
           PNone)"
    "flat_record ?f ?m2
       = ([PDict
             [(''class'', PStr ''MyClass''), (''worker'', PInt 0), (''model'', PStr ''my''),
              (''version'', PStr []), (''host'', PStr ''host''),
              (''function_uri'', PStr ''proj/serving''), (''endpoint_id'', PNone),
              (''request'', PInt 2), (''op'', PStr ''infer''),
              (''resp'', PDict [(''outputs'', PList [PInt 7])]),
              (''when'', PStr ''1970-01-01 00:00:00.000000+00:00''),
              (''microsec'', PInt 500000),
              (''metrics'', PDict [(''latency'', PInt 5)])]],
           PNone)"
    "batch_record ?m [?c1, ?m2]
       = ([PDict
             [(''class'', PStr ''MyClass''), (''worker'', PInt 0), (''model'', PStr ''my''),
              (''version'', PStr []), (''host'', PStr ''host''),
              (''function_uri'', PStr ''proj/serving''), (''endpoint_id'', PNone),
              (''headers'',
               PList [PStr ''request'', PStr ''op'', PStr ''resp'', PStr ''when'',
                      PStr ''microsec'', PStr ''metrics'']),
              (''values'',
               PList
                 [PList [PInt 1, PStr ''infer'', PDict [(''outputs'', PList [PInt 7])],
                         PStr ''1970-01-01 00:00:00+00:00'', PInt 500000,
                         PDict [(''latency'', PInt 5)]],
                  PList [PInt 2, PStr ''infer'', PDict [(''outputs'', PList [PInt 7])],
                         PStr ''1970-01-01 00:00:00+00:00'', PInt 500000,
                         PDict [(''latency'', PInt 5)]]])]],
           PNone)"
    "held_row ?c7
       = [Held (PInt 7), Held (PStr ''infer''), Held (PDict [(''outputs'', PList [PInt 7])]),
          Held (PStr ''1970-01-01 00:00:00+00:00''), Held (PInt 500000), ModelMetrics]"
    by (simp_all add: batch_record_def batch_row_def flat_record_def error_record_def
          held_row_def fields_def plain_call_def metered_call_def failed_call_def set_metric_def
          inference_error_def pusher_on_def init_pusher_def cx0_def out0_def srv_my_def
          init_server_def)
  have one: "1 < p_stream_batch ?p" "p_stream_batch ?f \<le> 1" "1 < p_stream_batch ?m"
    by (simp_all add: v)
  note t1 = batching_full_batches [OF h, of ?cs]
  note t2 = batching_full_batches [OF k, of ?fs]
  note t3 = batching_full_batches [OF l, of ?ms]
  note b1 = t1 [THEN conjunct1, THEN mp, OF one(1)]
  note b3 = t3 [THEN conjunct1, THEN mp, OF one(3)]
  note a1 = b1 [THEN conjunct1, unfolded v]
  note a2 = t1 [THEN conjunct2, THEN conjunct2, THEN conjunct1, unfolded v]
  note a3 = b1 [THEN conjunct2, THEN conjunct2, THEN conjunct2, THEN conjunct2, THEN conjunct1,
                unfolded v]
  note a4 = b1 [THEN conjunct2, THEN conjunct2, THEN conjunct2, THEN conjunct2, THEN conjunct2,
                THEN conjunct1, unfolded v]
  note a5 = t2 [THEN conjunct2, THEN conjunct1, THEN mp, OF one(2), unfolded v]
  note a6 = b3 [THEN conjunct1, unfolded v]
  note a7 = b3 [THEN conjunct2, THEN conjunct2, THEN conjunct2, THEN conjunct2, THEN conjunct1,
                unfolded v]
  note a8 = b3 [THEN conjunct2, THEN conjunct2, THEN conjunct2, THEN conjunct2, THEN conjunct2,
                THEN conjunct1, unfolded v]
  note a9 = t3 [THEN conjunct2, THEN conjunct2, THEN conjunct2, THEN conjunct1, THEN spec,
                THEN spec, THEN mp, of ?q1 ?m2]
  note a10 = t3 [THEN conjunct2, THEN conjunct2, THEN conjunct2, THEN conjunct2, THEN spec,
                 THEN spec, THEN mp, of ?q0 "plain_call (PInt 3)"]
  from a1 have w1: "filter (\<lambda>r. \<not> is_error_record r) (received (pushes ?p ?cs))
                      = [batch_record ?p [?c2, ?c5]]"
    by (simp add: em b del: pushes.simps)
  from a2 have w2: "filter is_error_record (received (pushes ?p ?cs))
                      = [error_record ?p (failed_call (PInt 3)) inference_error]"
    by (simp add: er del: pushes.simps)
  from a3 have w3: "p_batch_iter (pushes ?p ?cs) = 1"
    by (simp add: em del: pushes.simps)
  from a4 have w4: "p_batch (pushes ?p ?cs) = [held_row ?c7]"
    by (simp add: em b del: pushes.simps)
  from a5 have w5: "filter (\<lambda>r. \<not> is_error_record r) (received (pushes ?f ?fs))
                      = [flat_record ?f ?m2]"
    by (simp add: em del: pushes.simps)
  from a6 have w6: "filter (\<lambda>r. \<not> is_error_record r) (received (pushes ?m ?ms))
                      = [batch_record ?m [?c1, ?m2]]"
    by (simp add: em b del: pushes.simps)
  from a7 have w7: "p_batch_iter (pushes ?m ?ms) = 0"
    by (simp add: em del: pushes.simps)
  from a8 have w8: "p_batch (pushes ?m ?ms) = [held_row ?c1, held_row ?m2]"
    by (simp add: em b del: pushes.simps)
  from q1 e have "sink_keeps ?q1 \<and> pc_error ?m2 = None \<and> emits ?q1 \<and> 1 < p_stream_batch ?q1"
    by simp
  from a9 [OF this] q1(4)
  have w9: "p_batch (snd (push_one ?q1 ?m2)) = [held_row ?c1, held_row ?m2]"
    by simp
  from q0 e have "p_output_stream ?q0 \<noteq> None \<and> pc_error (plain_call (PInt 3)) = None
                \<and> p_stream_sample ?q0 \<noteq> 0
                \<and> (p_sample_iter ?q0 + 1) mod p_stream_sample ?q0 = 0 \<and> 1 < p_stream_batch ?q0
                \<and> p_batch_iter ?q0 = 0"
    by simp
  from a10 [OF this]
  have w10: "p_batch (snd (push_one ?q0 (plain_call (PInt 3))))
                             = [held_row (plain_call (PInt 3))]"
    by simp
  show ?thesis
    unfolding w1 w2 w3 w4 w5 w6 w7 w8 w9 w10 r
    by simp
qed

end
